(* ===== verification/Prelude.thy ===== *)
theory Prelude
  imports Complex_Main "HOL-Library.Multiset"
begin

text \<open>
  Shared vocabulary of the development. The program is a pandas/numpy pipeline; a
  pandas \<open>Series\<close> of floats is modelled as a \<open>real list\<close> (row order kept), and the
  few pandas primitives the sources call on whole columns are defined here once:
  \<open>cumsum\<close> (\<open>Series.cumsum\<close>), \<open>diff0\<close> (\<open>Series.diff().fillna(0)\<close>), \<open>mean\<close>
  (\<open>Series.mean\<close> of a non-empty series), \<open>smax\<close>/\<open>smin\<close> (\<open>Series.max\<close>/\<open>min\<close> of a
  non-empty series). Floats are modelled as reals: rounding is not modelled.
  The collection \<open>series_simps\<close> gathers the evaluation rules of these primitives.
\<close>

named_theorems series_simps "evaluation rules of the modelled pandas primitives"

type_synonym series = "real list"

section \<open>Running sums (pandas cumsum) as an explicit scan\<close>

fun cumsum_from :: "real \<Rightarrow> series \<Rightarrow> series" where
  "cumsum_from acc [] = []"
| "cumsum_from acc (x # xs) = (acc + x) # cumsum_from (acc + x) xs"

definition cumsum :: "series \<Rightarrow> series" where
  "cumsum xs = cumsum_from 0 xs"

section \<open>Consecutive differences (pandas diff().fillna(0))\<close>

fun diffs_from :: "real \<Rightarrow> series \<Rightarrow> series" where
  "diffs_from p [] = []"
| "diffs_from p (x # xs) = (x - p) # diffs_from x xs"

definition diff0 :: "series \<Rightarrow> series" where
  "diff0 xs = (case xs of [] \<Rightarrow> [] | x # ys \<Rightarrow> 0 # diffs_from x ys)"

section \<open>Mean, maximum and minimum of a non-empty series\<close>

definition mean :: "series \<Rightarrow> real" where
  "mean xs = sum_list xs / real (length xs)"

definition smax :: "series \<Rightarrow> real" where
  "smax xs = Max (set xs)"

definition smin :: "series \<Rightarrow> real" where
  "smin xs = Min (set xs)"

section \<open>Series with NaN\<close>

text \<open>
  A float column that may hold NaN is a \<open>real option list\<close>, \<open>None\<close> for NaN; pandas
  reductions (\<open>min\<close>, \<open>max\<close>, \<open>mean\<close>) skip NaN, that is, they work on \<open>present xs\<close>.
\<close>

fun present :: "'a option list \<Rightarrow> 'a list" where
  "present [] = []"
| "present (None # xs) = present xs"
| "present (Some x # xs) = x # present xs"

text \<open>pandas \<open>GroupBy.first()\<close>: the first non-NaN value of a column, NaN if there is none.\<close>

definition first_present :: "'a option list \<Rightarrow> 'a option" where
  "first_present xs = (case present xs of [] \<Rightarrow> None | x # _ \<Rightarrow> Some x)"

section \<open>Lemmas on the primitives\<close>

lemma length_cumsum_from [simp]: "length (cumsum_from acc xs) = length xs"
  by (induction xs arbitrary: acc) auto

lemma length_cumsum [simp]: "length (cumsum xs) = length xs"
  by (simp add: cumsum_def)

lemma cumsum_from_nth:
  "i < length xs \<Longrightarrow> cumsum_from acc xs ! i = acc + sum_list (take (Suc i) xs)"
proof (induction xs arbitrary: acc i)
  case Nil
  then show ?case by simp
next
  case (Cons x xs)
  then show ?case by (cases i) (simp_all add: add.assoc)
qed

text \<open>The scan computes the prefix sums: \<open>cumsum xs ! i = x\<^sub>0 + \<dots> + x\<^sub>i\<close>.\<close>

lemma cumsum_nth [series_simps]:
  "i < length xs \<Longrightarrow> cumsum xs ! i = sum_list (take (Suc i) xs)"
  by (simp add: cumsum_def cumsum_from_nth)

lemma cumsum_Nil [simp, series_simps]: "cumsum [] = []"
  by (simp add: cumsum_def)

lemma cumsum_from_Cons_hd: "cumsum_from acc (x # xs) ! 0 = acc + x"
  by simp

lemma sum_list_take_mono:
  assumes "\<forall>x \<in> set xs. (0::real) \<le> x" "i \<le> j"
  shows "sum_list (take i xs) \<le> sum_list (take j xs)"
proof -
  have "take j xs = take i xs @ take (j - i) (drop i xs)"
    using assms(2) by (metis le_add_diff_inverse take_add)
  moreover have "0 \<le> sum_list (take (j - i) (drop i xs))"
    using assms(1) by (intro sum_list_nonneg) (meson in_set_dropD in_set_takeD)
  ultimately show ?thesis by simp
qed

lemma sum_list_take_nonneg:
  "\<forall>x \<in> set xs. (0::real) \<le> x \<Longrightarrow> 0 \<le> sum_list (take i xs)"
  by (intro sum_list_nonneg) (meson in_set_takeD)

lemma length_diffs_from [simp]: "length (diffs_from p xs) = length xs"
  by (induction xs arbitrary: p) auto

lemma length_diff0 [simp]: "length (diff0 xs) = length xs"
  by (cases xs) (simp_all add: diff0_def)

lemma diff0_Cons [series_simps]: "diff0 (x # xs) = 0 # diffs_from x xs"
  by (simp add: diff0_def)

lemma diff0_Nil [simp, series_simps]: "diff0 [] = []"
  by (simp add: diff0_def)

lemma diffs_from_const:
  "\<forall>y \<in> set (x # xs). y = c \<Longrightarrow> set (diffs_from x xs) \<subseteq> {0::real}"
  by (induction xs arbitrary: x) auto

text \<open>The differences of a constant series are all zero.\<close>

lemma diff0_const:
  assumes "\<forall>y \<in> set xs. y = c"
  shows "set (diff0 xs) \<subseteq> {0::real}"
proof (cases xs)
  case Nil
  then show ?thesis by simp
next
  case (Cons x ys)
  with assms have "set (diffs_from x ys) \<subseteq> {0}" by (intro diffs_from_const [where c = c]) simp
  with Cons show ?thesis by (simp add: diff0_def)
qed

lemma diffs_from_strict_decreasing:
  "sorted_wrt (>) (x # xs) \<Longrightarrow> \<forall>d \<in> set (diffs_from x xs). d < (0::real)"
  by (induction xs arbitrary: x) auto

text \<open>The differences of a strictly decreasing series are never positive.\<close>

lemma diff0_strict_decreasing:
  assumes "sorted_wrt (>) xs"
  shows "\<forall>d \<in> set (diff0 xs). d \<le> (0::real)"
proof (cases xs)
  case Nil
  then show ?thesis by simp
next
  case (Cons x ys)
  with assms have "\<forall>d \<in> set (diffs_from x ys). d < 0" by (intro diffs_from_strict_decreasing) simp
  with Cons show ?thesis by (auto simp: diff0_def)
qed

text \<open>The differences of a sorted series are non-negative.\<close>

lemma diffs_from_sorted_nonneg: "sorted (x # xs) \<Longrightarrow> \<forall>d \<in> set (diffs_from x xs). (0::real) \<le> d"
  by (induction xs arbitrary: x) auto

lemma diff0_sorted_nonneg:
  assumes "sorted xs"
  shows "\<forall>d \<in> set (diff0 xs). (0::real) \<le> d"
proof (cases xs)
  case (Cons x ys)
  with assms have "\<forall>d \<in> set (diffs_from x ys). 0 \<le> d" by (intro diffs_from_sorted_nonneg) simp
  with Cons show ?thesis by (simp add: diff0_def)
qed simp

lemma mean_const:
  "xs \<noteq> [] \<Longrightarrow> \<forall>x \<in> set xs. x = c \<Longrightarrow> mean xs = c"
proof -
  assume ne: "xs \<noteq> []" and c: "\<forall>x \<in> set xs. x = c"
  then have "xs = replicate (length xs) c" by (simp add: replicate_length_same)
  then have "sum_list xs = real (length xs) * c" by (metis sum_list_replicate)
  with ne show ?thesis by (simp add: mean_def)
qed

lemma mean_nonneg:
  "\<forall>x \<in> set xs. (0::real) \<le> x \<Longrightarrow> 0 \<le> mean xs"
  by (simp add: mean_def sum_list_nonneg)

lemma sum_list_le_Max:
  "xs \<noteq> [] \<Longrightarrow> sum_list xs \<le> real (length xs) * Max (set xs)"
proof -
  assume "xs \<noteq> []"
  have "sum_list (map id xs) \<le> sum_list (map (\<lambda>_. Max (set xs)) xs)"
    by (intro sum_list_mono) simp
  then show ?thesis by (simp add: sum_list_triv)
qed

lemma Min_le_sum_list:
  "xs \<noteq> [] \<Longrightarrow> real (length xs) * Min (set xs) \<le> sum_list xs"
proof -
  assume "xs \<noteq> []"
  have "sum_list (map (\<lambda>_. Min (set xs)) xs) \<le> sum_list (map id xs)"
    by (intro sum_list_mono) simp
  then show ?thesis by (simp add: sum_list_triv)
qed

text \<open>The mean of a non-empty series lies between its minimum and its maximum.\<close>

lemma mean_bounds:
  assumes "xs \<noteq> []"
  shows "smin xs \<le> mean xs \<and> mean xs \<le> smax xs"
proof -
  have n: "0 < real (length xs)" using assms by simp
  have "sum_list xs / real (length xs) \<le> Max (set xs)"
    using sum_list_le_Max [OF assms] n by (simp add: divide_le_eq mult.commute)
  moreover have "Min (set xs) \<le> sum_list xs / real (length xs)"
    using Min_le_sum_list [OF assms] n by (simp add: le_divide_eq mult.commute)
  ultimately show ?thesis by (simp add: mean_def smax_def smin_def)
qed

lemma sort_key_eq_Nil_iff [simp]: "sort_key f xs = [] \<longleftrightarrow> xs = []"
  by (metis length_0_conv length_sort)

lemma smax_ge: "x \<in> set xs \<Longrightarrow> x \<le> smax xs"
  by (simp add: smax_def)

lemma smin_le: "x \<in> set xs \<Longrightarrow> smin xs \<le> x"
  by (simp add: smin_def)

lemma smax_in: "xs \<noteq> [] \<Longrightarrow> smax xs \<in> set xs"
  by (simp add: smax_def)

lemma smin_in: "xs \<noteq> [] \<Longrightarrow> smin xs \<in> set xs"
  by (simp add: smin_def)

lemma smin_le_smax: "xs \<noteq> [] \<Longrightarrow> smin xs \<le> smax xs"
  by (simp add: smax_def smin_def)

lemma sum_list_div_const: "(\<Sum>p\<leftarrow>pk. f p / (s::real)) = (\<Sum>p\<leftarrow>pk. f p) / s"
  by (induction pk) (simp_all add: add_divide_distrib)

lemma sum_list_pos: "\<forall>p \<in> set pk. (0::real) < p \<Longrightarrow> pk \<noteq> [] \<Longrightarrow> 0 < sum_list pk"
proof (induction pk)
  case (Cons p ps)
  then show ?case by (cases "ps = []") (auto intro: add_pos_pos)
qed simp

lemma smin_smax_const:
  assumes "xs \<noteq> []" "\<forall>x \<in> set xs. x = c"
  shows "smin xs = c \<and> smax xs = c"
proof -
  have "set xs = {c}" using assms by (cases xs) auto
  then show ?thesis by (simp add: smin_def smax_def)
qed


lemma set_present [simp]: "set (present xs) = {x. Some x \<in> set xs}"
  by (induction xs rule: present.induct) auto

lemma present_map_Some [simp]: "present (map Some xs) = xs"
  by (induction xs) auto

lemma present_eq_Nil_iff: "present xs = [] \<longleftrightarrow> (\<forall>x \<in> set xs. x = None)"
  by (induction xs rule: present.induct) auto

text \<open>The mean of values inside an interval is inside the interval.\<close>

lemma mean_in_range:
  assumes "xs \<noteq> []" "\<forall>x \<in> set xs. lo \<le> x \<and> x \<le> hi"
  shows "lo \<le> mean xs \<and> mean xs \<le> hi"
proof -
  have "lo \<le> smin xs" "smax xs \<le> hi" using assms smin_in smax_in by blast+
  then show ?thesis using mean_bounds [OF assms(1)] by linarith
qed


lemma present_map_Some_comp [simp]: "present (map (Some \<circ> f) xs) = map f xs"
  by (induction xs) auto

lemma Some_in_map_option:
  "Some v \<in> set (map (map_option f) xs) \<Longrightarrow> \<exists>x. Some x \<in> set xs \<and> v = f x"
  by (induction xs) (auto simp: eq_commute [of "Some v"])

lemma first_present_None_iff [simp]: "first_present xs = None \<longleftrightarrow> present xs = []"
  by (simp add: first_present_def split: list.splits)

end
