(* ===== verification/Loader.thy ===== *)
theory Loader
  imports Prelude "HOL-Library.List_Lexorder" "HOL-Library.Char_ord"
begin

text \<open>
  The signal loader and normaliser, the first half of \<open>process_lap_data\<close> in
  \<open>src/src/processor.py\<close> (lines 16-96). The telemetry file is a long table, one
  \<open>raw_row\<close> per (timestamp, channel) reading. The loader

  \<^item> reads the file in chunks of 100000 rows (\<open>chunks\<close>), keeps the rows of the
    requested vehicle and lap from each chunk and fails with \<open>ValueError\<close> when none is
    left (\<open>read_lap\<close>, \<open>NoDataFound\<close>);
  \<^item> pivots to a wide table with one row per timestamp and one column per channel,
    taking the first non-NaN reading of duplicates (\<open>pivot_table\<close>); pandas'
    \<open>pivot_table\<close> drops the groups whose readings are all NaN, so only valued rows
    contribute timestamps and channels;
  \<^item> forward-fills, then backward-fills every column (\<open>ffill\<close>, \<open>bfill\<close>, \<open>fill_col\<close>);
  \<^item> renames the raw channel names to the standard ones (\<open>rename_channel\<close>), adds a
    zero column for each missing standard channel (\<open>required_col\<close>) and normalises
    steering, throttle and brake (\<open>normalize_signals\<close>).

  When a lap carries readings of a raw and of a standard name of one channel (\<open>ath\<close> and
  \<open>throttle\<close>, or \<open>pbrake_f\<close> and \<open>brake_pressure\<close>), the renamed table has two columns
  of that name; \<open>df['throttle'].max() > 1.0\<close> (line 91) is then a Series of booleans and
  its \<open>if\<close> raises \<open>ValueError\<close>, as does line 95 for the brake
  (\<open>ambiguous_channel\<close>, \<open>AmbiguousColumn\<close>). Two columns named \<open>accx\<close> or \<open>accy\<close>
  (\<open>accx_can\<close> and \<open>accx\<close>) raise nothing in the loader; the model keeps the first
  of them (\<open>map_of\<close>), where pandas would carry both into the metrics.

  The result is the \<open>sample\<close> table the dead reckoning of \<open>Track\<close> consumes.
  Timestamps are the seconds of the parsed datetimes. Reading the CSV, the header
  detection and \<open>to_datetime\<close> are I/O and are not modelled; rows that pandas cannot
  parse are skipped before they reach this model.
\<close>

section \<open>Rows of the telemetry file and of the wide table\<close>

record raw_row =
  raw_vehicle_id :: "string option"
  raw_lap :: "int option"
  telemetry_name :: string
  telemetry_value :: "real option"
  raw_timestamp :: real

record sample =
  timestamp :: real
  Steering_Angle :: real
  throttle :: real
  brake_pressure :: real
  accx :: real
  accy :: real
  speed :: real

datatype load_error = NoDataFound | AmbiguousColumn string

section \<open>Chunked reading and filtering\<close>

definition chunk_size :: nat where
  "chunk_size = 100000"

text \<open>\<open>pd.read_csv(..., chunksize=n)\<close>: consecutive pieces of at most \<open>n\<close> rows.\<close>

function chunks :: "nat \<Rightarrow> 'a list \<Rightarrow> 'a list list" where
  "chunks n xs = (if xs = [] then [] else if n = 0 then [xs] else take n xs # chunks n (drop n xs))"
  by pat_completeness auto
termination
  by (relation "measure (\<lambda>(n, xs). length xs)") auto

declare chunks.simps [simp del]

definition lap_filter :: "string \<Rightarrow> int \<Rightarrow> raw_row \<Rightarrow> bool" where
  "lap_filter v l r \<longleftrightarrow> raw_vehicle_id r = Some v \<and> raw_lap r = Some l"

definition read_lap :: "string \<Rightarrow> int \<Rightarrow> raw_row list \<Rightarrow> load_error + raw_row list" where
  "read_lap v l rows =
     (let kept = filter (\<lambda>c. c \<noteq> []) (map (filter (lap_filter v l)) (chunks chunk_size rows))
      in if kept = [] then Inl NoDataFound else Inr (concat kept))"

section \<open>Pivot to one row per timestamp\<close>

type_synonym wide = "real list \<times> (string \<times> real option list) list"

definition valued :: "raw_row list \<Rightarrow> raw_row list" where
  "valued rows = filter (\<lambda>r. telemetry_value r \<noteq> None) rows"

definition pivot_index :: "raw_row list \<Rightarrow> real list" where
  "pivot_index rows = sorted_list_of_set (raw_timestamp ` set (valued rows))"

definition pivot_columns :: "raw_row list \<Rightarrow> string list" where
  "pivot_columns rows = sorted_list_of_set (telemetry_name ` set (valued rows))"

definition pivot_cell :: "raw_row list \<Rightarrow> real \<Rightarrow> string \<Rightarrow> real option" where
  "pivot_cell rows t c =
     first_present (map telemetry_value (filter (\<lambda>r. raw_timestamp r = t \<and> telemetry_name r = c) rows))"

definition pivot_table :: "raw_row list \<Rightarrow> wide" where
  "pivot_table rows =
     (let ts = pivot_index rows
      in (ts, map (\<lambda>c. (c, map (\<lambda>t. pivot_cell rows t c) ts)) (pivot_columns rows)))"

section \<open>Forward and backward fill\<close>

fun ffill_from :: "'a option \<Rightarrow> 'a option list \<Rightarrow> 'a option list" where
  "ffill_from prev [] = []"
| "ffill_from prev (x # xs) =
     (case x of None \<Rightarrow> prev # ffill_from prev xs | Some v \<Rightarrow> Some v # ffill_from (Some v) xs)"

definition ffill :: "'a option list \<Rightarrow> 'a option list" where
  "ffill xs = ffill_from None xs"

definition bfill :: "'a option list \<Rightarrow> 'a option list" where
  "bfill xs = rev (ffill (rev xs))"

definition fill_col :: "'a option list \<Rightarrow> 'a option list" where
  "fill_col xs = bfill (ffill xs)"

definition fill_table :: "wide \<Rightarrow> wide" where
  "fill_table tbl = (case tbl of (ts, cols) \<Rightarrow> (ts, map (\<lambda>(c, col). (c, fill_col col)) cols))"

section \<open>Renaming, missing channels and normalisation\<close>

definition rename_channel :: "string \<Rightarrow> string" where
  "rename_channel c =
     (if c = ''ath'' then ''throttle'' else if c = ''pbrake_f'' then ''brake_pressure''
      else if c = ''accx_can'' then ''accx'' else if c = ''accy_can'' then ''accy'' else c)"

definition rename_table :: "wide \<Rightarrow> wide" where
  "rename_table tbl = (case tbl of (ts, cols) \<Rightarrow> (ts, map (\<lambda>(c, col). (rename_channel c, col)) cols))"

definition required_col :: "nat \<Rightarrow> (string \<times> real option list) list \<Rightarrow> string \<Rightarrow> real list" where
  "required_col n cols c = (case map_of cols c of None \<Rightarrow> replicate n 0 | Some col \<Rightarrow> map the col)"

definition norm_throttle :: "series \<Rightarrow> series" where
  "norm_throttle xs = (if xs \<noteq> [] \<and> smax xs > 1 then map (\<lambda>x. x / 100) xs else xs)"

definition norm_brake :: "series \<Rightarrow> series" where
  "norm_brake xs = (if xs \<noteq> [] \<and> smax xs > 0 then map (\<lambda>x. x / smax xs) xs else xs)"

definition normalize_signals :: "wide \<Rightarrow> sample list" where
  "normalize_signals tbl =
     (case tbl of (ts, cols) \<Rightarrow>
        let n = length ts;
            st = map (\<lambda>x. x / 450) (required_col n cols ''Steering_Angle'');
            th = norm_throttle (required_col n cols ''throttle'');
            br = norm_brake (required_col n cols ''brake_pressure'');
            ax = required_col n cols ''accx'';
            ay = required_col n cols ''accy'';
            sp = required_col n cols ''speed''
        in map (\<lambda>i. \<lparr>timestamp = ts ! i, Steering_Angle = st ! i, throttle = th ! i,
                      brake_pressure = br ! i, accx = ax ! i, accy = ay ! i, speed = sp ! i\<rparr>) [0..<n])"

text \<open>The first of the channels tested at lines 91 and 95 that names two columns.\<close>

definition ambiguous_channel :: "(string \<times> 'a) list \<Rightarrow> string option" where
  "ambiguous_channel cols = find (\<lambda>c. 2 \<le> count_list (map fst cols) c) [''throttle'', ''brake_pressure'']"

definition load_lap :: "string \<Rightarrow> int \<Rightarrow> raw_row list \<Rightarrow> load_error + sample list" where
  "load_lap v l rows =
     (case read_lap v l rows of
        Inl e \<Rightarrow> Inl e
      | Inr raw \<Rightarrow>
          (let tbl = rename_table (fill_table (pivot_table raw))
           in case ambiguous_channel (snd tbl) of
                Some c \<Rightarrow> Inl (AmbiguousColumn c)
              | None \<Rightarrow> Inr (normalize_signals tbl)))"

text \<open>The standard-named, filled columns of the pivot of \<open>raw\<close>.\<close>

abbreviation loaded_cols :: "raw_row list \<Rightarrow> (string \<times> real option list) list" where
  "loaded_cols raw \<equiv>
     map (\<lambda>c. (rename_channel c, fill_col (map (\<lambda>t. pivot_cell raw t c) (pivot_index raw)))) (pivot_columns raw)"

text \<open>
  Four readings of one vehicle: lap 3 carries throttle, front brake and a NaN reading but
  no speed channel, lap 4 one speed reading.
\<close>

definition demo_raw :: "raw_row list" where
  "demo_raw =
     [\<lparr>raw_vehicle_id = Some ''GR86-002'', raw_lap = Some 3, telemetry_name = ''ath'',
        telemetry_value = Some 80, raw_timestamp = 0\<rparr>,
      \<lparr>raw_vehicle_id = Some ''GR86-002'', raw_lap = Some 3, telemetry_name = ''pbrake_f'',
        telemetry_value = Some 40, raw_timestamp = 1\<rparr>,
      \<lparr>raw_vehicle_id = Some ''GR86-002'', raw_lap = Some 3, telemetry_name = ''ath'',
        telemetry_value = None, raw_timestamp = 2\<rparr>,
      \<lparr>raw_vehicle_id = Some ''GR86-002'', raw_lap = Some 4, telemetry_name = ''speed'',
        telemetry_value = Some 150, raw_timestamp = 5\<rparr>]"


text \<open>The same lap with a reading under the standard name \<open>throttle\<close> as well.\<close>

definition demo_raw_dup :: "raw_row list" where
  "demo_raw_dup = demo_raw @
     [\<lparr>raw_vehicle_id = Some ''GR86-002'', raw_lap = Some 3, telemetry_name = ''throttle'',
        telemetry_value = Some 0.5, raw_timestamp = 1\<rparr>]"

section \<open>Chunks, filtering and filling\<close>

lemma chunks_Nil [simp]: "chunks n [] = []"
  by (subst chunks.simps) simp

lemma chunks_zero: "xs \<noteq> [] \<Longrightarrow> chunks 0 xs = [xs]"
  by (subst chunks.simps) simp

lemma chunks_Cons: "xs \<noteq> [] \<Longrightarrow> 0 < n \<Longrightarrow> chunks n xs = take n xs # chunks n (drop n xs)"
  by (subst chunks.simps) simp

lemma concat_chunks [simp]: "concat (chunks n xs) = xs"
proof (induction n xs rule: chunks.induct)
  case (1 n xs)
  show ?case
  proof (cases "xs = [] \<or> n = 0")
    case True
    then show ?thesis by (cases "xs = []") (auto simp: chunks_zero)
  next
    case False
    then have "chunks n xs = take n xs # chunks n (drop n xs)" by (simp add: chunks_Cons)
    moreover have "concat (chunks n (drop n xs)) = drop n xs" using 1 False by blast
    ultimately show ?thesis by simp
  qed
qed

lemma concat_filter_nonempty: "concat (filter (\<lambda>c. c \<noteq> []) xss) = concat xss"
  by (induction xss) auto

lemma filter_nonempty_Nil_iff: "filter (\<lambda>c. c \<noteq> []) xss = [] \<longleftrightarrow> concat xss = []"
  by (induction xss) auto

lemma chunked_filter: "concat (map (filter p) (chunks n xs)) = filter p xs"
  by (simp flip: filter_concat)

lemma read_lap_eq:
  "read_lap v l rows =
     (if filter (lap_filter v l) rows = [] then Inl NoDataFound else Inr (filter (lap_filter v l) rows))"
  by (simp add: read_lap_def Let_def concat_filter_nonempty filter_nonempty_Nil_iff chunked_filter)

lemma loaded_table:
  "rename_table (fill_table (pivot_table raw)) =
     (pivot_index raw,
      loaded_cols raw)"
  by (simp add: rename_table_def fill_table_def pivot_table_def Let_def)

lemma load_lap_eq:
  "load_lap v l rows =
     (if filter (lap_filter v l) rows = [] then Inl NoDataFound
      else case ambiguous_channel (loaded_cols (filter (lap_filter v l) rows)) of
             Some c \<Rightarrow> Inl (AmbiguousColumn c)
           | None \<Rightarrow> Inr (normalize_signals (pivot_index (filter (lap_filter v l) rows),
                       loaded_cols (filter (lap_filter v l) rows))))"
  by (simp add: load_lap_def read_lap_eq loaded_table Let_def)

lemma length_ffill_from [simp]: "length (ffill_from p xs) = length xs"
  by (induction p xs rule: ffill_from.induct) (auto split: option.splits)

lemma ffill_from_nth:
  "i < length xs \<Longrightarrow> ffill_from p xs ! i =
     (if present (take (Suc i) xs) = [] then p else Some (last (present (take (Suc i) xs))))"
proof (induction xs arbitrary: p i)
  case (Cons x xs)
  then show ?case by (cases x; cases i) auto
qed simp

lemma present_append [simp]: "present (xs @ ys) = present xs @ present ys"
  by (induction xs rule: present.induct) auto

lemma present_rev [simp]: "present (rev xs) = rev (present xs)"
  by (induction xs rule: present.induct) auto

lemma length_ffill [simp]: "length (ffill xs) = length xs"
  by (simp add: ffill_def)

lemma length_bfill [simp]: "length (bfill xs) = length xs"
  by (simp add: bfill_def)

lemma length_fill_col [simp]: "length (fill_col xs) = length xs"
  by (simp add: fill_col_def)

lemma bfill_nth:
  assumes "i < length ys"
  shows "bfill ys ! i = (if present (drop i ys) = [] then None else Some (hd (present (drop i ys))))"
proof -
  let ?j = "length ys - Suc i"
  have j: "?j < length (rev ys)" using assms by simp
  have tk: "take (Suc ?j) (rev ys) = rev (drop i ys)"
    using assms by (simp add: rev_drop Suc_diff_Suc)
  have "bfill ys ! i = ffill (rev ys) ! ?j"
    using assms by (simp add: bfill_def rev_nth)
  also have "\<dots> = (if present (rev (drop i ys)) = [] then None else Some (last (present (rev (drop i ys)))))"
    unfolding ffill_def ffill_from_nth [OF j] tk ..
  also have "\<dots> = (if present (drop i ys) = [] then None else Some (hd (present (drop i ys))))"
    by (simp add: last_rev)
  finally show ?thesis .
qed


lemma ffill_from_None_drop:
  "present (take i xs) = [] \<Longrightarrow> drop i (ffill_from None xs) = ffill_from None (drop i xs)"
proof (induction xs arbitrary: i)
  case (Cons x xs)
  then show ?case by (cases i; cases x) auto
qed simp

lemma present_ffill_from_None:
  "present (ffill_from None xs) = [] \<longleftrightarrow> present xs = []"
  "present xs \<noteq> [] \<Longrightarrow> hd (present (ffill_from None xs)) = hd (present xs)"
proof (induction xs)
  case (Cons x xs)
  { case 1 show ?case using Cons.IH(1) by (cases x) auto }
  { case 2 then show ?case using Cons.IH by (cases x) auto }
qed simp_all

lemma present_drop_of_take:
  "present (take i xs) = [] \<Longrightarrow> present (drop i xs) = present xs"
  by (metis append_take_drop_id present_append self_append_conv2)

lemma fill_col_nth:
  assumes "present xs \<noteq> []" "i < length xs"
  shows "fill_col xs ! i =
    Some (if present (take (Suc i) xs) = [] then hd (present xs) else last (present (take (Suc i) xs)))"
proof (cases "present (take (Suc i) xs) = []")
  case False
  let ?a = "last (present (take (Suc i) xs))"
  have fi: "ffill xs ! i = Some ?a" using False assms(2) by (simp add: ffill_def ffill_from_nth)
  have "drop i (ffill xs) = ffill xs ! i # drop (Suc i) (ffill xs)"
    using assms(2) by (simp add: Cons_nth_drop_Suc)
  then have "present (drop i (ffill xs)) = ?a # present (drop (Suc i) (ffill xs))" using fi by simp
  then show ?thesis using False assms(2) by (simp add: fill_col_def bfill_nth)
next
  case True
  have "take (Suc i) xs = take i xs @ [xs ! i]" using assms(2) by (simp add: take_Suc_conv_app_nth)
  then have tk: "present (take i xs) = []" using True by simp
  have "present (drop i (ffill xs)) = present (ffill_from None (drop i xs))"
    using tk by (simp add: ffill_def ffill_from_None_drop)
  moreover have "present (drop i xs) = present xs" using tk by (rule present_drop_of_take)
  ultimately show ?thesis
    using True assms present_ffill_from_None [of "drop i xs"] by (simp add: fill_col_def bfill_nth)
qed


lemma first_present_in:
  assumes "first_present xs = Some x"
  shows "Some x \<in> set xs"
proof -
  obtain ys where "present xs = x # ys" using assms by (auto simp: first_present_def split: list.splits)
  then have "x \<in> set (present xs)" by simp
  then show ?thesis by simp
qed

lemma present_drop_subset: "set (present (drop i ys)) \<subseteq> set (present ys)"
  by (metis append_take_drop_id present_append set_append Un_upper2)

lemma present_ffill_from_subset: "set (present (ffill_from p xs)) \<subseteq> set (present xs) \<union> set_option p"
  by (induction p xs rule: ffill_from.induct) (auto split: option.splits)

lemma fill_col_values:
  assumes "Some x \<in> set (fill_col xs)"
  shows "Some x \<in> set xs"
proof -
  obtain i where i: "i < length xs" and xi: "fill_col xs ! i = Some x"
    using assms by (auto simp: in_set_conv_nth)
  let ?ps = "present (drop i (ffill xs))"
  have ne: "?ps \<noteq> []" and x: "x = hd ?ps" using i xi by (simp_all add: fill_col_def bfill_nth split: if_splits)
  have "x \<in> set ?ps" by (subst x) (rule hd_in_set [OF ne])
  also have "\<dots> \<subseteq> set (present (ffill xs))" by (rule present_drop_subset)
  also have "\<dots> \<subseteq> set (present xs)" using present_ffill_from_subset [of None xs] by (simp add: ffill_def)
  finally show ?thesis by simp
qed

lemma fill_col_no_nan: "present xs \<noteq> [] \<Longrightarrow> None \<notin> set (fill_col xs)"
  by (auto simp: in_set_conv_nth fill_col_nth)

lemma sorted_pivot_index: "sorted (pivot_index rows) \<and> distinct (pivot_index rows)"
  by (simp add: pivot_index_def)

lemma set_pivot_index: "set (pivot_index rows) = raw_timestamp ` set (valued rows)"
  by (simp add: pivot_index_def valued_def)

lemma pivot_column_valued:
  assumes "c \<in> set (pivot_columns rows)"
  shows "present (map (\<lambda>t. pivot_cell rows t c) (pivot_index rows)) \<noteq> []"
proof -
  obtain r where r: "r \<in> set rows" "telemetry_value r \<noteq> None" "telemetry_name r = c"
    using assms by (auto simp: pivot_columns_def valued_def)
  let ?g = "map telemetry_value (filter (\<lambda>q. raw_timestamp q = raw_timestamp r \<and> telemetry_name q = c) rows)"
  obtain y where y: "telemetry_value r = Some y" using r(2) by auto
  have "telemetry_value r \<in> set ?g" using r by auto
  then have "y \<in> set (present ?g)" using y by simp
  then have "present ?g \<noteq> []" by (metis empty_iff empty_set)
  then have "pivot_cell rows (raw_timestamp r) c \<noteq> None" by (simp add: pivot_cell_def)
  moreover have "raw_timestamp r \<in> set (pivot_index rows)" using r by (auto simp: set_pivot_index valued_def)
  ultimately show ?thesis by (force simp: present_eq_Nil_iff)
qed

lemma pivot_cell_value:
  "pivot_cell rows t c = Some x \<Longrightarrow>
     \<exists>r \<in> set rows. raw_timestamp r = t \<and> telemetry_name r = c \<and> telemetry_value r = Some x"
  unfolding pivot_cell_def by (drule first_present_in) auto


lemma length_normalize_signals [simp]: "length (normalize_signals (ts, cols)) = length ts"
  by (simp add: normalize_signals_def Let_def)

lemma normalize_signals_nth:
  "i < length ts \<Longrightarrow> normalize_signals (ts, cols) ! i =
     \<lparr>timestamp = ts ! i,
      Steering_Angle = map (\<lambda>x. x / 450) (required_col (length ts) cols ''Steering_Angle'') ! i,
      throttle = norm_throttle (required_col (length ts) cols ''throttle'') ! i,
      brake_pressure = norm_brake (required_col (length ts) cols ''brake_pressure'') ! i,
      accx = required_col (length ts) cols ''accx'' ! i, accy = required_col (length ts) cols ''accy'' ! i,
      speed = required_col (length ts) cols ''speed'' ! i\<rparr>"
  by (simp add: normalize_signals_def Let_def)

lemma normalize_signals_timestamps [simp]: "map timestamp (normalize_signals (ts, cols)) = ts"
  by (rule nth_equalityI) (simp_all add: normalize_signals_nth)

lemma in_normalize_signals:
  "x \<in> set (normalize_signals (ts, cols)) \<Longrightarrow> \<exists>i < length ts. x = normalize_signals (ts, cols) ! i"
  by (metis in_set_conv_nth length_normalize_signals)

lemma map_of_renamed_None:
  "map_of (map (\<lambda>c. (rename_channel c, F c)) cs) k = None \<longleftrightarrow> (\<forall>c \<in> set cs. rename_channel c \<noteq> k)"
  unfolding map_of_eq_None_iff by (auto simp: image_image)

lemma map_of_renamed_Some:
  "map_of (map (\<lambda>c. (rename_channel c, F c)) cs) k = Some col \<Longrightarrow> \<exists>c \<in> set cs. rename_channel c = k \<and> col = F c"
  by (drule map_of_SomeD) auto

lemma length_required_loaded [simp]:
  "length (required_col (length (pivot_index raw))
     (loaded_cols raw) k)
   = length (pivot_index raw)"
  by (auto simp: required_col_def split: option.splits dest: map_of_renamed_Some)

lemma required_renamed_value:
  assumes x: "x \<in> set (required_col n (map (\<lambda>c. (rename_channel c, F c)) cs) k)"
    and full: "\<forall>c \<in> set cs. None \<notin> set (F c)"
  shows "(x = 0 \<and> (\<forall>c \<in> set cs. rename_channel c \<noteq> k)) \<or> (\<exists>c \<in> set cs. rename_channel c = k \<and> Some x \<in> set (F c))"
proof (cases "map_of (map (\<lambda>c. (rename_channel c, F c)) cs) k")
  case None
  then have "required_col n (map (\<lambda>c. (rename_channel c, F c)) cs) k = replicate n 0"
    by (simp add: required_col_def)
  then have "x = 0" using x by simp
  then show ?thesis using None map_of_renamed_None by blast
next
  case (Some col)
  then obtain c where c: "c \<in> set cs" "rename_channel c = k" "col = F c"
    using map_of_renamed_Some [OF Some] by blast
  have "x \<in> set (map the col)" using x Some by (simp add: required_col_def)
  then obtain y where y: "y \<in> set col" "x = the y" by auto
  have "None \<notin> set col" using full c by simp
  then have "y = Some x" using y by (cases y) auto
  then show ?thesis using c y by blast
qed

text \<open>Every value of a loaded standard channel is 0 (channel absent) or a reading of the file.\<close>

lemma required_loaded_value:
  assumes "x \<in> set (required_col n
     (loaded_cols raw) k)"
  shows "(x = 0 \<and> (\<forall>r \<in> set (valued raw). rename_channel (telemetry_name r) \<noteq> k))
    \<or> (\<exists>r \<in> set raw. rename_channel (telemetry_name r) = k \<and> telemetry_value r = Some x)"
proof -
  have full: "\<forall>c \<in> set (pivot_columns raw). None \<notin> set (fill_col (map (\<lambda>t. pivot_cell raw t c) (pivot_index raw)))"
  proof
    fix c assume "c \<in> set (pivot_columns raw)"
    then show "None \<notin> set (fill_col (map (\<lambda>t. pivot_cell raw t c) (pivot_index raw)))"
      by (rule fill_col_no_nan [OF pivot_column_valued])
  qed
  have names: "set (pivot_columns raw) = telemetry_name ` set (valued raw)"
    by (simp add: pivot_columns_def valued_def)
  have "(x = 0 \<and> (\<forall>c \<in> set (pivot_columns raw). rename_channel c \<noteq> k))
      \<or> (\<exists>c \<in> set (pivot_columns raw). rename_channel c = k
            \<and> Some x \<in> set (fill_col (map (\<lambda>t. pivot_cell raw t c) (pivot_index raw))))"
    by (rule required_renamed_value [OF assms full])
  then show ?thesis
  proof (elim disjE conjE bexE)
    assume x0: "x = 0" and none: "\<forall>c \<in> set (pivot_columns raw). rename_channel c \<noteq> k"
    have "\<forall>r \<in> set (valued raw). rename_channel (telemetry_name r) \<noteq> k"
    proof
      fix r assume "r \<in> set (valued raw)"
      then have "telemetry_name r \<in> set (pivot_columns raw)" using names by simp
      then show "rename_channel (telemetry_name r) \<noteq> k" using none by blast
    qed
    then show ?thesis using x0 by blast
  next
    fix c assume ck: "rename_channel c = k"
      and sx: "Some x \<in> set (fill_col (map (\<lambda>t. pivot_cell raw t c) (pivot_index raw)))"
    have "Some x \<in> set (map (\<lambda>t. pivot_cell raw t c) (pivot_index raw))" using sx by (rule fill_col_values)
    then obtain t where "pivot_cell raw t c = Some x" by auto
    then have "\<exists>r \<in> set raw. raw_timestamp r = t \<and> telemetry_name r = c \<and> telemetry_value r = Some x"
      by (rule pivot_cell_value)
    then show ?thesis using ck by auto
  qed
qed

section \<open>Normalisation and the loaded samples\<close>

lemma norm_brake_unit:
  assumes "\<forall>x \<in> set xs. 0 \<le> x" "y \<in> set (norm_brake xs)"
  shows "0 \<le> y \<and> y \<le> 1"
proof (cases "xs \<noteq> [] \<and> smax xs > 0")
  case True
  then obtain x where x: "x \<in> set xs" "y = x / smax xs" using assms(2) by (auto simp: norm_brake_def)
  have "x \<le> smax xs" using x(1) by (rule smax_ge)
  then show ?thesis using x assms(1) True by simp
next
  case False
  then have y: "y \<in> set xs" using assms(2) by (auto simp: norm_brake_def split: if_splits)
  then have "y \<le> smax xs" by (rule smax_ge)
  then show ?thesis using False y assms(1) by auto
qed

lemma norm_throttle_unit:
  assumes "\<forall>x \<in> set xs. 0 \<le> x \<and> x \<le> 100" "y \<in> set (norm_throttle xs)"
  shows "0 \<le> y \<and> y \<le> 1"
proof (cases "xs \<noteq> [] \<and> smax xs > 1")
  case True
  then obtain x where "x \<in> set xs" "y = x / 100" using assms(2) by (auto simp: norm_throttle_def)
  then show ?thesis using assms(1) by auto
next
  case False
  then have y: "y \<in> set xs" using assms(2) by (auto simp: norm_throttle_def split: if_splits)
  then have "y \<le> smax xs" by (rule smax_ge)
  then show ?thesis using False y assms(1) by auto
qed

lemma load_lap_Inr:
  assumes "load_lap v l rows = Inr s"
  obtains raw where "raw = filter (lap_filter v l) rows" "raw \<noteq> []"
    "ambiguous_channel (loaded_cols raw) = None"
    "s = normalize_signals (pivot_index raw,
        loaded_cols raw)"
  using assms by (auto simp: load_lap_eq split: if_splits option.splits)

text \<open>Each channel value of a loaded sample is a value of the loaded column.\<close>

lemma loaded_sample_channel:
  assumes "x \<in> set (normalize_signals (ts, cols))"
  shows "\<exists>i < length ts. timestamp x = ts ! i
    \<and> brake_pressure x = norm_brake (required_col (length ts) cols ''brake_pressure'') ! i
    \<and> throttle x = norm_throttle (required_col (length ts) cols ''throttle'') ! i
    \<and> speed x = required_col (length ts) cols ''speed'' ! i"
  using in_normalize_signals [OF assms] by (auto simp: normalize_signals_nth)

lemma length_norm_brake [simp]: "length (norm_brake xs) = length xs"
  by (simp add: norm_brake_def)

lemma length_norm_throttle [simp]: "length (norm_throttle xs) = length xs"
  by (simp add: norm_throttle_def)

section \<open>Properties of the loader\<close>

text \<open>
  C31. Reading the file in chunks, filtering each chunk and concatenating the non-empty
  results is the same as filtering the whole file: the chunk size does not change what is
  loaded, and the load fails exactly when no row matches.
\<close>

theorem read_lap_chunked_equiv:
  "read_lap v l rows =
     (if filter (lap_filter v l) rows = [] then Inl NoDataFound else Inr (filter (lap_filter v l) rows))"
  by (rule read_lap_eq)

text \<open>
  C33. \<open>ffill().bfill()\<close> of a column with at least one reading gives every row the last
  reading at or before it, and the rows before the first reading that first reading.
\<close>

theorem ffill_bfill_column:
  assumes "present xs \<noteq> []" "i < length xs"
  shows "fill_col xs ! i =
    Some (if present (take (Suc i) xs) = [] then hd (present xs) else last (present (take (Suc i) xs)))"
  using assms by (rule fill_col_nth)

theorem ffill_bfill_column_witness:
  "fill_col [None, Some (1::real), None, Some 3, None] = [Some 1, Some 1, Some 1, Some 3, Some 3]
   \<and> fill_col [None, Some (1::real), None, Some 3, None] ! 2 = Some 1"
proof -
  have "fill_col [None, Some (1::real), None, Some 3, None] ! 2 = Some 1"
    using ffill_bfill_column [of "[None, Some (1::real), None, Some 3, None]" 2] by simp
  moreover have "fill_col [None, Some (1::real), None, Some 3, None] = [Some 1, Some 1, Some 1, Some 3, Some 3]"
    by (simp add: fill_col_def bfill_def ffill_def)
  ultimately show ?thesis by simp
qed

lemma count_list_map_le_one:
  assumes "distinct cs" "\<forall>c \<in> set cs. f c = k \<longrightarrow> c = a"
  shows "count_list (map f cs) k \<le> 1"
  using assms
proof (induction cs)
  case Nil
  then show ?case by simp
next
  case (Cons c cs)
  show ?case
  proof (cases "f c = k")
    case True
    then have ca: "c = a" using Cons.prems(2) by simp
    have "k \<notin> set (map f cs)"
    proof
      assume "k \<in> set (map f cs)"
      then obtain c' where "c' \<in> set cs" "f c' = k" by auto
      then have "c' = a" using Cons.prems(2) by simp
      then show False using \<open>c' \<in> set cs\<close> ca Cons.prems(1) by simp
    qed
    then have "count_list (map f cs) k = 0" by (simp add: count_list_0_iff)
    then show ?thesis using True by simp
  next
    case False
    have "count_list (map f cs) k \<le> 1" using Cons.IH Cons.prems by simp
    then show ?thesis using False by simp
  qed
qed

lemma ambiguous_channel_None:
  assumes "\<forall>r \<in> set raw. telemetry_value r \<noteq> None \<longrightarrow>
             telemetry_name r \<noteq> ''throttle'' \<and> telemetry_name r \<noteq> ''brake_pressure''"
  shows "ambiguous_channel (loaded_cols raw) = None"
proof -
  have names: "set (pivot_columns raw) = telemetry_name ` set (valued raw)"
    by (simp add: pivot_columns_def valued_def)
  have d: "distinct (pivot_columns raw)" by (simp add: pivot_columns_def)
  have t: "count_list (map rename_channel (pivot_columns raw)) ''throttle'' \<le> 1"
    using names assms by (intro count_list_map_le_one [OF d, where a = "''ath''"])
      (auto simp: rename_channel_def valued_def)
  have b: "count_list (map rename_channel (pivot_columns raw)) ''brake_pressure'' \<le> 1"
    using names assms by (intro count_list_map_le_one [OF d, where a = "''pbrake_f''"])
      (auto simp: rename_channel_def valued_def)
  have m: "map fst (loaded_cols raw) = map rename_channel (pivot_columns raw)" by simp
  show ?thesis unfolding ambiguous_channel_def m using t b by (simp add: find_None_iff)
qed

lemma demo_raw_lap3: "filter (lap_filter ''GR86-002'' 3) demo_raw \<noteq> []"
  by (simp add: demo_raw_def lap_filter_def)

lemma demo_raw_standard_free:
  "\<forall>r \<in> set demo_raw. telemetry_value r \<noteq> None \<longrightarrow>
     telemetry_name r \<noteq> ''throttle'' \<and> telemetry_name r \<noteq> ''brake_pressure''"
  by (simp add: demo_raw_def)

lemma demo_raw_loads: "\<exists>s. load_lap ''GR86-002'' 3 demo_raw = Inr s"
proof -
  have "ambiguous_channel (loaded_cols (filter (lap_filter ''GR86-002'' 3) demo_raw)) = None"
    using demo_raw_standard_free by (intro ambiguous_channel_None) auto
  then show ?thesis using demo_raw_lap3 by (simp add: load_lap_eq)
qed

lemma loaded_channel_value:
  assumes "load_lap v l rows = Inr s" "x \<in> set s"
  obtains i raw where "raw = filter (lap_filter v l) rows" "i < length (pivot_index raw)"
    "timestamp x = pivot_index raw ! i"
    "brake_pressure x \<in> set (norm_brake (required_col (length (pivot_index raw))
       (loaded_cols raw)
       ''brake_pressure''))"
    "throttle x \<in> set (norm_throttle (required_col (length (pivot_index raw))
       (loaded_cols raw)
       ''throttle''))"
    "speed x \<in> set (required_col (length (pivot_index raw))
       (loaded_cols raw)
       ''speed'')"
proof -
  obtain raw where raw: "raw = filter (lap_filter v l) rows"
    "s = normalize_signals (pivot_index raw,
        loaded_cols raw)"
    using load_lap_Inr [OF assms(1)] by blast
  then show ?thesis
    using that loaded_sample_channel [OF assms(2) [unfolded raw(2)]] by (fastforce simp: nth_mem)
qed


lemma load_lap_speed_zero:
  assumes "load_lap v l rows = Inr s"
    "\<forall>r \<in> set rows. lap_filter v l r \<longrightarrow> telemetry_value r \<noteq> None \<longrightarrow> rename_channel (telemetry_name r) \<noteq> ''speed''"
  shows "\<forall>x \<in> set s. speed x = 0"
proof
  fix x assume x: "x \<in> set s"
  obtain i raw where raw: "raw = filter (lap_filter v l) rows" and "i < length (pivot_index raw)"
    and "timestamp x = pivot_index raw ! i"
    and "brake_pressure x \<in> set (norm_brake (required_col (length (pivot_index raw)) (loaded_cols raw) ''brake_pressure''))"
    and "throttle x \<in> set (norm_throttle (required_col (length (pivot_index raw)) (loaded_cols raw) ''throttle''))"
    and sp: "speed x \<in> set (required_col (length (pivot_index raw)) (loaded_cols raw) ''speed'')"
    by (rule loaded_channel_value [OF assms(1) x])
  from required_loaded_value [OF sp] show "speed x = 0"
  proof (elim disjE conjE bexE)
    fix r assume "r \<in> set raw" "rename_channel (telemetry_name r) = ''speed''" "telemetry_value r = Some (speed x)"
    then show ?thesis using assms(2) raw by auto
  qed
qed

text \<open>
  C36. A lap without any speed reading is not rejected: the missing channel is filled with
  zeros, so every loaded sample has speed 0.
\<close>

theorem load_lap_missing_speed:
  assumes "load_lap v l rows = Inr s"
    "\<forall>r \<in> set rows. lap_filter v l r \<longrightarrow> telemetry_value r \<noteq> None \<longrightarrow> rename_channel (telemetry_name r) \<noteq> ''speed''"
  shows "\<forall>x \<in> set s. speed x = 0"
  using assms by (rule load_lap_speed_zero)

theorem load_lap_missing_speed_witness:
  "\<exists>s. load_lap ''GR86-002'' 3 demo_raw = Inr s \<and> (\<forall>x \<in> set s. speed x = 0)"
proof -
  obtain s where s: "load_lap ''GR86-002'' 3 demo_raw = Inr s" using demo_raw_loads by blast
  have "\<forall>r \<in> set demo_raw. lap_filter ''GR86-002'' 3 r \<longrightarrow> telemetry_value r \<noteq> None
      \<longrightarrow> rename_channel (telemetry_name r) \<noteq> ''speed''"
    by (simp add: demo_raw_def lap_filter_def rename_channel_def)
  then show ?thesis using load_lap_missing_speed [OF s] s by blast
qed

text \<open>
  C37. If every front-brake reading is non-negative, every loaded brake pressure lies in
  [0, 1] (division by the lap's maximum, or all zero).
\<close>

theorem load_lap_brake_unit:
  assumes "load_lap v l rows = Inr s"
    "\<forall>r \<in> set rows. rename_channel (telemetry_name r) = ''brake_pressure'' \<longrightarrow> pred_option (\<lambda>x. 0 \<le> x) (telemetry_value r)"
  shows "\<forall>x \<in> set s. 0 \<le> brake_pressure x \<and> brake_pressure x \<le> 1"
proof
  fix x assume x: "x \<in> set s"
  obtain i raw where raw: "raw = filter (lap_filter v l) rows" and "i < length (pivot_index raw)"
    and "timestamp x = pivot_index raw ! i"
    and br: "brake_pressure x \<in> set (norm_brake (required_col (length (pivot_index raw)) (loaded_cols raw) ''brake_pressure''))"
    and th: "throttle x \<in> set (norm_throttle (required_col (length (pivot_index raw)) (loaded_cols raw) ''throttle''))"
    and "speed x \<in> set (required_col (length (pivot_index raw)) (loaded_cols raw) ''speed'')"
    by (rule loaded_channel_value [OF assms(1) x])
  have "\<forall>y \<in> set (required_col (length (pivot_index raw)) (loaded_cols raw) ''brake_pressure''). 0 \<le> y"
  proof
    fix y assume y: "y \<in> set (required_col (length (pivot_index raw)) (loaded_cols raw) ''brake_pressure'')"
    from required_loaded_value [OF y] show "0 \<le> y"
    proof (elim disjE conjE bexE)
      fix r assume "r \<in> set raw" "rename_channel (telemetry_name r) = ''brake_pressure''" "telemetry_value r = Some y"
      then show ?thesis using assms(2) raw by fastforce
    qed simp
  qed
  then show "0 \<le> brake_pressure x \<and> brake_pressure x \<le> 1" using br by (rule norm_brake_unit)
qed

theorem load_lap_brake_unit_witness:
  "\<exists>s. load_lap ''GR86-002'' 3 demo_raw = Inr s \<and> (\<forall>x \<in> set s. 0 \<le> brake_pressure x \<and> brake_pressure x \<le> 1)"
proof -
  obtain s where s: "load_lap ''GR86-002'' 3 demo_raw = Inr s" using demo_raw_loads by blast
  have "\<forall>r \<in> set demo_raw. rename_channel (telemetry_name r) = ''brake_pressure''
      \<longrightarrow> pred_option (\<lambda>x. 0 \<le> x) (telemetry_value r)"
    by (simp add: demo_raw_def rename_channel_def)
  then show ?thesis using load_lap_brake_unit [OF s] s by blast
qed

text \<open>
  C13. If every throttle reading is a percentage in [0, 100], every loaded throttle value
  lies in [0, 1]: the lap is divided by 100 when its maximum exceeds 1, and otherwise
  already lies in [0, 1].
\<close>

theorem load_lap_throttle_unit:
  assumes "load_lap v l rows = Inr s"
    "\<forall>r \<in> set rows. rename_channel (telemetry_name r) = ''throttle'' \<longrightarrow> pred_option (\<lambda>x. 0 \<le> x \<and> x \<le> 100) (telemetry_value r)"
  shows "\<forall>x \<in> set s. 0 \<le> throttle x \<and> throttle x \<le> 1"
proof
  fix x assume x: "x \<in> set s"
  obtain i raw where raw: "raw = filter (lap_filter v l) rows" and "i < length (pivot_index raw)"
    and "timestamp x = pivot_index raw ! i"
    and br: "brake_pressure x \<in> set (norm_brake (required_col (length (pivot_index raw)) (loaded_cols raw) ''brake_pressure''))"
    and th: "throttle x \<in> set (norm_throttle (required_col (length (pivot_index raw)) (loaded_cols raw) ''throttle''))"
    and "speed x \<in> set (required_col (length (pivot_index raw)) (loaded_cols raw) ''speed'')"
    by (rule loaded_channel_value [OF assms(1) x])
  have "\<forall>y \<in> set (required_col (length (pivot_index raw)) (loaded_cols raw) ''throttle''). 0 \<le> y \<and> y \<le> 100"
  proof
    fix y assume y: "y \<in> set (required_col (length (pivot_index raw)) (loaded_cols raw) ''throttle'')"
    from required_loaded_value [OF y] show "0 \<le> y \<and> y \<le> 100"
    proof (elim disjE conjE bexE)
      fix r assume "r \<in> set raw" "rename_channel (telemetry_name r) = ''throttle''" "telemetry_value r = Some y"
      then show ?thesis using assms(2) raw by fastforce
    qed simp
  qed
  then show "0 \<le> throttle x \<and> throttle x \<le> 1" using th by (rule norm_throttle_unit)
qed

theorem load_lap_throttle_unit_witness:
  "\<exists>s. load_lap ''GR86-002'' 3 demo_raw = Inr s \<and> (\<forall>x \<in> set s. 0 \<le> throttle x \<and> throttle x \<le> 1)"
proof -
  obtain s where s: "load_lap ''GR86-002'' 3 demo_raw = Inr s" using demo_raw_loads by blast
  have "\<forall>r \<in> set demo_raw. rename_channel (telemetry_name r) = ''throttle''
      \<longrightarrow> pred_option (\<lambda>x. 0 \<le> x \<and> x \<le> 100) (telemetry_value r)"
    by (simp add: demo_raw_def rename_channel_def)
  then show ?thesis using load_lap_throttle_unit [OF s] s by blast
qed

lemma count_list_map_two:
  assumes "a \<in> set cs" "b \<in> set cs" "a \<noteq> b" "f a = k" "f b = k"
  shows "2 \<le> count_list (map f cs) k"
proof -
  have ge: "count_list xs a + count_list xs b \<le> count_list (map f xs) k" for xs
    using assms(3-5) by (induction xs) auto
  have "count_list cs a \<noteq> 0" "count_list cs b \<noteq> 0"
    using assms(1,2) by (simp_all add: count_list_0_iff)
  then show ?thesis using ge [of cs] by linarith
qed

text \<open>
  C3. A lap that carries readings of both \<open>ath\<close> and \<open>throttle\<close> does not load: the renamed
  table has two \<open>throttle\<close> columns and the test of line 91 raises \<open>ValueError\<close>.
\<close>

theorem load_lap_ambiguous_throttle:
  assumes "a \<in> set rows" "lap_filter v l a" "telemetry_name a = ''ath''" "telemetry_value a \<noteq> None"
    "b \<in> set rows" "lap_filter v l b" "telemetry_name b = ''throttle''" "telemetry_value b \<noteq> None"
  shows "load_lap v l rows = Inl (AmbiguousColumn ''throttle'')"
proof -
  let ?raw = "filter (lap_filter v l) rows"
  have ne: "?raw \<noteq> []" using assms(1,2) by (auto simp: filter_empty_conv)
  have names: "set (pivot_columns ?raw) = telemetry_name ` set (valued ?raw)"
    by (simp add: pivot_columns_def valued_def)
  have "a \<in> set (valued ?raw)" "b \<in> set (valued ?raw)" using assms by (simp_all add: valued_def)
  then have "telemetry_name a \<in> set (pivot_columns ?raw)" "telemetry_name b \<in> set (pivot_columns ?raw)"
    unfolding names by simp_all
  then have "''ath'' \<in> set (pivot_columns ?raw)" "''throttle'' \<in> set (pivot_columns ?raw)"
    using assms(3,7) by simp_all
  then have "2 \<le> count_list (map rename_channel (pivot_columns ?raw)) ''throttle''"
    by (rule count_list_map_two) (simp_all add: rename_channel_def)
  then have "ambiguous_channel (loaded_cols ?raw) = Some ''throttle''"
    by (simp add: ambiguous_channel_def comp_def)
  then show ?thesis using ne by (simp add: load_lap_eq)
qed

theorem load_lap_ambiguous_throttle_witness:
  "load_lap ''GR86-002'' 3 demo_raw_dup = Inl (AmbiguousColumn ''throttle'')"
  by (rule load_lap_ambiguous_throttle
      [of "hd demo_raw" demo_raw_dup "''GR86-002''" 3 "last demo_raw_dup"])
    (simp_all add: demo_raw_dup_def demo_raw_def lap_filter_def)

end
