(* ===== verification/Track.thy ===== *)
theory Track
  imports Loader
begin

text \<open>
  The track reconstructor, the dead-reckoning half of \<open>process_lap_data\<close> in
  \<open>src/src/processor.py\<close> (lines 98-145). The source computes whole columns with
  pandas: the time deltas, the wheel angle, the yaw rate, and the running sums
  (\<open>cumsum\<close>) of heading, position and lap distance; \<open>dead_reckoning\<close> translates
  those lines one by one. The spec describes the same computation as a stateful
  fold over \<open>(dt, yaw_rate, speed)\<close> steps; \<open>integ_step\<close> and \<open>integrate\<close> are that
  fold, and \<open>dead_reckoning_scan\<close> and \<open>dead_reckoning_is_fold\<close> show that the column code computes
  exactly the fold's states. Invariants are proved on the fold by induction and
  carried over to the rows.
\<close>

record track_row = sample +
  dt :: real
  X :: real
  Y :: real
  Laptrigger_lapdist_dls :: real

definition wheelbase :: real where
  "wheelbase = 2.57"

definition steering_ratio :: real where
  "steering_ratio = 13.5"

text \<open>Unit heuristic: speeds are taken as km/h when the lap's maximum exceeds 100.\<close>

definition speed_ms :: "series \<Rightarrow> series" where
  "speed_ms v = (if v \<noteq> [] \<and> smax v > 100 then map (\<lambda>s. s / 3.6) v else v)"

definition wheel_angle :: "real \<Rightarrow> real" where
  "wheel_angle steering = (steering * 450 / steering_ratio) * pi / 180"

definition yaw_rate :: "real \<Rightarrow> real \<Rightarrow> real" where
  "yaw_rate v w = v / wheelbase * tan w"

definition dead_reckoning :: "sample list \<Rightarrow> track_row list" where
  "dead_reckoning rows =
     (let dts = diff0 (map timestamp rows);
          v = speed_ms (map speed rows);
          yaw = map2 (\<lambda>s r. yaw_rate s (wheel_angle (Steering_Angle r))) v rows;
          heading = cumsum (map2 (*) yaw dts);
          xs = cumsum (map (\<lambda>(s, h, d). s * cos h * d) (zip v (zip heading dts)));
          ys = cumsum (map (\<lambda>(s, h, d). s * sin h * d) (zip v (zip heading dts)));
          lapdist = cumsum (map2 (*) v dts)
      in map (\<lambda>(r, d, x, y, l). sample.extend r (track_row.fields d x y l))
           (zip rows (zip dts (zip xs (zip ys lapdist)))))"

section \<open>The integrator as a fold over steps\<close>

record integ =
  heading :: real
  px :: real
  py :: real
  odo :: real

definition integ0 :: integ where
  "integ0 = \<lparr>heading = 0, px = 0, py = 0, odo = 0\<rparr>"

text \<open>One step \<open>(dt, yaw_rate, speed)\<close>: turn, then advance along the new heading.\<close>

definition integ_step :: "integ \<Rightarrow> real \<times> real \<times> real \<Rightarrow> integ" where
  "integ_step st stp =
     (case stp of (d, w, s) \<Rightarrow>
        let h = heading st + w * d
        in \<lparr>heading = h, px = px st + s * cos h * d, py = py st + s * sin h * d,
            odo = odo st + s * d\<rparr>)"

fun integrate :: "integ \<Rightarrow> (real \<times> real \<times> real) list \<Rightarrow> integ list" where
  "integrate st [] = []"
| "integrate st (stp # stps) = integ_step st stp # integrate (integ_step st stp) stps"

text \<open>The steps the source feeds its running sums.\<close>

definition dr_steps :: "sample list \<Rightarrow> (real \<times> real \<times> real) list" where
  "dr_steps rows =
     (let dts = diff0 (map timestamp rows); v = speed_ms (map speed rows)
      in zip dts (zip (map2 (\<lambda>s r. yaw_rate s (wheel_angle (Steering_Angle r))) v rows) v))"

text \<open>The invariant of the fold: the position is within the odometer distance.\<close>

definition pos_within_odo :: "integ \<Rightarrow> bool" where
  "pos_within_odo st \<longleftrightarrow> sqrt ((px st)\<^sup>2 + (py st)\<^sup>2) \<le> odo st"

text \<open>A two-sample straight run at 10 m/s, used by the witnesses.\<close>

definition demo_lap :: "sample list" where
  "demo_lap = [\<lparr>timestamp = 0, Steering_Angle = 0, throttle = 0, brake_pressure = 0, accx = 0, accy = 0, speed = 10\<rparr>,
               \<lparr>timestamp = 1, Steering_Angle = 0, throttle = 0, brake_pressure = 0, accx = 0, accy = 0, speed = 10\<rparr>]"

section \<open>Lemmas\<close>

lemma length_speed_ms [simp]: "length (speed_ms v) = length v"
  by (simp add: speed_ms_def)

lemma length_dead_reckoning [simp]: "length (dead_reckoning rows) = length rows"
  by (simp add: dead_reckoning_def Let_def)

lemma length_integrate [simp]: "length (integrate st stps) = length stps"
  by (induction stps arbitrary: st) auto

lemma length_dr_steps [simp]: "length (dr_steps rows) = length rows"
  by (simp add: dr_steps_def Let_def)

lemma integrate_heading:
  "map heading (integrate st stps) = cumsum_from (heading st) (map (\<lambda>(d, w, s). w * d) stps)"
  by (induction stps arbitrary: st) (auto simp: integ_step_def Let_def split: prod.splits)

lemma integrate_px:
  "map px (integrate st stps) =
     cumsum_from (px st) (map (\<lambda>((d, w, s), h). s * cos h * d) (zip stps (map heading (integrate st stps))))"
  by (induction stps arbitrary: st) (auto simp: integ_step_def Let_def split: prod.splits)

lemma integrate_py:
  "map py (integrate st stps) =
     cumsum_from (py st) (map (\<lambda>((d, w, s), h). s * sin h * d) (zip stps (map heading (integrate st stps))))"
  by (induction stps arbitrary: st) (auto simp: integ_step_def Let_def split: prod.splits)

lemma integrate_odo:
  "map odo (integrate st stps) = cumsum_from (odo st) (map (\<lambda>(d, w, s). s * d) stps)"
  by (induction stps arbitrary: st) (auto simp: integ_step_def Let_def split: prod.splits)

lemma dead_reckoning_cols:
  "map (\<lambda>r. (dt r, X r, Y r, Laptrigger_lapdist_dls r)) (dead_reckoning rows) =
   (let dts = diff0 (map timestamp rows);
        v = speed_ms (map speed rows);
        yaw = map2 (\<lambda>s r. yaw_rate s (wheel_angle (Steering_Angle r))) v rows;
        heading = cumsum (map2 (*) yaw dts)
    in zip dts (zip (cumsum (map (\<lambda>(s, h, d). s * cos h * d) (zip v (zip heading dts))))
                (zip (cumsum (map (\<lambda>(s, h, d). s * sin h * d) (zip v (zip heading dts))))
                     (cumsum (map2 (*) v dts)))))"
  by (rule nth_equalityI) (auto simp: dead_reckoning_def Let_def sample.defs track_row.defs)

lemma dead_reckoning_scan:
  "map (\<lambda>r. (dt r, X r, Y r, Laptrigger_lapdist_dls r)) (dead_reckoning rows) =
   map2 (\<lambda>(d, _) st. (d, px st, py st, odo st)) (dr_steps rows) (integrate integ0 (dr_steps rows))"
proof -
  define dts where "dts = diff0 (map timestamp rows)"
  define v where "v = speed_ms (map speed rows)"
  define yaw where "yaw = map2 (\<lambda>s r. yaw_rate s (wheel_angle (Steering_Angle r))) v rows"
  define stps where "stps = dr_steps rows"
  have st: "stps = zip dts (zip yaw v)" by (simp add: stps_def dr_steps_def dts_def v_def yaw_def Let_def)
  have len: "length dts = length rows" "length v = length rows" "length yaw = length rows"
    by (simp_all add: dts_def v_def yaw_def)
  have hd: "map heading (integrate integ0 stps) = cumsum (map2 (*) yaw dts)"
    unfolding integrate_heading cumsum_def st
    by (simp add: integ0_def) (rule arg_cong [where f = "cumsum_from 0"], rule nth_equalityI, auto simp: len)
  have px: "map px (integrate integ0 stps) =
      cumsum (map (\<lambda>(s, h, d). s * cos h * d) (zip v (zip (cumsum (map2 (*) yaw dts)) dts)))"
    unfolding integrate_px hd
    by (simp add: integ0_def cumsum_def) (rule arg_cong [where f = "cumsum_from 0"], rule nth_equalityI, auto simp: st len)
  have py: "map py (integrate integ0 stps) =
      cumsum (map (\<lambda>(s, h, d). s * sin h * d) (zip v (zip (cumsum (map2 (*) yaw dts)) dts)))"
    unfolding integrate_py hd
    by (simp add: integ0_def cumsum_def) (rule arg_cong [where f = "cumsum_from 0"], rule nth_equalityI, auto simp: st len)
  have od: "map odo (integrate integ0 stps) = cumsum (map2 (*) v dts)"
    unfolding integrate_odo
    by (simp add: integ0_def cumsum_def) (rule arg_cong [where f = "cumsum_from 0"], rule nth_equalityI, auto simp: st len)
  have rhs: "map2 (\<lambda>(d, _) st. (d, px st, py st, odo st)) stps (integrate integ0 stps) =
      zip dts (zip (map px (integrate integ0 stps)) (zip (map py (integrate integ0 stps)) (map odo (integrate integ0 stps))))"
    by (rule nth_equalityI) (auto simp: st len split: prod.splits)
  show ?thesis
    unfolding dead_reckoning_cols stps_def [symmetric] rhs px py od
    by (simp add: Let_def dts_def v_def yaw_def)
qed

lemma cmod_step: "cmod (Complex (s * cos h * d) (s * sin h * d)) = \<bar>s * d\<bar>"
proof -
  have "Complex (s * cos h * d) (s * sin h * d) = of_real (s * d) * cis h"
    by (simp add: cis.code complex_eq_iff)
  then show ?thesis by (simp add: norm_mult abs_mult)
qed

lemma integ_step_pos_within_odo:
  assumes "pos_within_odo st" "0 \<le> s * d"
  shows "pos_within_odo (integ_step st (d, w, s))"
proof -
  let ?h = "heading st + w * d"
  have "Complex (px st + s * cos ?h * d) (py st + s * sin ?h * d) =
        Complex (px st) (py st) + Complex (s * cos ?h * d) (s * sin ?h * d)"
    by (simp add: complex_eq_iff)
  then have "cmod (Complex (px st + s * cos ?h * d) (py st + s * sin ?h * d)) \<le>
             cmod (Complex (px st) (py st)) + \<bar>s * d\<bar>"
    by (metis cmod_step norm_triangle_ineq)
  then show ?thesis using assms by (simp add: pos_within_odo_def integ_step_def Let_def cmod_def)
qed

lemma integrate_pos_within_odo:
  "pos_within_odo st \<Longrightarrow> \<forall>(d, w, s) \<in> set stps. 0 \<le> s * d \<Longrightarrow>
   \<forall>st' \<in> set (integrate st stps). pos_within_odo st'"
proof (induction stps arbitrary: st)
  case Nil
  then show ?case by simp
next
  case (Cons stp stps)
  obtain d w s where stp: "stp = (d, w, s)" by (cases stp) auto
  with Cons.prems have "pos_within_odo (integ_step st stp)"
    by (simp add: integ_step_pos_within_odo)
  with Cons show ?case by simp
qed

lemma integrate_odo_mono:
  "\<forall>(d, w, s) \<in> set stps. 0 \<le> s * d \<Longrightarrow>
   sorted (odo st # map odo (integrate st stps))"
proof (induction stps arbitrary: st)
  case Nil
  then show ?case by simp
next
  case (Cons stp stps)
  obtain d w s where stp: "stp = (d, w, s)" by (cases stp) auto
  have "odo st \<le> odo (integ_step st stp)" using Cons.prems stp by (simp add: integ_step_def Let_def)
  moreover have "sorted (odo (integ_step st stp) # map odo (integrate (integ_step st stp) stps))"
    using Cons by simp
  ultimately show ?case by (auto simp: order_trans)
qed

lemma speed_ms_nonneg: "\<forall>s \<in> set v. (0::real) \<le> s \<Longrightarrow> \<forall>s \<in> set (speed_ms v). 0 \<le> s"
  by (auto simp: speed_ms_def)

lemma dr_steps_nonneg:
  assumes "sorted (map timestamp rows)" "\<forall>r \<in> set rows. 0 \<le> speed r"
  shows "\<forall>(d, w, s) \<in> set (dr_steps rows). 0 \<le> s * d"
proof (clarify)
  fix d w s assume "(d, w, s) \<in> set (dr_steps rows)"
  then have z: "(d, w, s) \<in> set (zip (diff0 (map timestamp rows))
      (zip (map2 (\<lambda>s r. yaw_rate s (wheel_angle (Steering_Angle r))) (speed_ms (map speed rows)) rows)
           (speed_ms (map speed rows))))"
    by (simp add: dr_steps_def Let_def)
  have "d \<in> set (diff0 (map timestamp rows))" using set_zip_leftD [OF z] .
  moreover have "s \<in> set (speed_ms (map speed rows))"
    using set_zip_rightD [OF set_zip_rightD [OF z]] .
  ultimately have "d \<in> set (diff0 (map timestamp rows))" "s \<in> set (speed_ms (map speed rows))" .
  moreover have "\<forall>s \<in> set (map speed rows). 0 \<le> s" using assms(2) by simp
  ultimately have "0 \<le> d" "0 \<le> s"
    using diff0_sorted_nonneg [OF assms(1)] speed_ms_nonneg by blast+
  then show "0 \<le> s * d" by simp
qed

lemma integrate_nth_fold:
  "i < length stps \<Longrightarrow> integrate st stps ! i = fold (\<lambda>stp st. integ_step st stp) (take (Suc i) stps) st"
proof (induction stps arbitrary: st i)
  case Nil
  then show ?case by simp
next
  case (Cons stp stps)
  then show ?case by (cases i) auto
qed

lemma dead_reckoning_nth:
  assumes "i < length rows"
  shows "dt (dead_reckoning rows ! i) = fst (dr_steps rows ! i)
       \<and> X (dead_reckoning rows ! i) = px (integrate integ0 (dr_steps rows) ! i)
       \<and> Y (dead_reckoning rows ! i) = py (integrate integ0 (dr_steps rows) ! i)
       \<and> Laptrigger_lapdist_dls (dead_reckoning rows ! i) = odo (integrate integ0 (dr_steps rows) ! i)"
proof -
  have "map (\<lambda>r. (dt r, X r, Y r, Laptrigger_lapdist_dls r)) (dead_reckoning rows) ! i =
        map2 (\<lambda>(d, _) st. (d, px st, py st, odo st)) (dr_steps rows) (integrate integ0 (dr_steps rows)) ! i"
    by (simp only: dead_reckoning_scan)
  then show ?thesis using assms by (simp add: case_prod_beta)
qed

text \<open>
  C5. Refinement: each reconstructed row is the state of the spec's stateful fold
  (heading, position, distance) after the steps \<open>(dt, yaw_rate, speed)\<close> up to and
  including that row; the column-wise cumsum code computes exactly the fold.
\<close>
theorem dead_reckoning_is_fold:
  assumes "i < length rows"
  shows "let st = fold (\<lambda>stp st. integ_step st stp) (take (Suc i) (dr_steps rows)) integ0 in
         X (dead_reckoning rows ! i) = px st \<and> Y (dead_reckoning rows ! i) = py st
         \<and> Laptrigger_lapdist_dls (dead_reckoning rows ! i) = odo st"
  using dead_reckoning_nth [OF assms] integrate_nth_fold [of i "dr_steps rows" integ0] assms
  by (simp add: Let_def)

theorem dead_reckoning_is_fold_witness:
  "X (dead_reckoning demo_lap ! 1) = 10 \<and> Laptrigger_lapdist_dls (dead_reckoning demo_lap ! 1) = 10"
proof -
  have "let st = fold (\<lambda>stp st. integ_step st stp) (take (Suc 1) (dr_steps demo_lap)) integ0 in
         X (dead_reckoning demo_lap ! 1) = px st \<and> Y (dead_reckoning demo_lap ! 1) = py st
         \<and> Laptrigger_lapdist_dls (dead_reckoning demo_lap ! 1) = odo st"
    by (rule dead_reckoning_is_fold) (simp add: demo_lap_def)
  then show ?thesis
    by (simp add: Let_def demo_lap_def dr_steps_def integ_step_def integ0_def speed_ms_def smax_def
                  yaw_rate_def wheel_angle_def diff0_def)
qed


lemma dead_reckoning_lapdist_odo:
  "map Laptrigger_lapdist_dls (dead_reckoning rows) = map odo (integrate integ0 (dr_steps rows))"
  by (rule nth_equalityI) (simp_all add: dead_reckoning_nth)

lemma pos_within_odo_integ0: "pos_within_odo integ0"
  by (simp add: pos_within_odo_def integ0_def)

text \<open>
  C6. For time-ordered samples with non-negative speeds, the reconstructed lap
  distance is non-negative and monotonically non-decreasing.
\<close>
theorem dead_reckoning_lapdist_monotone:
  assumes "sorted (map timestamp rows)" "\<forall>r \<in> set rows. 0 \<le> speed r"
  shows "sorted (map Laptrigger_lapdist_dls (dead_reckoning rows))
       \<and> (\<forall>r \<in> set (dead_reckoning rows). 0 \<le> Laptrigger_lapdist_dls r)"
proof -
  have "sorted (odo integ0 # map odo (integrate integ0 (dr_steps rows)))"
    using integrate_odo_mono dr_steps_nonneg [OF assms] by blast
  then have "sorted (0 # map Laptrigger_lapdist_dls (dead_reckoning rows))"
    by (simp add: dead_reckoning_lapdist_odo integ0_def)
  then show ?thesis by simp
qed

theorem dead_reckoning_lapdist_monotone_witness:
  "sorted (map Laptrigger_lapdist_dls (dead_reckoning demo_lap))
   \<and> 0 \<le> Laptrigger_lapdist_dls (dead_reckoning demo_lap ! 1)"
proof -
  have h1: "sorted (map timestamp demo_lap)" and h2: "\<forall>r \<in> set demo_lap. 0 \<le> speed r"
    by (simp_all add: demo_lap_def)
  have "1 < length demo_lap" by (simp add: demo_lap_def)
  then show ?thesis using dead_reckoning_lapdist_monotone [OF h1 h2] by simp
qed

text \<open>
  C7. For time-ordered samples with non-negative speeds, every reconstructed position
  lies within the distance travelled so far: \<open>sqrt (X\<^sup>2 + Y\<^sup>2) \<le> lap distance\<close>.
\<close>
theorem dead_reckoning_position_within_lapdist:
  assumes "sorted (map timestamp rows)" "\<forall>r \<in> set rows. 0 \<le> speed r"
  shows "\<forall>r \<in> set (dead_reckoning rows). sqrt ((X r)\<^sup>2 + (Y r)\<^sup>2) \<le> Laptrigger_lapdist_dls r"
proof
  fix r assume "r \<in> set (dead_reckoning rows)"
  then obtain i where i: "i < length rows" and r: "r = dead_reckoning rows ! i"
    by (auto simp: in_set_conv_nth)
  have "integrate integ0 (dr_steps rows) ! i \<in> set (integrate integ0 (dr_steps rows))"
    using i by simp
  then have "pos_within_odo (integrate integ0 (dr_steps rows) ! i)"
    using integrate_pos_within_odo [OF pos_within_odo_integ0 dr_steps_nonneg [OF assms]] by blast
  then show "sqrt ((X r)\<^sup>2 + (Y r)\<^sup>2) \<le> Laptrigger_lapdist_dls r"
    using dead_reckoning_nth [OF i] r by (simp add: pos_within_odo_def)
qed

theorem dead_reckoning_position_within_lapdist_witness:
  "sqrt ((X (dead_reckoning demo_lap ! 1))\<^sup>2 + (Y (dead_reckoning demo_lap ! 1))\<^sup>2)
     \<le> Laptrigger_lapdist_dls (dead_reckoning demo_lap ! 1)"
proof -
  have h1: "sorted (map timestamp demo_lap)" and h2: "\<forall>r \<in> set demo_lap. 0 \<le> speed r"
    by (simp_all add: demo_lap_def)
  have "dead_reckoning demo_lap ! 1 \<in> set (dead_reckoning demo_lap)"
    by (simp add: demo_lap_def)
  then show ?thesis using dead_reckoning_position_within_lapdist [OF h1 h2] by blast
qed

text \<open>
  All cumulative sums start at zero: the first row has \<open>dt = 0\<close>, \<open>X = Y = 0\<close> and
  lap distance 0, and keeps the sample's channels.
\<close>
theorem dead_reckoning_starts_at_zero:
  "dead_reckoning (r # rs) ! 0 = sample.extend r (track_row.fields 0 0 0 0)"
  by (simp add: dead_reckoning_def Let_def diff0_def cumsum_def speed_ms_def)

end
