(* ===== verification/Segment.thy ===== *)
theory Segment
  imports Prelude
begin

text \<open>
  The lap segmenter, \<open>src/src/segment_lap.py\<close>, function \<open>segment_lap\<close>. The rows are
  sorted by lap distance (\<open>Laptrigger_lapdist_dls\<close>), the segment length is
  \<open>max_dist / num_segments\<close>, and each row gets
  \<open>segment_id = min (floor (distance / segment_length)) (num_segments - 1)\<close>.
  The rows are of any type \<open>'r\<close> with a distance projection \<open>lapdist\<close>: the component is
  stated over this interface and instantiated with the reconstructed track rows in
  \<open>Pipeline\<close>.

  The floating-point corner cases of the source are written out: a maximum distance
  of zero makes \<open>0.0 // 0.0\<close> a NaN and \<open>astype(int)\<close> raises (\<open>NonFiniteSegmentId\<close>);
  \<open>num_segments = 0\<close> makes the segment length infinite, \<open>d // inf\<close> is \<open>0\<close> or
  \<open>-1\<close>, and the clip to \<open>num_segments - 1 = -1\<close> sends every row to segment \<open>-1\<close>.
  The sort is modelled by the stable \<open>sort_key\<close>; numpy's default quicksort may
  order rows of equal distance differently.
\<close>

datatype seg_error = NonFiniteSegmentId

definition seg_id :: "real \<Rightarrow> int \<Rightarrow> real \<Rightarrow> int" where
  "seg_id max_dist num_segments d =
     (if num_segments = 0 then -1
      else min \<lfloor>d / (max_dist / of_int num_segments)\<rfloor> (num_segments - 1))"

definition segment_lap :: "('r \<Rightarrow> real) \<Rightarrow> 'r list \<Rightarrow> int \<Rightarrow> seg_error + ('r \<times> int) list" where
  "segment_lap lapdist rows num_segments =
     (let df = sort_key lapdist rows in
      if df = [] then Inr []
      else let max_dist = smax (map lapdist df) in
        if max_dist = 0 then Inl NonFiniteSegmentId
        else Inr (map (\<lambda>r. (r, seg_id max_dist num_segments (lapdist r))) df))"

text \<open>
  The module's self-test (lines 21-29). When \<open>from load_data import load_telemetry\<close>
  succeeds, \<open>load_telemetry()\<close> is called without its required \<open>file_path\<close> argument
  (\<open>load_data.py\<close> line 126) and raises \<open>TypeError\<close>, which the \<open>except ImportError\<close>
  does not catch; otherwise the message is printed. \<open>segment_lap\<close> is never reached.
\<close>

datatype main_result = MainPrinted string | MainRaised string

definition segment_lap_main :: "bool \<Rightarrow> main_result" where
  "segment_lap_main import_ok =
     (if import_ok then MainRaised ''TypeError'' else MainPrinted ''load_data module not found for testing.'')"

section \<open>Lemmas on the segment index\<close>

lemma seg_id_le: "0 < n \<Longrightarrow> seg_id m n d \<le> n - 1"
  by (simp add: seg_id_def)

lemma seg_id_nonneg:
  assumes "0 < n" "0 < m" "0 \<le> d"
  shows "0 \<le> seg_id m n d"
proof -
  have "0 \<le> d / (m / of_int n)" using assms by simp
  then show ?thesis using assms by (simp add: seg_id_def)
qed

lemma seg_id_max:
  assumes "0 < n" "m \<noteq> 0"
  shows "seg_id m n m = n - 1"
proof -
  have "m / (m / of_int n) = of_int n" using assms by simp
  then show ?thesis using assms by (simp add: seg_id_def)
qed

lemma seg_id_mono:
  assumes "0 < n" "0 < m" "d \<le> d'"
  shows "seg_id m n d \<le> seg_id m n d'"
proof -
  have "d / (m / of_int n) \<le> d' / (m / of_int n)"
    using assms by (simp add: divide_right_mono)
  then have "\<lfloor>d / (m / of_int n)\<rfloor> \<le> \<lfloor>d' / (m / of_int n)\<rfloor>" by (rule floor_mono)
  then show ?thesis using assms by (auto simp: seg_id_def)
qed

section \<open>Lemmas on segment_lap\<close>

lemma segment_lap_Inr_cases:
  assumes "segment_lap lapdist rows n = Inr out"
  shows "(rows = [] \<and> out = []) \<or>
         (rows \<noteq> [] \<and> smax (map lapdist rows) \<noteq> 0 \<and>
          out = map (\<lambda>r. (r, seg_id (smax (map lapdist rows)) n (lapdist r))) (sort_key lapdist rows))"
proof -
  have "set (map lapdist (sort_key lapdist rows)) = set (map lapdist rows)" by simp
  then have "smax (map lapdist (sort_key lapdist rows)) = smax (map lapdist rows)"
    by (simp add: smax_def)
  then show ?thesis using assms
    by (auto simp: segment_lap_def Let_def split: if_splits)
qed

lemma segment_lap_max_pos:
  assumes "segment_lap lapdist rows n = Inr out" "rows \<noteq> []" "\<forall>r \<in> set rows. 0 \<le> lapdist r"
  shows "0 < smax (map lapdist rows)"
proof -
  have "smax (map lapdist rows) \<noteq> 0" using segment_lap_Inr_cases [OF assms(1)] assms(2) by simp
  moreover obtain r where "r \<in> set rows" using assms(2) by fastforce
  then have "lapdist r \<le> smax (map lapdist rows)" by (simp add: smax_ge)
  then have "0 \<le> smax (map lapdist rows)"
    using assms(3) \<open>r \<in> set rows\<close> by force
  ultimately show ?thesis by simp
qed

lemma segment_lap_rows:
  assumes "segment_lap lapdist rows n = Inr out"
  shows "map fst out = sort_key lapdist rows"
  using segment_lap_Inr_cases [OF assms] by (auto simp: comp_def)

lemmas segment_lap_facts = segment_lap_Inr_cases segment_lap_max_pos seg_id_le seg_id_nonneg

section \<open>Properties of the segmenter\<close>

text \<open>
  C1. For a positive segment count and non-negative lap distances, every row the
  segmenter returns carries a segment id in \<open>[0, num_segments - 1]\<close>.
\<close>

theorem segment_lap_ids_in_range:
  assumes "0 < n" "\<forall>r \<in> set rows. 0 \<le> lapdist r" "segment_lap lapdist rows n = Inr out"
  shows "\<forall>(r, s) \<in> set out. 0 \<le> s \<and> s \<le> n - 1"
proof (cases "rows = []")
  case True
  then show ?thesis using segment_lap_Inr_cases [OF assms(3)] by simp
next
  case False
  let ?m = "smax (map lapdist rows)"
  have m: "0 < ?m" using segment_lap_max_pos [OF assms(3) False assms(2)] .
  have out: "out = map (\<lambda>r. (r, seg_id ?m n (lapdist r))) (sort_key lapdist rows)"
    using segment_lap_Inr_cases [OF assms(3)] False by simp
  show ?thesis
  proof (clarify)
    fix r s assume "(r, s) \<in> set out"
    then have "r \<in> set rows" and s: "s = seg_id ?m n (lapdist r)" using out by auto
    then have "0 \<le> lapdist r" using assms(2) by simp
    then show "0 \<le> s \<and> s \<le> n - 1"
      using s seg_id_nonneg [OF assms(1) m] seg_id_le [OF assms(1)] by simp
  qed
qed

theorem segment_lap_ids_in_range_witness:
  "segment_lap id [10, 0, 5::real] 2 = Inr [(0, 0), (5, 1), (10, 1)]
   \<and> (0::int) \<le> 1 \<and> (1::int) \<le> 2 - 1"
proof -
  have run: "segment_lap id [10, 0, 5::real] 2 = Inr [(0, 0), (5, 1), (10, 1)]"
    by (simp add: segment_lap_def seg_id_def smax_def)
  have "\<forall>(r, s) \<in> set [(0::real, 0::int), (5, 1), (10, 1)]. 0 \<le> s \<and> s \<le> 2 - 1"
    using segment_lap_ids_in_range [OF _ _ run] by simp
  then show ?thesis using run by auto
qed

text \<open>
  C2. Boundary clamp: a row whose distance is the lap's maximum distance lands in the
  last segment \<open>num_segments - 1\<close>, never in the overflow bin \<open>num_segments\<close>.
\<close>

theorem segment_lap_max_row_last_segment:
  assumes "0 < n" "segment_lap lapdist rows n = Inr out"
    and "r \<in> set rows" "lapdist r = smax (map lapdist rows)"
  shows "(r, n - 1) \<in> set out"
proof -
  have ne: "rows \<noteq> []" using assms(3) by auto
  let ?m = "smax (map lapdist rows)"
  have m: "?m \<noteq> 0" and
    out: "out = map (\<lambda>r. (r, seg_id ?m n (lapdist r))) (sort_key lapdist rows)"
    using segment_lap_Inr_cases [OF assms(2)] ne by auto
  have "seg_id ?m n (lapdist r) = n - 1" using assms(4) seg_id_max [OF assms(1) m] by simp
  then show ?thesis using out assms(3) by force
qed

theorem segment_lap_max_row_last_segment_witness:
  "(0::int) < 2 \<and> segment_lap id [10, 0, 5::real] 2 = Inr [(0, 0), (5, 1), (10, 1)]
   \<and> (10::real) \<in> set [10, 0, 5] \<and> id (10::real) = smax (map id [10, 0, 5])
   \<and> ((10::real), 2 - (1::int)) \<in> set [(0, 0), (5, 1), (10, 1)]"
proof -
  have run: "segment_lap id [10, 0, 5::real] 2 = Inr [(0, 0), (5, 1), (10, 1)]"
    by (simp add: segment_lap_def seg_id_def smax_def)
  have mx: "id (10::real) = smax (map id [10, 0, 5])" by (simp add: smax_def)
  show ?thesis using segment_lap_max_row_last_segment [OF _ run _ mx] run mx by simp
qed

text \<open>
  C4. A non-positive segment count is not rejected: on any table with a non-zero
  maximum distance the segmenter succeeds and gives every row a negative segment id
  (for \<open>num_segments = 0\<close>, id \<open>-1\<close>), outside every valid range.
\<close>

theorem segment_lap_nonpos_count:
  assumes "n \<le> 0" "rows \<noteq> []" "smax (map lapdist rows) \<noteq> 0"
  shows "\<exists>out. segment_lap lapdist rows n = Inr out \<and> length out = length rows
                \<and> (\<forall>(r, s) \<in> set out. s < 0)"
proof -
  have "smax (map lapdist (sort_key lapdist rows)) = smax (map lapdist rows)"
    by (simp add: smax_def)
  moreover have "\<And>m d. seg_id m n d < 0" using assms(1) by (simp add: seg_id_def min_less_iff_disj)
  ultimately show ?thesis using assms(2,3) by (auto simp: segment_lap_def Let_def)
qed

theorem segment_lap_nonpos_count_witness:
  "(0::int) \<le> 0 \<and> [10, 0, 5::real] \<noteq> [] \<and> smax (map id [10, 0, 5::real]) \<noteq> 0
   \<and> segment_lap id [10, 0, 5::real] 0 = Inr [(0, -1), (5, -1), (10, -1)]"
proof -
  have mx: "smax (map id [10, 0, 5::real]) \<noteq> 0" by (simp add: smax_def)
  have run: "segment_lap id [10, 0, 5::real] 0 = Inr [(0, -1), (5, -1), (10, -1)]"
    by (simp add: segment_lap_def seg_id_def smax_def)
  show ?thesis using segment_lap_nonpos_count [of 0 "[10, 0, 5::real]" id] mx run by simp
qed

end
