(* ===== verification/Metrics.thy ===== *)
theory Metrics
  imports Track Segment
begin

text \<open>
  The segment metric engine, \<open>src/src/compute_metrics.py\<close>. Its input is the
  segmenter's output, rows paired with their segment id; \<open>compute_segment_metrics\<close>
  groups them by id (pandas \<open>groupby\<close>: ids ascending, row order kept inside a
  group) and computes one \<open>seg_metrics\<close> row per group.

  \<open>calculate_shannon_entropy\<close> models \<open>numpy.histogram(series, bins=20,
  density=True)\<close> followed by \<open>scipy.stats.entropy\<close> of the positive densities:
  the histogram range is the series' \<open>[min, max]\<close>, widened to
  \<open>[v - 0.5, v + 0.5]\<close> for a constant series as numpy does; a value's bin is
  \<open>floor ((x - lo) * (20 / (hi - lo)))\<close>, the value \<open>hi\<close> going to the last bin;
  scipy normalises the vector to sum 1 before \<open>- \<Sum> p ln p\<close>.

  \<open>lat_instability\<close> is the sample standard deviation (pandas \<open>std\<close>, ddof 1),
  which is NaN for a single-row segment: it is a \<open>real option\<close>, \<open>None\<close> for NaN.
\<close>

section \<open>Histogram entropy\<close>

definition hist_range :: "series \<Rightarrow> real \<times> real" where
  "hist_range xs = (if smin xs = smax xs then (smin xs - 0.5, smax xs + 0.5) else (smin xs, smax xs))"

definition hist_bin :: "real \<Rightarrow> real \<Rightarrow> real \<Rightarrow> nat" where
  "hist_bin lo hi x = (let i = nat \<lfloor>(x - lo) * (20 / (hi - lo))\<rfloor> in if i = 20 then 19 else i)"

definition hist_counts :: "series \<Rightarrow> nat list" where
  "hist_counts xs =
     (case hist_range xs of (lo, hi) \<Rightarrow>
        map (\<lambda>k. length (filter (\<lambda>x. hist_bin lo hi x = k) xs)) [0..<20])"

definition hist_density :: "series \<Rightarrow> series" where
  "hist_density xs =
     (case hist_range xs of (lo, hi) \<Rightarrow>
        map (\<lambda>c. real c / (real (length xs) * ((hi - lo) / 20))) (hist_counts xs))"

definition scipy_entropy :: "series \<Rightarrow> real" where
  "scipy_entropy pk = (let s = sum_list pk in sum_list (map (\<lambda>p. - ((p / s) * ln (p / s))) pk))"

definition calculate_shannon_entropy :: "series \<Rightarrow> real" where
  "calculate_shannon_entropy xs = scipy_entropy (filter (\<lambda>c. c > 0) (hist_density xs))"

section \<open>The per-segment metrics\<close>

definition std1 :: "series \<Rightarrow> real option" where
  "std1 xs =
     (if length xs < 2 then None
      else Some (sqrt (sum_list (map (\<lambda>x. (x - mean xs)\<^sup>2) xs) / real (length xs - 1))))"

definition throttle_jerk_of :: "series \<Rightarrow> real" where
  "throttle_jerk_of xs = mean (map abs (diff0 xs))"

definition brake_panic_of :: "series \<Rightarrow> real" where
  "brake_panic_of xs =
     (let pos = filter (\<lambda>d. d > 0) (diff0 xs) in if pos = [] then 0 else mean pos)"

definition long_jerk_of :: "series \<Rightarrow> real" where
  "long_jerk_of xs = mean (map abs (diff0 xs))"

record seg_metrics =
  segment_id :: int
  steering_entropy :: real
  throttle_jerk :: real
  brake_panic :: real
  lat_instability :: "real option"
  long_jerk :: real
  avg_dist :: real

definition segment_metrics :: "int \<Rightarrow> track_row list \<Rightarrow> seg_metrics" where
  "segment_metrics sid g =
     \<lparr>segment_id = sid,
      steering_entropy = calculate_shannon_entropy (map Steering_Angle g),
      throttle_jerk = throttle_jerk_of (map throttle g),
      brake_panic = brake_panic_of (map brake_pressure g),
      lat_instability = std1 (map accy g),
      long_jerk = long_jerk_of (map accx g),
      avg_dist = mean (map Laptrigger_lapdist_dls g)\<rparr>"

text \<open>pandas \<open>groupby('segment_id')\<close>: the distinct ids ascending, each with its rows in order.\<close>

definition group_by_segment :: "(track_row \<times> int) list \<Rightarrow> (int \<times> track_row list) list" where
  "group_by_segment rows =
     map (\<lambda>sid. (sid, map fst (filter (\<lambda>(r, s). s = sid) rows))) (sorted_list_of_set (snd ` set rows))"

definition compute_segment_metrics :: "(track_row \<times> int) list \<Rightarrow> seg_metrics list" where
  "compute_segment_metrics rows =
     map (\<lambda>(sid, g). segment_metrics sid g) (filter (\<lambda>(sid, g). g \<noteq> []) (group_by_segment rows))"

text \<open>A segmented table of three rows in two segments, used by the witnesses.\<close>

definition demo_segmented :: "(track_row \<times> int) list" where
  "demo_segmented =
     [(\<lparr>timestamp = 0, Steering_Angle = 0.1, throttle = 0.5, brake_pressure = 0.8, accx = 0, accy = 0.1,
        speed = 10, dt = 0, X = 0, Y = 0, Laptrigger_lapdist_dls = 0\<rparr>, 0),
      (\<lparr>timestamp = 0.5, Steering_Angle = 0.2, throttle = 0.5, brake_pressure = 0.2, accx = 0.2, accy = 0.3,
        speed = 10, dt = 0.5, X = 5, Y = 0, Laptrigger_lapdist_dls = 5\<rparr>, 0),
      (\<lparr>timestamp = 1, Steering_Angle = 0.3, throttle = 0.5, brake_pressure = 0.4, accx = 0.1, accy = 0.2,
        speed = 10, dt = 0.5, X = 10, Y = 0, Laptrigger_lapdist_dls = 10\<rparr>, 1)]"

section \<open>Lemmas\<close>

lemma scipy_entropy_single: "0 < p \<Longrightarrow> scipy_entropy [p] = 0"
  by (simp add: scipy_entropy_def)

lemma entropy_term_nonneg: "0 < q \<Longrightarrow> q \<le> 1 \<Longrightarrow> 0 \<le> - (q * ln (q::real))"
  by (simp add: mult_le_0_iff)

lemma scipy_entropy_nonneg:
  assumes pos: "\<forall>p \<in> set pk. 0 < p"
  shows "0 \<le> scipy_entropy pk"
proof -
  let ?s = "sum_list pk"
  have "0 \<le> (\<Sum>p\<leftarrow>pk. - ((p / ?s) * ln (p / ?s)))"
  proof (rule sum_list_nonneg)
    fix x assume "x \<in> set (map (\<lambda>p. - ((p / ?s) * ln (p / ?s))) pk)"
    then obtain p where p: "p \<in> set pk" and x: "x = - ((p / ?s) * ln (p / ?s))" by auto
    have "pk \<noteq> []" using p by auto
    then have s: "0 < ?s" using sum_list_pos [OF pos] by blast
    have "p \<le> ?s" using pos p by (metis member_le_sum_list order_less_imp_le)
    then have "0 < p / ?s" "p / ?s \<le> 1" using pos p s by auto
    then show "0 \<le> x" unfolding x by (rule entropy_term_nonneg)
  qed
  then show ?thesis by (simp add: scipy_entropy_def Let_def)
qed

lemma scipy_entropy_scale:
  assumes "0 < c"
  shows "scipy_entropy (map (\<lambda>p. c * p) pk) = scipy_entropy pk"
proof -
  have "sum_list (map (\<lambda>p. c * p) pk) = c * sum_list pk" by (simp add: sum_list_const_mult)
  then show ?thesis using assms by (simp add: scipy_entropy_def comp_def Let_def)
qed

lemma entropy_term_bound:
  assumes "0 < q" "0 < k"
  shows "- (q * ln q) \<le> q * ln k + (1 / k - (q::real))"
proof -
  have x: "0 < 1 / (k * q)" using assms by (metis mult_pos_pos zero_less_divide_1_iff)
  have "ln (1 / (k * q)) = - (ln k + ln q)" using assms by (simp add: ln_div ln_mult)
  moreover have "ln (1 / (k * q)) \<le> 1 / (k * q) - 1" using ln_le_minus_one [OF x] .
  ultimately have "q * (- (ln k + ln q)) \<le> q * (1 / (k * q) - 1)"
    using assms(1) by (metis mult_left_mono order_less_imp_le)
  then show ?thesis using assms by (simp add: algebra_simps)
qed

text \<open>Gibbs' inequality: the entropy of \<open>k\<close> positive weights is at most \<open>ln k\<close>.\<close>

lemma scipy_entropy_le_ln_length:
  assumes pos: "\<forall>p \<in> set pk. 0 < p" and ne: "pk \<noteq> []"
  shows "scipy_entropy pk \<le> ln (real (length pk))"
proof -
  let ?s = "sum_list pk" and ?k = "real (length pk)"
  have s: "0 < ?s" using sum_list_pos [OF pos ne] .
  have k: "0 < ?k" using ne by simp
  have q1: "(\<Sum>p\<leftarrow>pk. p / ?s) = 1" using s by (simp add: sum_list_div_const)
  have "scipy_entropy pk = (\<Sum>p\<leftarrow>pk. - ((p / ?s) * ln (p / ?s)))"
    by (simp add: scipy_entropy_def Let_def)
  also have "\<dots> \<le> (\<Sum>p\<leftarrow>pk. (p / ?s) * ln ?k + (1 / ?k - p / ?s))"
  proof (rule sum_list_mono)
    fix p assume "p \<in> set pk"
    then have "0 < p / ?s" using pos s by simp
    then show "- ((p / ?s) * ln (p / ?s)) \<le> (p / ?s) * ln ?k + (1 / ?k - p / ?s)"
      using entropy_term_bound k by blast
  qed
  also have "\<dots> = ln ?k * (\<Sum>p\<leftarrow>pk. p / ?s) + ?k * (1 / ?k) - (\<Sum>p\<leftarrow>pk. p / ?s)"
    by (simp add: sum_list_addf sum_list_subtractf sum_list_triv sum_list_const_mult [symmetric] mult.commute)
  also have "\<dots> = ln ?k" using q1 k by simp
  finally show ?thesis .
qed



lemma hist_density_const:
  assumes "xs \<noteq> []" "\<forall>x \<in> set xs. x = c"
  shows "hist_density xs = map (\<lambda>k. if k = 10 then 20 else 0) [0..<20]"
proof -
  have r: "hist_range xs = (c - 0.5, c + 0.5)"
    using smin_smax_const [OF assms] by (simp add: hist_range_def)
  have b: "hist_bin (c - 0.5) (c + 0.5) c = 10" by (simp add: hist_bin_def)
  have "\<And>k. filter (\<lambda>x. hist_bin (c - 0.5) (c + 0.5) x = k) xs = (if k = 10 then xs else [])"
    using assms(2) b by (auto simp: filter_id_conv filter_empty_conv)
  then have "hist_counts xs = map (\<lambda>k. if k = 10 then length xs else 0) [0..<20]"
    by (simp add: hist_counts_def r)
  then show ?thesis using assms(1) by (simp add: hist_density_def r)
qed

lemma length_hist_density [simp]: "length (hist_density xs) = 20"
  by (simp add: hist_density_def hist_counts_def split: prod.splits)

lemma calculate_shannon_entropy_bounds:
  "0 \<le> calculate_shannon_entropy xs \<and> calculate_shannon_entropy xs \<le> ln 20"
proof -
  let ?pk = "filter (\<lambda>c. c > 0) (hist_density xs)"
  have pos: "\<forall>p \<in> set ?pk. 0 < p" by simp
  have len: "length ?pk \<le> 20" using length_filter_le [of "\<lambda>c. c > 0" "hist_density xs"] by simp
  have "scipy_entropy ?pk \<le> ln 20"
  proof (cases "?pk = []")
    case True
    then show ?thesis by (simp add: scipy_entropy_def)
  next
    case False
    then have "scipy_entropy ?pk \<le> ln (real (length ?pk))"
      using scipy_entropy_le_ln_length [OF pos] by blast
    also have "\<dots> \<le> ln 20" using False len by simp
    finally show ?thesis .
  qed
  then show ?thesis using scipy_entropy_nonneg [OF pos] by (simp add: calculate_shannon_entropy_def)
qed

lemma group_by_segment_nonempty:
  assumes "(sid, g) \<in> set (group_by_segment rows)"
  shows "g \<noteq> []"
proof -
  have "sid \<in> snd ` set rows" and g: "g = map fst (filter (\<lambda>(r, s). s = sid) rows)"
    using assms by (auto simp: group_by_segment_def)
  then obtain r where "(r, sid) \<in> set rows" by force
  then show ?thesis using g by (auto simp: filter_empty_conv)
qed

lemma compute_segment_metrics_groups:
  "compute_segment_metrics rows = map (\<lambda>(sid, g). segment_metrics sid g) (group_by_segment rows)"
proof -
  have "filter (\<lambda>(sid, g). g \<noteq> []) (group_by_segment rows) = group_by_segment rows"
    using group_by_segment_nonempty by (auto simp: filter_id_conv)
  then show ?thesis by (simp add: compute_segment_metrics_def)
qed

lemma in_compute_segment_metrics:
  assumes "m \<in> set (compute_segment_metrics rows)"
  obtains sid where "sid \<in> snd ` set rows" "segment_id m = sid"
    "m = segment_metrics sid (map fst (filter (\<lambda>(r, s). s = sid) rows))"
    "map fst (filter (\<lambda>(r, s). s = sid) rows) \<noteq> []"
proof -
  obtain sid g where sg: "(sid, g) \<in> set (group_by_segment rows)" and m: "m = segment_metrics sid g"
    using assms by (auto simp: compute_segment_metrics_groups)
  then have "sid \<in> snd ` set rows" "g = map fst (filter (\<lambda>(r, s). s = sid) rows)"
    by (auto simp: group_by_segment_def)
  moreover have "g \<noteq> []" using group_by_segment_nonempty [OF sg] .
  ultimately show ?thesis using that m by (simp add: segment_metrics_def)
qed

lemma throttle_jerk_of_const:
  assumes "xs \<noteq> []" "\<forall>x \<in> set xs. x = c"
  shows "throttle_jerk_of xs = 0"
proof -
  have "\<forall>d \<in> set (map abs (diff0 xs)). d = 0" using diff0_const [OF assms(2)] by auto
  moreover have "map abs (diff0 xs) \<noteq> []" using assms(1) by (metis length_0_conv length_diff0 length_map)
  ultimately show ?thesis using mean_const by (simp add: throttle_jerk_of_def)
qed

lemma brake_panic_of_decreasing:
  "sorted_wrt (>) xs \<Longrightarrow> brake_panic_of xs = 0"
  using diff0_strict_decreasing [of xs] by (auto simp: brake_panic_of_def filter_empty_conv)

lemma abs_mean_nonneg: "0 \<le> mean (map abs xs)"
  by (intro mean_nonneg) auto

lemma brake_panic_of_nonneg: "0 \<le> brake_panic_of xs"
  by (auto simp: brake_panic_of_def Let_def intro: mean_nonneg)

lemma std1_None_iff: "xs \<noteq> [] \<Longrightarrow> std1 xs = None \<longleftrightarrow> length xs = 1"
  by (cases xs) (auto simp: std1_def)

lemma std1_nonneg:
  assumes "std1 xs = Some v"
  shows "0 \<le> v"
proof -
  have "\<not> length xs < 2" using assms by (auto simp: std1_def split: if_splits)
  then have "0 \<le> real (length xs) - 1" by simp
  moreover have "0 \<le> (\<Sum>x\<leftarrow>xs. (x - mean xs)\<^sup>2)" by (rule sum_list_nonneg) auto
  ultimately show ?thesis using assms by (auto simp: std1_def split: if_splits)
qed

section \<open>Properties of the metric engine\<close>

lemma segment_id_segment_metrics [simp]: "segment_id (segment_metrics sid g) = sid"
  by (simp add: segment_metrics_def)

lemma demo_segmented_groups:
  "map segment_id (compute_segment_metrics demo_segmented) = [0, 1]"
  by (simp add: compute_segment_metrics_groups group_by_segment_def demo_segmented_def)

lemma demo_segmented_length: "length (compute_segment_metrics demo_segmented) = 2"
proof -
  have "length (map segment_id (compute_segment_metrics demo_segmented)) = 2"
    by (simp only: demo_segmented_groups) simp
  then show ?thesis by simp
qed

lemma demo_segmented_id:
  "i < 2 \<Longrightarrow> segment_id (compute_segment_metrics demo_segmented ! i) = [0, 1] ! i"
  using demo_segmented_groups demo_segmented_length by (metis nth_map)

text \<open>
  C9. The metric engine produces exactly one metrics row per distinct segment id of
  its input, in ascending id order (no id is skipped or zero-filled).
\<close>
theorem compute_segment_metrics_ids:
  "map segment_id (compute_segment_metrics rows) = sorted_list_of_set (snd ` set rows)"
  by (simp add: compute_segment_metrics_groups group_by_segment_def comp_def)

text \<open>
  C11. Every metrics row has non-negative metrics, a steering entropy at most
  \<open>ln 20\<close> (20 histogram bins, Gibbs' inequality) and a lateral instability that is
  non-negative where it is defined.
\<close>
theorem compute_segment_metrics_bounds:
  assumes "m \<in> set (compute_segment_metrics rows)"
  shows "0 \<le> steering_entropy m \<and> steering_entropy m \<le> ln 20 \<and> 0 \<le> throttle_jerk m
       \<and> 0 \<le> brake_panic m \<and> 0 \<le> long_jerk m \<and> pred_option (\<lambda>v. 0 \<le> v) (lat_instability m)"
proof -
  obtain sid where "m = segment_metrics sid (map fst (filter (\<lambda>(r, s). s = sid) rows))"
    using in_compute_segment_metrics [OF assms] by blast
  then show ?thesis
    using calculate_shannon_entropy_bounds abs_mean_nonneg brake_panic_of_nonneg std1_nonneg
    by (auto simp: segment_metrics_def throttle_jerk_of_def long_jerk_of_def option.pred_set)
qed

theorem compute_segment_metrics_bounds_witness:
  "0 \<le> throttle_jerk (hd (compute_segment_metrics demo_segmented))
   \<and> steering_entropy (hd (compute_segment_metrics demo_segmented)) \<le> ln 20"
proof -
  have "compute_segment_metrics demo_segmented \<noteq> []"
  proof
    assume "compute_segment_metrics demo_segmented = []"
    then have "map segment_id (compute_segment_metrics demo_segmented) = []" by (simp only: list.map)
    then show False by (simp only: demo_segmented_groups list.distinct(2))
  qed
  then show ?thesis using compute_segment_metrics_bounds [OF hd_in_set] by blast
qed

text \<open>
  C12. If the throttle is constant over the whole lap, every segment's throttle jerk is 0.
\<close>
theorem compute_segment_metrics_throttle_const:
  assumes "\<forall>(r, s) \<in> set rows. throttle r = c" "m \<in> set (compute_segment_metrics rows)"
  shows "throttle_jerk m = 0"
proof -
  obtain sid where m: "m = segment_metrics sid (map fst (filter (\<lambda>(r, s). s = sid) rows))"
    and ne: "map fst (filter (\<lambda>(r, s). s = sid) rows) \<noteq> []"
    using in_compute_segment_metrics [OF assms(2)] by blast
  have "\<forall>x \<in> set (map throttle (map fst (filter (\<lambda>(r, s). s = sid) rows))). x = c"
    using assms(1) by auto
  moreover have "map throttle (map fst (filter (\<lambda>(r, s). s = sid) rows)) \<noteq> []" using ne by simp
  ultimately have "throttle_jerk_of (map throttle (map fst (filter (\<lambda>(r, s). s = sid) rows))) = 0"
    using throttle_jerk_of_const by blast
  then show ?thesis using m by (simp add: segment_metrics_def)
qed

theorem compute_segment_metrics_throttle_const_witness:
  "throttle_jerk (compute_segment_metrics demo_segmented ! 1) = 0"
proof -
  have h: "\<forall>(r, s) \<in> set demo_segmented. throttle r = 0.5" by (simp add: demo_segmented_def)
  have "1 < length (compute_segment_metrics demo_segmented)" by (simp add: demo_segmented_length)
  then show ?thesis using compute_segment_metrics_throttle_const [OF h nth_mem] by blast
qed

text \<open>
  C14. A segment's lateral instability is NaN (the sample standard deviation with
  ddof 1) exactly when the segment holds a single row.
\<close>
theorem compute_segment_metrics_lat_nan:
  assumes "m \<in> set (compute_segment_metrics rows)"
  shows "lat_instability m = None \<longleftrightarrow> length (filter (\<lambda>(r, s). s = segment_id m) rows) = 1"
proof -
  obtain sid where sid: "segment_id m = sid"
    and m: "m = segment_metrics sid (map fst (filter (\<lambda>(r, s). s = sid) rows))"
    and ne: "map fst (filter (\<lambda>(r, s). s = sid) rows) \<noteq> []"
    using in_compute_segment_metrics [OF assms] by blast
  then show ?thesis using std1_None_iff [of "map accy (map fst (filter (\<lambda>(r, s). s = sid) rows))"]
    by (simp add: segment_metrics_def)
qed

theorem compute_segment_metrics_lat_nan_witness:
  "lat_instability (compute_segment_metrics demo_segmented ! 1) = None"
proof -
  have "1 < length (compute_segment_metrics demo_segmented)" by (simp add: demo_segmented_length)
  moreover have "segment_id (compute_segment_metrics demo_segmented ! 1) = 1"
    using demo_segmented_id [of 1] by simp
  ultimately show ?thesis
    using compute_segment_metrics_lat_nan [OF nth_mem] by (simp add: demo_segmented_def)
qed

end
