(* ===== verification/Fusion.thy ===== *)
theory Fusion
  imports Metrics
begin

text \<open>
  The CLI fusion model, \<open>src/src/cli_model.py\<close>. \<open>normalize_series\<close> is min-max
  normalisation of a column, \<open>compute_cli\<close> adds the four normalised columns, the
  weighted sum \<open>CLI\<close> and its centred 3-segment rolling mean \<open>CLI_smooth\<close>.
  Columns are \<open>real option list\<close>s: the lateral instability may be NaN (see
  \<open>Metrics\<close>), pandas' \<open>min\<close>/\<open>max\<close> skip NaN, arithmetic with NaN gives NaN, and
  \<open>rolling(window=3, center=True, min_periods=1).mean()\<close> averages the non-NaN
  values of the window \<open>[i - 1, i + 1]\<close> cut at the ends of the lap, NaN when the
  window has none.
\<close>

definition normalize_series :: "real option list \<Rightarrow> real option list" where
  "normalize_series series =
     (let vs = present series in
      if vs = [] then map (\<lambda>_. None) series
      else let min_val = smin vs; max_val = smax vs in
        if max_val - min_val = 0 then map (map_option (\<lambda>x. x * 0)) series
        else map (map_option (\<lambda>x. (x - min_val) / (max_val - min_val))) series)"

definition w_steering :: real where "w_steering = 0.4"
definition w_throttle :: real where "w_throttle = 0.3"
definition w_brake :: real where "w_brake = 0.2"
definition w_lat :: real where "w_lat = 0.1"

definition cli_value :: "real option \<Rightarrow> real option \<Rightarrow> real option \<Rightarrow> real option \<Rightarrow> real option" where
  "cli_value ns nt nb nl =
     (case (ns, nt, nb, nl) of
        (Some s, Some t, Some b, Some l) \<Rightarrow> Some (w_steering * s + w_throttle * t + w_brake * b + w_lat * l)
      | _ \<Rightarrow> None)"

definition window_mean :: "real option list \<Rightarrow> real option" where
  "window_mean ws = (let vs = present ws in if vs = [] then None else Some (mean vs))"

definition rolling_window3 :: "'a list \<Rightarrow> nat \<Rightarrow> 'a list" where
  "rolling_window3 xs i = take (if i = 0 then 2 else 3) (drop (i - 1) xs)"

definition rolling_mean3 :: "real option list \<Rightarrow> real option list" where
  "rolling_mean3 xs = map (\<lambda>i. window_mean (rolling_window3 xs i)) [0..<length xs]"

record fused_metrics = seg_metrics +
  norm_steering :: "real option"
  norm_throttle :: "real option"
  norm_brake :: "real option"
  norm_lat :: "real option"
  CLI :: "real option"
  CLI_smooth :: "real option"

definition compute_cli :: "seg_metrics list \<Rightarrow> fused_metrics list" where
  "compute_cli df =
     (let ns = normalize_series (map (Some \<circ> steering_entropy) df);
          nt = normalize_series (map (Some \<circ> throttle_jerk) df);
          nb = normalize_series (map (Some \<circ> brake_panic) df);
          nl = normalize_series (map lat_instability df);
          cli = map (\<lambda>(s, t, b, l). cli_value s t b l) (zip ns (zip nt (zip nb nl)));
          sm = rolling_mean3 cli
      in map (\<lambda>(m, s, t, b, l, c, c'). seg_metrics.extend m (fused_metrics.fields s t b l c c'))
           (zip df (zip ns (zip nt (zip nb (zip nl (zip cli sm)))))))"

text \<open>
  \<open>compute_segment_metrics\<close> returns \<open>pd.DataFrame(metrics)\<close>: for a segmented table with
  no rows, \<open>metrics\<close> is empty and the frame has no columns at all, so the first column
  access of \<open>compute_cli\<close> (line 22, \<open>df['steering_entropy']\<close>) raises \<open>KeyError\<close>.
  A non-empty metrics list carries every column.
\<close>

datatype fusion_error = MissingMetricColumn string

definition compute_cli_table :: "seg_metrics list \<Rightarrow> fusion_error + fused_metrics list" where
  "compute_cli_table df = (if df = [] then Inl (MissingMetricColumn ''steering_entropy'') else Inr (compute_cli df))"

text \<open>A value that is NaN or lies in the unit interval.\<close>

abbreviation unit_or_nan :: "real option \<Rightarrow> bool" where
  "unit_or_nan v \<equiv> pred_option (\<lambda>x. 0 \<le> x \<and> x \<le> 1) v"

text \<open>Three segment rows, the last with a NaN lateral instability, used by the witnesses.\<close>

definition demo_metrics :: "seg_metrics list" where
  "demo_metrics =
     [\<lparr>segment_id = 0, steering_entropy = 0.2, throttle_jerk = 0.1, brake_panic = 0, lat_instability = Some 1,
       long_jerk = 0.3, avg_dist = 2\<rparr>,
      \<lparr>segment_id = 1, steering_entropy = 0.6, throttle_jerk = 0.1, brake_panic = 0.5, lat_instability = Some 3,
       long_jerk = 0.1, avg_dist = 7\<rparr>,
      \<lparr>segment_id = 2, steering_entropy = 0.4, throttle_jerk = 0.1, brake_panic = 0.25, lat_instability = None,
       long_jerk = 0.2, avg_dist = 12\<rparr>]"

section \<open>Lemmas\<close>

lemma length_normalize_series [simp]: "length (normalize_series xs) = length xs"
  by (simp add: normalize_series_def Let_def)

lemma normalize_series_None_iff:
  assumes "present xs \<noteq> []" "i < length xs"
  shows "normalize_series xs ! i = None \<longleftrightarrow> xs ! i = None"
  using assms by (simp add: normalize_series_def Let_def)


lemma normalize_series_in_range:
  assumes "Some v \<in> set (normalize_series xs)"
  shows "0 \<le> v \<and> v \<le> 1"
proof -
  let ?vs = "present xs"
  have ne: "?vs \<noteq> []" using assms by (auto simp: normalize_series_def)
  show ?thesis
  proof (cases "smax ?vs - smin ?vs = 0")
    case True
    then have "Some v \<in> set (map (map_option (\<lambda>x. x * 0)) xs)"
      using assms ne by (simp add: normalize_series_def Let_def)
    then obtain x where "v = x * 0" using Some_in_map_option [of v "\<lambda>x. x * 0"] by blast
    then show ?thesis by simp
  next
    case False
    then have "Some v \<in> set (map (map_option (\<lambda>x. (x - smin ?vs) / (smax ?vs - smin ?vs))) xs)"
      using assms ne by (simp add: normalize_series_def Let_def)
    then obtain x where x: "Some x \<in> set xs" and v: "v = (x - smin ?vs) / (smax ?vs - smin ?vs)"
      using Some_in_map_option [of v "\<lambda>x. (x - smin ?vs) / (smax ?vs - smin ?vs)"] by blast
    have "x \<in> set ?vs" using x by simp
    then have le: "smin ?vs \<le> x" "x \<le> smax ?vs" by (simp_all add: smin_le smax_ge)
    then have d: "0 < smax ?vs - smin ?vs" using False by linarith
    have "0 \<le> (x - smin ?vs) / (smax ?vs - smin ?vs)" using le d by simp
    moreover have "(x - smin ?vs) / (smax ?vs - smin ?vs) \<le> 1"
      using le d by (simp only: divide_le_eq_1_pos)
    ultimately show ?thesis using v by simp
  qed
qed

lemma normalize_series_const_Some:
  assumes "\<forall>x \<in> set xs. x = Some c"
  shows "normalize_series xs = map (\<lambda>_. Some 0) xs"
proof (cases "xs = []")
  case False
  then have "Some c \<in> set xs" using assms by (cases xs) auto
  then have "present xs \<noteq> []" "set (present xs) = {c}" using assms by (auto simp: present_eq_Nil_iff)
  then have "smin (present xs) = c" "smax (present xs) = c" by (simp_all add: smin_def smax_def)
  then show ?thesis using assms \<open>present xs \<noteq> []\<close>
    by (auto simp: normalize_series_def Let_def intro!: map_cong)
qed (simp add: normalize_series_def)

lemma cli_value_range:
  assumes "0 \<le> s" "s \<le> 1" "0 \<le> t" "t \<le> 1" "0 \<le> b" "b \<le> 1" "0 \<le> l" "l \<le> 1"
  shows "0 \<le> w_steering * s + w_throttle * t + w_brake * b + w_lat * l
       \<and> w_steering * s + w_throttle * t + w_brake * b + w_lat * l \<le> 1"
  using assms by (simp add: w_steering_def w_throttle_def w_brake_def w_lat_def)

lemma cli_value_None_iff:
  "cli_value s t b l = None \<longleftrightarrow> s = None \<or> t = None \<or> b = None \<or> l = None"
  by (auto simp: cli_value_def split: option.splits)

lemma rolling_window3_nth_mem:
  assumes "i < length xs"
  shows "xs ! i \<in> set (rolling_window3 xs i)"
proof (cases i)
  case 0
  then have "take 2 xs ! 0 = xs ! i" "0 < length (take 2 xs)" using assms by auto
  then show ?thesis using 0 by (metis nth_mem rolling_window3_def drop0 diff_0_eq_0)
next
  case (Suc j)
  then have "take 3 (drop j xs) ! 1 = xs ! i" "1 < length (take 3 (drop j xs))" using assms by auto
  then show ?thesis using Suc by (metis nth_mem rolling_window3_def diff_Suc_1 nat.distinct(1))
qed

lemma set_rolling_window3: "set (rolling_window3 xs i) \<subseteq> set xs"
  by (simp add: rolling_window3_def) (meson in_set_dropD in_set_takeD subsetI)

lemma length_rolling_mean3 [simp]: "length (rolling_mean3 xs) = length xs"
  by (simp add: rolling_mean3_def)

lemma window_mean_range:
  assumes "window_mean ws = Some v" "\<forall>x. Some x \<in> set ws \<longrightarrow> lo \<le> x \<and> x \<le> hi"
  shows "lo \<le> v \<and> v \<le> hi"
  using assms mean_in_range [of "present ws" lo hi] by (auto simp: window_mean_def Let_def split: if_splits)

lemma rolling_mean3_defined:
  assumes "i < length xs" "xs ! i \<noteq> None"
  shows "rolling_mean3 xs ! i \<noteq> None"
proof -
  have "xs ! i \<in> set (rolling_window3 xs i)" using rolling_window3_nth_mem [OF assms(1)] .
  then have "present (rolling_window3 xs i) \<noteq> []" using assms(2) by (auto simp: present_eq_Nil_iff)
  then show ?thesis using assms(1) by (simp add: rolling_mean3_def window_mean_def)
qed

lemma rolling_mean3_range:
  assumes "\<forall>x. Some x \<in> set xs \<longrightarrow> lo \<le> x \<and> x \<le> hi" "Some v \<in> set (rolling_mean3 xs)"
  shows "lo \<le> v \<and> v \<le> hi"
proof -
  obtain i where "i < length xs" and w: "window_mean (rolling_window3 xs i) = Some v"
    using assms(2) by (auto simp: rolling_mean3_def)
  have "\<forall>x. Some x \<in> set (rolling_window3 xs i) \<longrightarrow> lo \<le> x \<and> x \<le> hi"
    using assms(1) set_rolling_window3 [of xs i] by blast
  then show ?thesis using window_mean_range [OF w] by blast
qed

lemma compute_cli_nth:
  assumes "i < length df"
  shows "compute_cli df ! i = seg_metrics.extend (df ! i)
     (fused_metrics.fields
        (normalize_series (map (Some \<circ> steering_entropy) df) ! i)
        (normalize_series (map (Some \<circ> throttle_jerk) df) ! i)
        (normalize_series (map (Some \<circ> brake_panic) df) ! i)
        (normalize_series (map lat_instability df) ! i)
        (cli_value (normalize_series (map (Some \<circ> steering_entropy) df) ! i)
                   (normalize_series (map (Some \<circ> throttle_jerk) df) ! i)
                   (normalize_series (map (Some \<circ> brake_panic) df) ! i)
                   (normalize_series (map lat_instability df) ! i))
        (rolling_mean3 (map (\<lambda>(s, t, b, l). cli_value s t b l)
           (zip (normalize_series (map (Some \<circ> steering_entropy) df))
             (zip (normalize_series (map (Some \<circ> throttle_jerk) df))
               (zip (normalize_series (map (Some \<circ> brake_panic) df))
                    (normalize_series (map lat_instability df)))))) ! i))"
  using assms by (simp add: compute_cli_def Let_def)

section \<open>Properties of the fusion model\<close>

lemma normalize_series_const_NaN:
  assumes "\<forall>x \<in> set xs. x = None \<or> x = Some c"
  shows "normalize_series xs = map (map_option (\<lambda>_. 0)) xs"
proof (cases "present xs = []")
  case True
  then show ?thesis by (auto simp: normalize_series_def present_eq_Nil_iff intro!: map_cong)
next
  case False
  then have "set (present xs) = {c}" using assms by (auto simp: present_eq_Nil_iff)
  then have "smin (present xs) = c" "smax (present xs) = c" by (simp_all add: smin_def smax_def)
  then show ?thesis using False by (simp add: normalize_series_def Let_def)
qed

lemma cli_value_unit:
  assumes "unit_or_nan s" "unit_or_nan t" "unit_or_nan b" "unit_or_nan l"
  shows "unit_or_nan (cli_value s t b l)"
  using assms cli_value_range by (auto simp: cli_value_def split: option.splits)

lemma cli_column_unit:
  assumes "\<forall>x \<in> set (ns @ nt @ nb @ nl). unit_or_nan x"
  shows "\<forall>x \<in> set (map (\<lambda>(s, t, b, l). cli_value s t b l) (zip ns (zip nt (zip nb nl)))). unit_or_nan x"
proof
  fix x assume "x \<in> set (map (\<lambda>(s, t, b, l). cli_value s t b l) (zip ns (zip nt (zip nb nl))))"
  then obtain s t b l where x: "x = cli_value s t b l" and z: "(s, t, b, l) \<in> set (zip ns (zip nt (zip nb nl)))"
    by auto
  have "s \<in> set ns" using set_zip_leftD [OF z] .
  moreover have "t \<in> set nt" using set_zip_leftD [OF set_zip_rightD [OF z]] .
  moreover have "b \<in> set nb" using set_zip_leftD [OF set_zip_rightD [OF set_zip_rightD [OF z]]] .
  moreover have "l \<in> set nl" using set_zip_rightD [OF set_zip_rightD [OF set_zip_rightD [OF z]]] .
  ultimately show "unit_or_nan x" using assms x cli_value_unit by simp
qed

lemma length_compute_cli [simp]: "length (compute_cli df) = length df"
  by (simp add: compute_cli_def Let_def)

lemma normalize_series_unit: "x \<in> set (normalize_series xs) \<Longrightarrow> unit_or_nan x"
  using normalize_series_in_range by (cases x) auto

lemma rolling_mean3_unit:
  assumes "\<forall>x \<in> set xs. unit_or_nan x" "y \<in> set (rolling_mean3 xs)"
  shows "unit_or_nan y"
proof (cases y)
  case (Some v)
  have "\<forall>x. Some x \<in> set xs \<longrightarrow> 0 \<le> x \<and> x \<le> 1"
  proof (intro allI impI)
    fix x assume "Some x \<in> set xs"
    then have "unit_or_nan (Some x)" using assms(1) by blast
    then show "0 \<le> x \<and> x \<le> 1" by simp
  qed
  then show ?thesis using rolling_mean3_range [of xs 0 1 v] assms(2) Some by simp
qed simp

text \<open>
  C15. Every fused row has \<open>norm_steering\<close>, \<open>norm_throttle\<close>, \<open>norm_brake\<close>,
  \<open>norm_lat\<close>, \<open>CLI\<close> and \<open>CLI_smooth\<close> in \<open>[0, 1]\<close> wherever they are not NaN.
\<close>
theorem compute_cli_range:
  assumes "f \<in> set (compute_cli df)"
  shows "unit_or_nan (norm_steering f) \<and> unit_or_nan (norm_throttle f) \<and> unit_or_nan (norm_brake f)
       \<and> unit_or_nan (norm_lat f) \<and> unit_or_nan (CLI f) \<and> unit_or_nan (CLI_smooth f)"
proof -
  obtain i where i: "i < length df" and f: "f = compute_cli df ! i"
    using assms by (metis in_set_conv_nth length_compute_cli)
  define ns where "ns = normalize_series (map (Some \<circ> steering_entropy) df)"
  define nt where "nt = normalize_series (map (Some \<circ> throttle_jerk) df)"
  define nb where "nb = normalize_series (map (Some \<circ> brake_panic) df)"
  define nl where "nl = normalize_series (map lat_instability df)"
  define cli where "cli = map (\<lambda>(s, t, b, l). cli_value s t b l) (zip ns (zip nt (zip nb nl)))"
  have all: "\<forall>x \<in> set (ns @ nt @ nb @ nl). unit_or_nan x"
    unfolding ns_def nt_def nb_def nl_def using normalize_series_unit by auto
  then have c: "\<forall>x \<in> set cli. unit_or_nan x" unfolding cli_def by (rule cli_column_unit)
  have len: "length cli = length df" by (simp add: cli_def ns_def nt_def nb_def nl_def)
  have fi: "f = seg_metrics.extend (df ! i)
              (fused_metrics.fields (ns ! i) (nt ! i) (nb ! i) (nl ! i) (cli ! i) (rolling_mean3 cli ! i))"
    using compute_cli_nth [OF i] f i unfolding ns_def nt_def nb_def nl_def cli_def by simp
  have "ns ! i \<in> set ns" "nt ! i \<in> set nt" "nb ! i \<in> set nb" "nl ! i \<in> set nl"
    using i by (simp_all add: ns_def nt_def nb_def nl_def)
  moreover have "cli ! i \<in> set cli" "rolling_mean3 cli ! i \<in> set (rolling_mean3 cli)"
    using i len by simp_all
  ultimately show ?thesis using fi all c rolling_mean3_unit [OF c]
    by (simp add: seg_metrics.defs fused_metrics.defs)
qed


lemma compute_cli_nth_fields:
  assumes "i < length df"
  shows "segment_id (compute_cli df ! i) = segment_id (df ! i)
       \<and> lat_instability (compute_cli df ! i) = lat_instability (df ! i)
       \<and> long_jerk (compute_cli df ! i) = long_jerk (df ! i)"
  using compute_cli_nth [OF assms] by (simp add: Let_def seg_metrics.defs fused_metrics.defs)

lemma demo_metrics_length [simp]: "length demo_metrics = 3"
  by (simp add: demo_metrics_def)

theorem compute_cli_range_witness:
  "unit_or_nan (CLI (compute_cli demo_metrics ! 0)) \<and> unit_or_nan (CLI_smooth (compute_cli demo_metrics ! 2))"
proof -
  have "compute_cli demo_metrics ! 0 \<in> set (compute_cli demo_metrics)"
       "compute_cli demo_metrics ! 2 \<in> set (compute_cli demo_metrics)" by simp_all
  then show ?thesis using compute_cli_range by blast
qed

text \<open>
  Min-max normalisation of a constant column gives 0 for every segment, not a
  division by zero.
\<close>
theorem normalize_series_constant:
  assumes "\<forall>x \<in> set xs. x = Some c"
  shows "normalize_series xs = map (\<lambda>_. Some 0) xs"
proof -
  have "\<forall>x \<in> set xs. x = None \<or> x = Some c" using assms by blast
  then have "normalize_series xs = map (map_option (\<lambda>_. 0)) xs" by (rule normalize_series_const_NaN)
  then show ?thesis using assms by (auto intro!: map_cong)
qed

theorem normalize_series_constant_witness:
  "normalize_series [Some 0.5, Some 0.5, Some 0.5] = [Some 0, Some 0, Some 0]"
  using normalize_series_constant [of "[Some 0.5, Some 0.5, Some 0.5]" "0.5"] by simp

text \<open>
  C35. Min-max normalisation of a non-constant column maps its minimum to 0 and its
  maximum to 1.
\<close>
theorem normalize_series_extremes:
  assumes "present xs \<noteq> []" "smin (present xs) \<noteq> smax (present xs)"
  shows "Some 0 \<in> set (normalize_series xs) \<and> Some 1 \<in> set (normalize_series xs)"
proof -
  let ?mn = "smin (present xs)" and ?mx = "smax (present xs)"
  let ?f = "\<lambda>x. (x - ?mn) / (?mx - ?mn)"
  have n: "normalize_series xs = map (map_option ?f) xs"
    using assms by (simp add: normalize_series_def Let_def)
  have m1: "Some ?mn \<in> set xs" and m2: "Some ?mx \<in> set xs"
    using smin_in [OF assms(1)] smax_in [OF assms(1)] by simp_all
  have "map_option ?f (Some ?mn) \<in> set (map (map_option ?f) xs)"
    using imageI [OF m1, of "map_option ?f"] by (simp only: set_map)
  moreover have "map_option ?f (Some ?mx) \<in> set (map (map_option ?f) xs)"
    using imageI [OF m2, of "map_option ?f"] by (simp only: set_map)
  moreover have "?f ?mn = 0" "?f ?mx = 1" using assms(2) by simp_all
  ultimately show ?thesis unfolding n by simp
qed

theorem normalize_series_extremes_witness:
  "normalize_series [Some 1, None, Some 3] = [Some 0, None, Some 1]"
proof -
  have "present [Some (1::real), None, Some 3] \<noteq> []"
       "smin (present [Some (1::real), None, Some 3]) \<noteq> smax (present [Some 1, None, Some 3])"
    by (simp_all add: smin_def smax_def)
  then have "Some 0 \<in> set (normalize_series [Some 1, None, Some 3])"
    using normalize_series_extremes by blast
  then show ?thesis by (simp add: normalize_series_def smin_def smax_def)
qed

text \<open>
  C18. \<open>CLI_smooth\<close> is defined (not NaN) wherever \<open>CLI\<close> is, the lap's first and
  last segments included: \<open>min_periods=1\<close> lets the window shrink.
\<close>
theorem compute_cli_smooth_defined:
  assumes "f \<in> set (compute_cli df)" "CLI f \<noteq> None"
  shows "CLI_smooth f \<noteq> None"
proof -
  obtain i where i: "i < length df" and f: "f = compute_cli df ! i"
    using assms(1) by (metis in_set_conv_nth length_compute_cli)
  define cli where "cli = map (\<lambda>(s, t, b, l). cli_value s t b l)
      (zip (normalize_series (map (Some \<circ> steering_entropy) df))
        (zip (normalize_series (map (Some \<circ> throttle_jerk) df))
          (zip (normalize_series (map (Some \<circ> brake_panic) df)) (normalize_series (map lat_instability df)))))"
  have fi: "CLI f = cli ! i \<and> CLI_smooth f = rolling_mean3 cli ! i"
    using compute_cli_nth [OF i] f i unfolding cli_def by (simp add: seg_metrics.defs fused_metrics.defs)
  have "i < length cli" using i by (simp add: cli_def)
  then show ?thesis using rolling_mean3_defined fi assms(2) by simp
qed

theorem compute_cli_smooth_defined_witness:
  "CLI (compute_cli demo_metrics ! 0) = Some 0 \<and> CLI_smooth (compute_cli demo_metrics ! 0) \<noteq> None"
proof -
  have c: "CLI (compute_cli demo_metrics ! 0) = Some 0"
    by (simp add: compute_cli_def demo_metrics_def normalize_series_def smin_def smax_def cli_value_def
                  w_steering_def w_throttle_def w_brake_def w_lat_def Let_def fused_metrics.defs seg_metrics.defs)
  have mem: "compute_cli demo_metrics ! 0 \<in> set (compute_cli demo_metrics)" by simp
  have "CLI (compute_cli demo_metrics ! 0) \<noteq> None" using c by simp
  then show ?thesis using compute_cli_smooth_defined [OF mem] c by simp
qed

lemma window_mean_two: "window_mean [Some a, Some b] = Some ((a + b) / 2)"
  by (simp add: window_mean_def mean_def)

lemma take3_drop:
  "Suc (Suc j) < length xs \<Longrightarrow> take 3 (drop j xs) = [xs ! j, xs ! Suc j, xs ! Suc (Suc j)]"
  by (simp add: Cons_nth_drop_Suc [symmetric] numeral_3_eq_3)

text \<open>
  C32. At the two ends of the lap the centred window has two segments:
  \<open>CLI_smooth\<close> of the first (last) segment is the mean of the CLI of the first two
  (last two) segments.
\<close>
theorem rolling_mean3_boundaries:
  "rolling_mean3 (Some a # Some b # xs) ! 0 = Some ((a + b) / 2)
   \<and> rolling_mean3 (xs @ [Some a, Some b]) ! Suc (length xs) = Some ((a + b) / 2)"
proof -
  have "rolling_window3 (Some a # Some b # xs) 0 = [Some a, Some b]"
    by (simp add: rolling_window3_def)
  moreover have "rolling_window3 (xs @ [Some a, Some b]) (Suc (length xs)) = [Some a, Some b]"
    by (simp add: rolling_window3_def)
  ultimately show ?thesis by (simp add: rolling_mean3_def window_mean_two nth_append del: upt_Suc)
qed

text \<open>
  Away from the ends, \<open>CLI_smooth\<close> of a segment is the mean of the CLI of the
  segment and its two neighbours (the rows \<open>i - 1, i, i + 1\<close> of the table).
\<close>
theorem rolling_mean3_interior:
  assumes "0 < i" "Suc i < length xs" "xs ! (i - 1) = Some a" "xs ! i = Some b" "xs ! Suc i = Some c"
  shows "rolling_mean3 xs ! i = Some ((a + b + c) / 3)"
proof -
  obtain j where j: "i = Suc j" using assms(1) by (cases i) auto
  have "rolling_window3 xs i = [Some a, Some b, Some c]"
    using assms j take3_drop [of j xs] by (simp add: rolling_window3_def)
  then show ?thesis using assms(2) by (simp add: rolling_mean3_def window_mean_def mean_def)
qed

theorem rolling_mean3_interior_witness:
  "rolling_mean3 [Some 0, Some 0.3, Some 0.6, None] ! 1 = Some 0.3"
proof -
  have "rolling_mean3 [Some 0, Some 0.3, Some 0.6, None] ! 1 = Some ((0 + 0.3 + 0.6) / 3)"
    by (rule rolling_mean3_interior) simp_all
  then show ?thesis by simp
qed

text \<open>
  C21. NaN propagation: when some segment has a defined lateral instability, a
  segment's CLI is NaN exactly when its lateral instability is NaN.
\<close>
theorem compute_cli_nan_iff_lat:
  assumes "\<exists>m \<in> set df. lat_instability m \<noteq> None" "f \<in> set (compute_cli df)"
  shows "CLI f = None \<longleftrightarrow> lat_instability f = None"
proof -
  obtain i where i: "i < length df" and f: "f = compute_cli df ! i"
    using assms(2) by (metis in_set_conv_nth length_compute_cli)
  let ?ns = "normalize_series (map (Some \<circ> steering_entropy) df)"
  let ?nt = "normalize_series (map (Some \<circ> throttle_jerk) df)"
  let ?nb = "normalize_series (map (Some \<circ> brake_panic) df)"
  let ?nl = "normalize_series (map lat_instability df)"
  have ne: "df \<noteq> []" using i by auto
  have c: "CLI f = cli_value (?ns ! i) (?nt ! i) (?nb ! i) (?nl ! i)"
    using compute_cli_nth [OF i] f by (simp add: seg_metrics.defs fused_metrics.defs)
  have "present (map (Some \<circ> g) df) \<noteq> []" for g :: "seg_metrics \<Rightarrow> real"
    using ne by simp
  then have "?ns ! i \<noteq> None" "?nt ! i \<noteq> None" "?nb ! i \<noteq> None"
    using normalize_series_None_iff i by simp_all
  moreover have "present (map lat_instability df) \<noteq> []"
    using assms(1) by (auto simp: present_eq_Nil_iff)
  then have "?nl ! i = None \<longleftrightarrow> lat_instability (df ! i) = None"
    using normalize_series_None_iff i by simp
  ultimately show ?thesis using c compute_cli_nth_fields [OF i] f by (auto simp: cli_value_None_iff)
qed

theorem compute_cli_nan_iff_lat_witness:
  "CLI (compute_cli demo_metrics ! 2) = None"
proof -
  have h: "\<exists>m \<in> set demo_metrics. lat_instability m \<noteq> None" by (simp add: demo_metrics_def)
  have mem: "compute_cli demo_metrics ! 2 \<in> set (compute_cli demo_metrics)" by simp
  have "lat_instability (compute_cli demo_metrics ! 2) = None"
    using compute_cli_nth_fields [of 2 demo_metrics] by (simp add: demo_metrics_def)
  then show ?thesis using compute_cli_nan_iff_lat [OF h mem] by simp
qed

lemma compute_cli_scores:
  "map (\<lambda>f. (CLI f, CLI_smooth f)) (compute_cli df) =
   (let cli = map (\<lambda>(s, t, b, l). cli_value s t b l)
          (zip (normalize_series (map (Some \<circ> steering_entropy) df))
            (zip (normalize_series (map (Some \<circ> throttle_jerk) df))
              (zip (normalize_series (map (Some \<circ> brake_panic) df)) (normalize_series (map lat_instability df)))))
    in zip cli (rolling_mean3 cli))"
  by (rule nth_equalityI) (simp_all add: compute_cli_nth Let_def seg_metrics.defs fused_metrics.defs)

text \<open>
  C34. \<open>long_jerk\<close> does not enter the composite: changing it leaves \<open>CLI\<close> and
  \<open>CLI_smooth\<close> of every segment unchanged.
\<close>
theorem compute_cli_ignores_long_jerk:
  "map (\<lambda>f. (CLI f, CLI_smooth f)) (compute_cli (map (\<lambda>m. m\<lparr>long_jerk := g m\<rparr>) df)) =
   map (\<lambda>f. (CLI f, CLI_smooth f)) (compute_cli df)"
  by (simp only: compute_cli_scores) (simp add: comp_def)

end
