(* ===== verification/Insights.thy ===== *)
theory Insights
  imports Fusion "HOL-Library.List_Lexorder" "HOL-Library.Char_ord" "HOL-Library.Product_Lexorder"
begin

text \<open>
  The insights summary, \<open>compute_insights\<close> in \<open>src/src/insights.py\<close>. Its input is
  the per-sample table the dashboard builds: each row carries its \<open>section_id\<close> and
  the merged segment columns (a \<open>fused_metrics\<close> record). The function

  \<^item> takes one row per section with pandas \<open>groupby('section_id').first()\<close>: the first
    non-NaN value of every column (\<open>section_first\<close>, \<open>segments_of\<close>);
  \<^item> min-max normalises the five metrics for cause attribution, a constant or all-NaN
    column becoming the scalar 0 (\<open>cause_norm\<close>);
  \<^item> labels each section with the metric whose normalised value times its weight is
    largest, scanning the metrics in a fixed order with a strict \<open>>\<close> from \<open>-1\<close>
    (\<open>get_primary_cause\<close>); NaN products never compare greater;
  \<^item> ranks the sections by \<open>CLI_smooth\<close> (\<open>sort_values(...).head(5)\<close>, NaN last),
    averages it and takes its maximum skipping NaN;
  \<^item> takes the 0.8 quantile (linear interpolation) as the high-load threshold and the
    mode of the high-load sections' causes, pandas \<open>mode()[0]\<close> being the smallest
    string among the most frequent ones;
  \<^item> locates the sections of maximum and minimum \<open>CLI_smooth\<close> with \<open>idxmax\<close> and
    \<open>idxmin\<close>, which raise when every value is NaN: the whole call then fails
    (\<open>NoSmoothedLoad\<close>).

  The sorts are modelled by the stable \<open>sort_key\<close>; pandas' default quicksort may order
  sections of equal \<open>CLI_smooth\<close> differently.
\<close>

section \<open>One row per section\<close>

record section_row =
  section_id :: int
  s_CLI :: "real option"
  s_CLI_smooth :: "real option"
  s_steering_entropy :: real
  s_throttle_jerk :: real
  s_brake_panic :: real
  s_lat_instability :: "real option"
  s_long_jerk :: real

definition section_first :: "int \<Rightarrow> fused_metrics list \<Rightarrow> section_row" where
  "section_first sid g =
     \<lparr>section_id = sid,
      s_CLI = first_present (map CLI g),
      s_CLI_smooth = first_present (map CLI_smooth g),
      s_steering_entropy = steering_entropy (hd g),
      s_throttle_jerk = throttle_jerk (hd g),
      s_brake_panic = brake_panic (hd g),
      s_lat_instability = first_present (map lat_instability g),
      s_long_jerk = long_jerk (hd g)\<rparr>"

definition segments_of :: "(int \<times> fused_metrics) list \<Rightarrow> section_row list" where
  "segments_of df =
     map (\<lambda>sid. section_first sid (map snd (filter (\<lambda>(s, _). s = sid) df)))
         (sorted_list_of_set (fst ` set df))"

section \<open>Primary cause\<close>

definition cause_norm :: "real option list \<Rightarrow> real option list" where
  "cause_norm col =
     (let vs = present col in
      if vs \<noteq> [] \<and> smax vs - smin vs > 0
      then map (map_option (\<lambda>x. (x - smin vs) / (smax vs - smin vs))) col
      else map (\<lambda>_. Some 0) col)"

definition cause_metrics :: "string list" where
  "cause_metrics = [''steering_entropy'', ''throttle_jerk'', ''brake_panic'', ''lat_instability'', ''long_jerk'']"

definition cause_weight :: "string \<Rightarrow> real" where
  "cause_weight m =
     (if m = ''steering_entropy'' then 0.4 else if m = ''throttle_jerk'' then 0.3
      else if m = ''brake_panic'' then 0.2 else if m = ''lat_instability'' then 0.1
      else if m = ''long_jerk'' then 0.0 else 0.1)"

definition cause_step :: "real \<times> string \<Rightarrow> string \<times> real option \<Rightarrow> real \<times> string" where
  "cause_step acc mv =
     (case (acc, mv) of ((max_val, cause), (m, nv)) \<Rightarrow>
        (case nv of
           Some v \<Rightarrow> if v * cause_weight m > max_val then (v * cause_weight m, m) else (max_val, cause)
         | None \<Rightarrow> (max_val, cause)))"

definition get_primary_cause :: "real option list \<Rightarrow> string" where
  "get_primary_cause norms = snd (fold (\<lambda>mv acc. cause_step acc mv) (zip cause_metrics norms) (-1, ''Unknown''))"

definition primary_causes :: "section_row list \<Rightarrow> string list" where
  "primary_causes segs =
     (let n1 = cause_norm (map (Some \<circ> s_steering_entropy) segs);
          n2 = cause_norm (map (Some \<circ> s_throttle_jerk) segs);
          n3 = cause_norm (map (Some \<circ> s_brake_panic) segs);
          n4 = cause_norm (map s_lat_instability segs);
          n5 = cause_norm (map (Some \<circ> s_long_jerk) segs)
      in map (\<lambda>i. get_primary_cause [n1 ! i, n2 ! i, n3 ! i, n4 ! i, n5 ! i]) [0..<length segs])"

section \<open>Ranking, statistics, threshold and mode\<close>

text \<open>Sort keys: NaN last, then by value descending (high) or ascending (low).\<close>

definition key_high :: "real option \<Rightarrow> nat \<times> real" where
  "key_high v = (case v of None \<Rightarrow> (1, 0) | Some x \<Rightarrow> (0, - x))"

definition key_low :: "real option \<Rightarrow> nat \<times> real" where
  "key_low v = (case v of None \<Rightarrow> (1, 0) | Some x \<Rightarrow> (0, x))"

definition top_5_high_of :: "(section_row \<times> string) list \<Rightarrow> (section_row \<times> string) list" where
  "top_5_high_of segs = take 5 (sort_key (\<lambda>(r, _). key_high (s_CLI_smooth r)) segs)"

definition top_5_low_of :: "(section_row \<times> string) list \<Rightarrow> (section_row \<times> string) list" where
  "top_5_low_of segs = take 5 (sort_key (\<lambda>(r, _). key_low (s_CLI_smooth r)) segs)"

definition quantile :: "real \<Rightarrow> real list \<Rightarrow> real" where
  "quantile q xs =
     (let vs = sort xs; pos = q * real (length vs - 1); k = nat \<lfloor>pos\<rfloor>; t = pos - real k
      in if Suc k < length vs then vs ! k + (vs ! Suc k - vs ! k) * t else vs ! k)"

definition mode_first :: "string list \<Rightarrow> string" where
  "mode_first xs =
     (let c = Max (count_list xs ` set xs) in Min (set (filter (\<lambda>x. count_list xs x = c) xs)))"

text \<open>\<open>idxmax\<close>/\<open>idxmin\<close>: the first row whose value is the maximum (minimum) of the non-NaN values.\<close>

definition idx_first :: "(real \<Rightarrow> real \<Rightarrow> bool) \<Rightarrow> real option list \<Rightarrow> nat option" where
  "idx_first better vs =
     (let ps = present vs in
      if ps = [] then None
      else find (\<lambda>i. vs ! i = Some (fold (\<lambda>x m. if better x m then x else m) ps (hd ps))) [0..<length vs])"

datatype insight_error = NoSmoothedLoad

record insights =
  top_5_high :: "(section_row \<times> string) list"
  top_5_low :: "(section_row \<times> string) list"
  avg_cli :: real
  max_cli :: real
  common_cause :: string
  max_stress_segment :: "section_row \<times> string"
  min_stress_segment :: "section_row \<times> string"
  df_segments :: "(section_row \<times> string) list"

definition section_rows :: "(int \<times> fused_metrics) list \<Rightarrow> (section_row \<times> string) list" where
  "section_rows df = (let segs = segments_of df in zip segs (primary_causes segs))"

definition high_load :: "(section_row \<times> string) list \<Rightarrow> (section_row \<times> string) list" where
  "high_load rows =
     (let threshold = quantile 0.8 (present (map (s_CLI_smooth \<circ> fst) rows))
      in filter (\<lambda>(r, _). case s_CLI_smooth r of Some v \<Rightarrow> v \<ge> threshold | None \<Rightarrow> False) rows)"

definition common_cause_of :: "(section_row \<times> string) list \<Rightarrow> string" where
  "common_cause_of rows = (let high = high_load rows in if high = [] then ''N/A'' else mode_first (map snd high))"

definition compute_insights :: "(int \<times> fused_metrics) list \<Rightarrow> insight_error + insights" where
  "compute_insights df =
     (let rows = section_rows df;
          sm = map (s_CLI_smooth \<circ> fst) rows;
          vals = present sm
      in case (idx_first (>) sm, idx_first (<) sm) of
           (Some imax, Some imin) \<Rightarrow>
             Inr \<lparr>top_5_high = top_5_high_of rows, top_5_low = top_5_low_of rows,
                  avg_cli = mean vals, max_cli = smax vals, common_cause = common_cause_of rows,
                  max_stress_segment = rows ! imax, min_stress_segment = rows ! imin,
                  df_segments = rows\<rparr>
         | _ \<Rightarrow> Inl NoSmoothedLoad)"

text \<open>A four-row table with three sections, the last one with no smoothed load.\<close>

definition demo_fused :: "int \<Rightarrow> real \<Rightarrow> real \<Rightarrow> real option \<Rightarrow> fused_metrics" where
  "demo_fused sid se tj sm =
     \<lparr>segment_id = sid, steering_entropy = se, throttle_jerk = tj, brake_panic = 0, lat_instability = Some 0,
      long_jerk = 0, avg_dist = 0, norm_steering = Some 0, norm_throttle = Some 0, norm_brake = Some 0,
      norm_lat = Some 0, CLI = sm, CLI_smooth = sm\<rparr>"

definition demo_insight_df :: "(int \<times> fused_metrics) list" where
  "demo_insight_df =
     [(0, demo_fused 0 0.2 0.5 (Some 0.3)), (0, demo_fused 0 0.2 0.5 (Some 0.3)),
      (1, demo_fused 1 0.9 0.1 (Some 0.7)), (2, demo_fused 2 0.4 0.8 None)]"

text \<open>Seven one-row sections, one of them NaN, for the ranking witnesses.\<close>

definition demo_section :: "int \<Rightarrow> real option \<Rightarrow> section_row" where
  "demo_section sid v =
     \<lparr>section_id = sid, s_CLI = v, s_CLI_smooth = v, s_steering_entropy = 0, s_throttle_jerk = 0,
      s_brake_panic = 0, s_lat_instability = None, s_long_jerk = 0\<rparr>"

definition demo_rows :: "(section_row \<times> string) list" where
  "demo_rows = map (\<lambda>(i, v). (demo_section i v, ''steering_entropy''))
     [(0, Some 0.5), (1, Some 0.9), (2, None), (3, Some 0.1), (4, Some 0.7), (5, Some 0.3), (6, Some 0.6)]"

section \<open>Primary cause attribution\<close>

lemma cause_norm_Some_nonneg:
  assumes "\<forall>x \<in> set col. x \<noteq> None" "v \<in> set (cause_norm col)"
  shows "\<exists>a. v = Some a \<and> 0 \<le> a"
proof -
  let ?vs = "present col"
  show ?thesis
  proof (cases "?vs \<noteq> [] \<and> smax ?vs - smin ?vs > 0")
    case True
    then obtain x where x: "x \<in> set col" and v: "v = map_option (\<lambda>x. (x - smin ?vs) / (smax ?vs - smin ?vs)) x"
      using assms(2) by (auto simp: cause_norm_def Let_def)
    obtain y where y: "x = Some y" using assms(1) x by blast
    then have "y \<in> set ?vs" using x by simp
    then have "smin ?vs \<le> y" by (rule smin_le)
    then show ?thesis using v y True by simp
  next
    case False
    then show ?thesis using assms(2) by (auto simp: cause_norm_def Let_def)
  qed
qed

lemma length_cause_norm [simp]: "length (cause_norm col) = length col"
  by (simp add: cause_norm_def Let_def)

lemma cause_step_snd:
  "snd (cause_step acc (m, nv)) \<in> {snd acc, m}"
  by (auto simp: cause_step_def split: option.splits prod.splits)

lemma fold_cause_step_in:
  "snd (fold (\<lambda>mv acc. cause_step acc mv) mvs acc) \<in> insert (snd acc) (fst ` set mvs)"
proof (induction mvs arbitrary: acc)
  case Nil
  then show ?case by simp
next
  case (Cons mv mvs)
  obtain m nv where mv: "mv = (m, nv)" by (cases mv) auto
  have "snd (cause_step acc (m, nv)) \<in> {snd acc, m}" by (rule cause_step_snd)
  then show ?case using Cons.IH [of "cause_step acc mv"] mv by auto
qed

lemma cause_step_ge:
  "fst acc \<le> fst (cause_step acc mv)"
  by (auto simp: cause_step_def split: option.splits prod.splits)

lemma fold_cause_step_ge:
  "fst acc \<le> fst (fold (\<lambda>mv acc. cause_step acc mv) mvs acc)"
proof (induction mvs arbitrary: acc)
  case (Cons mv mvs)
  then show ?case using cause_step_ge [of acc mv] by (metis fold_simps(2) order_trans)
qed simp

text \<open>Once the maximum is non-negative, a zero-weight metric never takes over.\<close>

lemma fold_cause_step_no_zero_weight:
  assumes "0 \<le> fst acc" "snd acc \<noteq> m0" "\<forall>(m, _) \<in> set mvs. m = m0 \<longrightarrow> cause_weight m = 0"
  shows "snd (fold (\<lambda>mv acc. cause_step acc mv) mvs acc) \<noteq> m0"
  using assms
proof (induction mvs arbitrary: acc)
  case (Cons mv mvs)
  obtain m nv where mv: "mv = (m, nv)" by (cases mv) auto
  have ge: "0 \<le> fst (cause_step acc mv)" using Cons.prems(1) cause_step_ge [of acc mv] by linarith
  have "snd (cause_step acc mv) \<noteq> m0"
  proof (cases "m = m0")
    case True
    then have "cause_weight m = 0" using Cons.prems(3) mv by auto
    then show ?thesis using Cons.prems(1,2) mv by (auto simp: cause_step_def split: option.splits prod.splits)
  next
    case False
    then show ?thesis using Cons.prems(2) cause_step_snd [of acc m nv] mv by auto
  qed
  then show ?case using Cons.IH [OF ge] Cons.prems(3) mv by simp
qed simp

lemma get_primary_cause_first_four:
  assumes "n1 = Some a" "0 \<le> a"
  shows "get_primary_cause [n1, n2, n3, n4, n5] \<in> {''steering_entropy'', ''throttle_jerk'', ''brake_panic'', ''lat_instability''}"
proof -
  let ?acc = "cause_step (-1, ''Unknown'') (''steering_entropy'', n1)"
  let ?rest = "[(''throttle_jerk'', n2), (''brake_panic'', n3), (''lat_instability'', n4), (''long_jerk'', n5)]"
  have a: "?acc = (a * 0.4, ''steering_entropy'')"
    using assms by (simp add: cause_step_def cause_weight_def)
  have "snd (fold (\<lambda>mv acc. cause_step acc mv) ?rest ?acc) \<noteq> ''long_jerk''"
    by (rule fold_cause_step_no_zero_weight) (use a assms(2) in \<open>simp_all add: cause_weight_def\<close>)
  moreover have "snd (fold (\<lambda>mv acc. cause_step acc mv) ?rest ?acc) \<in> insert (snd ?acc) (fst ` set ?rest)"
    by (rule fold_cause_step_in)
  ultimately show ?thesis using a by (auto simp: get_primary_cause_def cause_metrics_def)
qed

section \<open>idxmax, idxmin, quantile and mode\<close>

lemma fold_max_eq: "fold (\<lambda>x m. if x > m then x else m) xs (m0::real) = Max (insert m0 (set xs))"
proof -
  have "(\<lambda>x m. if x > m then x else m) = (max :: real \<Rightarrow> real \<Rightarrow> real)"
    by (auto simp: max_def fun_eq_iff)
  then show ?thesis by (simp add: Max.set_eq_fold [symmetric])
qed

lemma fold_min_eq: "fold (\<lambda>x m. if x < m then x else m) xs (m0::real) = Min (insert m0 (set xs))"
proof -
  have "(\<lambda>x m. if x < m then x else m) = (min :: real \<Rightarrow> real \<Rightarrow> real)"
    by (auto simp: min_def fun_eq_iff)
  then show ?thesis by (simp add: Min.set_eq_fold [symmetric])
qed

lemma fold_max_present:
  assumes ne: "present vs \<noteq> []"
  shows "fold (\<lambda>x m. if x > m then x else m) (present vs) (hd (present vs)) = smax (present vs)"
  unfolding fold_max_eq smax_def insert_absorb [OF hd_in_set [OF ne]] ..

lemma fold_min_present:
  assumes ne: "present vs \<noteq> []"
  shows "fold (\<lambda>x m. if x < m then x else m) (present vs) (hd (present vs)) = smin (present vs)"
  unfolding fold_min_eq smin_def insert_absorb [OF hd_in_set [OF ne]] ..

lemma idx_first_max:
  "idx_first (>) vs = Some i \<longleftrightarrow> present vs \<noteq> [] \<and> i < length vs \<and> vs ! i = Some (smax (present vs))
      \<and> (\<forall>j < i. vs ! j \<noteq> Some (smax (present vs)))"
proof -
  note fold_max_present
  then show ?thesis by (auto simp: idx_first_def Let_def find_Some_iff)
qed

lemma idx_first_min:
  "idx_first (<) vs = Some i \<longleftrightarrow> present vs \<noteq> [] \<and> i < length vs \<and> vs ! i = Some (smin (present vs))
      \<and> (\<forall>j < i. vs ! j \<noteq> Some (smin (present vs)))"
proof -
  note fold_min_present
  then show ?thesis by (auto simp: idx_first_def Let_def find_Some_iff)
qed

lemma idx_first_None:
  assumes "better = (>) \<or> better = (<)"
  shows "idx_first better vs = None \<longleftrightarrow> present vs = []"
proof
  assume "present vs = []" then show "idx_first better vs = None" by (simp add: idx_first_def)
next
  assume none: "idx_first better vs = None"
  show "present vs = []"
  proof (rule ccontr)
    assume ne: "present vs \<noteq> []"
    let ?m = "fold (\<lambda>x m. if better x m then x else m) (present vs) (hd (present vs))"
    have "?m \<in> set (present vs)"
      using assms fold_max_present [OF ne] fold_min_present [OF ne] smax_in [OF ne] smin_in [OF ne] by auto
    then obtain i where "i < length vs" "vs ! i = Some ?m" by (auto simp: in_set_conv_nth)
    then have "find (\<lambda>i. vs ! i = Some ?m) [0..<length vs] \<noteq> None" by (auto simp: find_None_iff)
    then show False using none ne by (simp add: idx_first_def Let_def)
  qed
qed

lemma quantile_interp:
  assumes "xs \<noteq> []" "0 \<le> q" "q \<le> 1"
  shows "\<exists>i j t. i \<le> j \<and> j < length xs \<and> 0 \<le> t \<and> t \<le> 1 \<and>
           quantile q xs = sort xs ! i + (sort xs ! j - sort xs ! i) * t"
proof -
  let ?vs = "sort xs" let ?n = "length ?vs"
  define pos where "pos = q * real (?n - 1)"
  define k where "k = nat \<lfloor>pos\<rfloor>"
  define t where "t = pos - real k"
  have n: "0 < ?n" using assms(1) by simp
  have pos: "0 \<le> pos" "pos \<le> real (?n - 1)"
    using assms(2,3) by (simp_all add: pos_def mult_left_le_one_le)
  have k: "real k \<le> pos" "pos < real k + 1" using pos(1) by (simp_all add: k_def)
  have t: "0 \<le> t" "t \<le> 1" using k by (simp_all add: t_def)
  have kn: "k < ?n" using k(1) pos(2) n by linarith
  have qe: "quantile q xs = (if Suc k < ?n then ?vs ! k + (?vs ! Suc k - ?vs ! k) * t else ?vs ! k)"
    unfolding quantile_def Let_def pos_def [symmetric] k_def [symmetric] t_def [symmetric] ..
  show ?thesis
  proof (cases "Suc k < ?n")
    case True
    then show ?thesis using qe t by (intro exI [of _ k] exI [of _ "Suc k"] exI [of _ t]) simp
  next
    case False
    then show ?thesis using qe kn by (intro exI [of _ k] exI [of _ k] exI [of _ 0]) simp
  qed
qed

lemma quantile_le_max:
  assumes "xs \<noteq> []" "0 \<le> q" "q \<le> 1"
  shows "quantile q xs \<le> smax xs"
proof -
  obtain i j t where ij: "i \<le> j" "j < length xs" "0 \<le> t" "t \<le> 1"
    and qe: "quantile q xs = sort xs ! i + (sort xs ! j - sort xs ! i) * t"
    using quantile_interp [OF assms] by blast
  have le: "sort xs ! i \<le> sort xs ! j" using ij by (simp add: sorted_nth_mono)
  have "(sort xs ! j - sort xs ! i) * t \<le> (sort xs ! j - sort xs ! i) * 1"
    using le ij by (intro mult_left_mono) simp_all
  moreover have "sort xs ! j \<le> smax xs" using ij(2) by (metis length_sort nth_mem set_sort smax_ge)
  ultimately show ?thesis using qe by simp
qed

lemma quantile_ge_min:
  assumes "xs \<noteq> []" "0 \<le> q" "q \<le> 1"
  shows "smin xs \<le> quantile q xs"
proof -
  obtain i j t where ij: "i \<le> j" "j < length xs" "0 \<le> t" "t \<le> 1"
    and qe: "quantile q xs = sort xs ! i + (sort xs ! j - sort xs ! i) * t"
    using quantile_interp [OF assms] by blast
  have le: "sort xs ! i \<le> sort xs ! j" using ij by (simp add: sorted_nth_mono)
  have "0 \<le> (sort xs ! j - sort xs ! i) * t" using le ij by simp
  moreover have "smin xs \<le> sort xs ! i" using ij by (metis le_less_trans length_sort nth_mem set_sort smin_le)
  ultimately show ?thesis using qe by simp
qed

lemma mode_first_in_filter:
  assumes "xs \<noteq> []"
  shows "mode_first xs \<in> set (filter (\<lambda>x. count_list xs x = Max (count_list xs ` set xs)) xs)"
proof -
  let ?c = "Max (count_list xs ` set xs)"
  have "?c \<in> count_list xs ` set xs" using assms by simp
  then obtain x where "x \<in> set xs" "count_list xs x = ?c" by auto
  then have "set (filter (\<lambda>x. count_list xs x = ?c) xs) \<noteq> {}" by auto
  then show ?thesis unfolding mode_first_def Let_def by (intro Min_in) simp_all
qed

lemma mode_first_in:
  assumes "xs \<noteq> []"
  shows "mode_first xs \<in> set xs"
  using mode_first_in_filter [OF assms] by simp

section \<open>The summary\<close>

lemma length_primary_causes [simp]: "length (primary_causes segs) = length segs"
  by (simp add: primary_causes_def Let_def)

lemma primary_causes_nth:
  "i < length segs \<Longrightarrow> primary_causes segs ! i =
     get_primary_cause [cause_norm (map (Some \<circ> s_steering_entropy) segs) ! i,
       cause_norm (map (Some \<circ> s_throttle_jerk) segs) ! i, cause_norm (map (Some \<circ> s_brake_panic) segs) ! i,
       cause_norm (map s_lat_instability segs) ! i, cause_norm (map (Some \<circ> s_long_jerk) segs) ! i]"
  by (simp add: primary_causes_def Let_def)

lemma in_primary_causes:
  assumes "c \<in> set (primary_causes segs)"
  shows "c \<in> {''steering_entropy'', ''throttle_jerk'', ''brake_panic'', ''lat_instability''}"
proof -
  obtain i where i: "i < length segs" and c: "c = primary_causes segs ! i"
    using assms by (auto simp: in_set_conv_nth)
  let ?n1 = "cause_norm (map (Some \<circ> s_steering_entropy) segs)"
  have "?n1 ! i \<in> set ?n1" using i by simp
  then obtain a where "?n1 ! i = Some a" "0 \<le> a"
    using cause_norm_Some_nonneg [of "map (Some \<circ> s_steering_entropy) segs" "?n1 ! i"] by auto
  then show ?thesis using c primary_causes_nth [OF i] get_primary_cause_first_four by simp
qed

text \<open>C23. No section is ever attributed to long_jerk, nor left Unknown.\<close>

theorem primary_causes_never_long_jerk:
  "''long_jerk'' \<notin> set (primary_causes segs) \<and> ''Unknown'' \<notin> set (primary_causes segs)"
  using in_primary_causes [of "''long_jerk''" segs] in_primary_causes [of "''Unknown''" segs] by auto

lemma set_segments_of:
  "set (segments_of df) = (\<lambda>sid. section_first sid (map snd (filter (\<lambda>(s, _). s = sid) df))) ` fst ` set df"
  by (simp add: segments_of_def)

lemma s_CLI_smooth_section_first [simp]:
  "s_CLI_smooth (section_first sid g) = first_present (map CLI_smooth g)"
  by (simp add: section_first_def)

lemma segments_of_no_smoothed:
  "present (map s_CLI_smooth (segments_of df)) = [] \<longleftrightarrow> present (map (CLI_smooth \<circ> snd) df) = []"
proof -
  have "present (map s_CLI_smooth (segments_of df)) = [] \<longleftrightarrow>
        (\<forall>sid \<in> fst ` set df. \<forall>p \<in> set df. fst p = sid \<longrightarrow> CLI_smooth (snd p) = None)"
    by (auto simp: present_eq_Nil_iff set_segments_of split_beta) fastforce
  also have "\<dots> \<longleftrightarrow> present (map (CLI_smooth \<circ> snd) df) = []"
    by (fastforce simp: present_eq_Nil_iff)
  finally show ?thesis .
qed

lemma section_rows_smoothed [simp]:
  "map (s_CLI_smooth \<circ> fst) (section_rows df) = map s_CLI_smooth (segments_of df)"
  by (simp add: section_rows_def Let_def map_fst_zip flip: map_map)

lemma length_section_rows [simp]: "length (section_rows df) = length (segments_of df)"
  by (simp add: section_rows_def Let_def)

lemma section_rows_causes: "snd ` set (section_rows df) \<subseteq> set (primary_causes (segments_of df))"
  by (auto simp: section_rows_def Let_def dest: set_zip_rightD)

lemma compute_insights_Inr:
  assumes "compute_insights df = Inr ins"
  obtains imax imin where
    "idx_first (>) (map s_CLI_smooth (segments_of df)) = Some imax"
    "idx_first (<) (map s_CLI_smooth (segments_of df)) = Some imin"
    "ins = \<lparr>top_5_high = top_5_high_of (section_rows df), top_5_low = top_5_low_of (section_rows df),
            avg_cli = mean (present (map s_CLI_smooth (segments_of df))),
            max_cli = smax (present (map s_CLI_smooth (segments_of df))),
            common_cause = common_cause_of (section_rows df),
            max_stress_segment = section_rows df ! imax, min_stress_segment = section_rows df ! imin,
            df_segments = section_rows df\<rparr>"
  using assms by (auto simp: compute_insights_def Let_def split: option.splits)

lemma compute_insights_Inl_iff:
  "compute_insights df = Inl NoSmoothedLoad \<longleftrightarrow> present (map s_CLI_smooth (segments_of df)) = []"
  using idx_first_None [of "(>)" "map s_CLI_smooth (segments_of df)"]
    idx_first_None [of "(<)" "map s_CLI_smooth (segments_of df)"]
  by (auto simp: compute_insights_def Let_def split: option.splits)

text \<open>
  C24. The summary fails (pandas' \<open>idxmax\<close> raises) exactly when no row of the input
  table has a non-NaN \<open>CLI_smooth\<close>; the failure is the only error.
\<close>

theorem compute_insights_error_iff:
  "compute_insights df = Inl NoSmoothedLoad \<longleftrightarrow> present (map (CLI_smooth \<circ> snd) df) = []"
  by (simp add: compute_insights_Inl_iff segments_of_no_smoothed)

lemma section_rows_nth_smoothed:
  "i < length (segments_of df) \<Longrightarrow>
     s_CLI_smooth (fst (section_rows df ! i)) = map s_CLI_smooth (segments_of df) ! i"
  by (metis section_rows_smoothed length_section_rows nth_map comp_apply)

lemma smoothed_in_present:
  "r \<in> set rows \<Longrightarrow> s_CLI_smooth (fst r) = Some v \<Longrightarrow> v \<in> set (present (map (s_CLI_smooth \<circ> fst) rows))"
  by force

lemma max_in_high_load:
  assumes "r \<in> set rows" "s_CLI_smooth (fst r) = Some (smax (present (map (s_CLI_smooth \<circ> fst) rows)))"
  shows "r \<in> set (high_load rows)"
proof -
  let ?vals = "present (map (s_CLI_smooth \<circ> fst) rows)"
  have "?vals \<noteq> []" using smoothed_in_present [OF assms] by (metis empty_iff empty_set)
  then have "quantile 0.8 ?vals \<le> smax ?vals" by (rule quantile_le_max) simp_all
  then show ?thesis using assms by (auto simp: high_load_def Let_def split_beta)
qed

lemma common_cause_of_in:
  "high_load rows \<noteq> [] \<Longrightarrow> common_cause_of rows \<in> snd ` set rows"
  using mode_first_in [of "map snd (high_load rows)"] by (auto simp: common_cause_of_def high_load_def Let_def)

text \<open>
  C25. On success, the most and least stressful sections are rows of the section table;
  the first carries the reported maximum, the second a value no greater than the average,
  and every section's smoothed load lies between the two.
\<close>

theorem compute_insights_stress_segments:
  assumes "compute_insights df = Inr ins"
  shows "max_stress_segment ins \<in> set (df_segments ins) \<and> min_stress_segment ins \<in> set (df_segments ins)
    \<and> s_CLI_smooth (fst (max_stress_segment ins)) = Some (max_cli ins)
    \<and> (\<exists>lo. s_CLI_smooth (fst (min_stress_segment ins)) = Some lo \<and> lo \<le> avg_cli ins \<and> avg_cli ins \<le> max_cli ins
         \<and> (\<forall>r \<in> set (df_segments ins). pred_option (\<lambda>v. lo \<le> v \<and> v \<le> max_cli ins) (s_CLI_smooth (fst r))))"
proof -
  let ?sm = "map s_CLI_smooth (segments_of df)" let ?vals = "present ?sm" let ?rows = "section_rows df"
  obtain imax imin where mx: "idx_first (>) ?sm = Some imax" and mn: "idx_first (<) ?sm = Some imin"
    and ins: "ins = \<lparr>top_5_high = top_5_high_of ?rows, top_5_low = top_5_low_of ?rows,
            avg_cli = mean ?vals, max_cli = smax ?vals, common_cause = common_cause_of ?rows,
            max_stress_segment = ?rows ! imax, min_stress_segment = ?rows ! imin, df_segments = ?rows\<rparr>"
    using compute_insights_Inr [OF assms] by blast
  have ne: "?vals \<noteq> []" and imax: "imax < length ?sm" and vmax: "?sm ! imax = Some (smax ?vals)"
    using mx by (simp_all add: idx_first_max)
  have imin: "imin < length ?sm" and vmin: "?sm ! imin = Some (smin ?vals)"
    using mn by (simp_all add: idx_first_min)
  have avg: "smin ?vals \<le> mean ?vals \<and> mean ?vals \<le> smax ?vals" by (rule mean_bounds [OF ne])
  have rng: "pred_option (\<lambda>v. smin ?vals \<le> v \<and> v \<le> smax ?vals) (s_CLI_smooth (fst r))" if "r \<in> set ?rows" for r
  proof (cases "s_CLI_smooth (fst r)")
    case (Some v)
    then have "v \<in> set ?vals" using smoothed_in_present [OF that Some] by simp
    then show ?thesis using Some smin_le smax_ge by simp
  qed simp
  have m1: "max_stress_segment ins \<in> set (df_segments ins)" "min_stress_segment ins \<in> set (df_segments ins)"
    using ins imax imin by simp_all
  have m2: "s_CLI_smooth (fst (max_stress_segment ins)) = Some (max_cli ins)"
    using ins vmax section_rows_nth_smoothed [of imax df] imax by simp
  have m3: "s_CLI_smooth (fst (min_stress_segment ins)) = Some (smin ?vals)"
    using ins vmin section_rows_nth_smoothed [of imin df] imin by simp
  have m4: "smin ?vals \<le> avg_cli ins \<and> avg_cli ins \<le> max_cli ins" using avg ins by simp
  have m5: "\<forall>r \<in> set (df_segments ins). pred_option (\<lambda>v. smin ?vals \<le> v \<and> v \<le> max_cli ins) (s_CLI_smooth (fst r))"
    using rng ins by simp
  show ?thesis using m1 m2 m3 m4 m5 by blast
qed

text \<open>
  C26. On success the high-load set is never empty, so the dominant stressor is always one
  of the four weighted metrics: the \<open>"N/A"\<close> branch of the code is unreachable.
\<close>

theorem compute_insights_common_cause:
  assumes "compute_insights df = Inr ins"
  shows "common_cause ins \<in> {''steering_entropy'', ''throttle_jerk'', ''brake_panic'', ''lat_instability''}"
proof -
  let ?sm = "map s_CLI_smooth (segments_of df)" let ?vals = "present ?sm" let ?rows = "section_rows df"
  obtain imax imin where mx: "idx_first (>) ?sm = Some imax" and mn: "idx_first (<) ?sm = Some imin"
    and ins: "ins = \<lparr>top_5_high = top_5_high_of ?rows, top_5_low = top_5_low_of ?rows,
            avg_cli = mean ?vals, max_cli = smax ?vals, common_cause = common_cause_of ?rows,
            max_stress_segment = ?rows ! imax, min_stress_segment = ?rows ! imin, df_segments = ?rows\<rparr>"
    using compute_insights_Inr [OF assms] by blast
  have imax: "imax < length ?sm" and vmax: "?sm ! imax = Some (smax ?vals)"
    using mx by (simp_all add: idx_first_max)
  have "?rows ! imax \<in> set ?rows" using imax by simp
  moreover have "s_CLI_smooth (fst (?rows ! imax)) = Some (smax (present (map (s_CLI_smooth \<circ> fst) ?rows)))"
    using section_rows_nth_smoothed [of imax df] imax vmax by simp
  ultimately have "?rows ! imax \<in> set (high_load ?rows)" by (rule max_in_high_load)
  then have "high_load ?rows \<noteq> []" by auto
  then have "common_cause_of ?rows \<in> snd ` set ?rows" by (rule common_cause_of_in)
  then have "common_cause ins \<in> set (primary_causes (segments_of df))"
    using ins section_rows_causes by auto
  then show ?thesis by (rule in_primary_causes)
qed

section \<open>Ranking, mode and threshold\<close>

lemma demo_insight_segments:
  "map s_CLI_smooth (segments_of demo_insight_df) = [Some 0.3, Some 0.7, None]"
  by (simp add: segments_of_def demo_insight_df_def demo_fused_def section_first_def first_present_def)

lemma demo_insight_ok: "\<exists>ins. compute_insights demo_insight_df = Inr ins"
proof -
  have "compute_insights demo_insight_df \<noteq> Inl NoSmoothedLoad"
    by (simp add: compute_insights_Inl_iff demo_insight_segments)
  then show ?thesis by (cases "compute_insights demo_insight_df") (metis insight_error.exhaust, blast)
qed

lemma sort_key_take_ranking:
  assumes "t \<in> set (take k (sort_key f xs))" "r \<in> set xs" "r \<notin> set (take k (sort_key f xs))"
  shows "f t \<le> f r"
proof -
  let ?ys = "sort_key f xs"
  have "sorted (map f (take k ?ys) @ map f (drop k ?ys))"
    by (metis append_take_drop_id map_append sorted_sort_key)
  then have ord: "\<forall>x \<in> set (take k ?ys). \<forall>y \<in> set (drop k ?ys). f x \<le> f y" by (simp add: sorted_append)
  have "r \<in> set (take k ?ys) \<union> set (drop k ?ys)" using assms(2) by (metis append_take_drop_id set_append set_sort)
  then have "r \<in> set (drop k ?ys)" using assms(3) by blast
  then show ?thesis using ord assms(1) by blast
qed

lemma key_high_le_Some: "key_high a \<le> key_high (Some v) \<Longrightarrow> \<exists>w. a = Some w \<and> v \<le> w"
  by (cases a) (auto simp: key_high_def)

lemma key_low_le_Some: "key_low a \<le> key_low (Some v) \<Longrightarrow> \<exists>w. a = Some w \<and> w \<le> v"
  by (cases a) (auto simp: key_low_def)

text \<open>
  C27. A section left out of the top five by load has a non-NaN smoothed load no larger
  than that of every section in the top five; NaN sections are ranked last.
\<close>

theorem top_5_high_of_ranking:
  assumes "t \<in> set (top_5_high_of rows)" "r \<in> set rows" "r \<notin> set (top_5_high_of rows)"
    "s_CLI_smooth (fst r) = Some v"
  shows "\<exists>w. s_CLI_smooth (fst t) = Some w \<and> v \<le> w"
proof -
  have "(\<lambda>(r, _). key_high (s_CLI_smooth r)) t \<le> (\<lambda>(r, _). key_high (s_CLI_smooth r)) r"
    using assms(1-3) unfolding top_5_high_of_def by (rule sort_key_take_ranking)
  then show ?thesis using assms(4) key_high_le_Some by (simp add: split_beta)
qed

text \<open>
  C29. A section left out of the bottom five has a non-NaN smoothed load no smaller than
  that of every section in the bottom five.
\<close>

theorem top_5_low_of_ranking:
  assumes "t \<in> set (top_5_low_of rows)" "r \<in> set rows" "r \<notin> set (top_5_low_of rows)"
    "s_CLI_smooth (fst r) = Some v"
  shows "\<exists>w. s_CLI_smooth (fst t) = Some w \<and> w \<le> v"
proof -
  have "(\<lambda>(r, _). key_low (s_CLI_smooth r)) t \<le> (\<lambda>(r, _). key_low (s_CLI_smooth r)) r"
    using assms(1-3) unfolding top_5_low_of_def by (rule sort_key_take_ranking)
  then show ?thesis using assms(4) key_low_le_Some by (simp add: split_beta)
qed

text \<open>
  The linear-interpolation quantile (pandas \<open>quantile\<close>, used at 0.8 for the
  high-load threshold) of a non-empty list lies between its minimum and maximum.
\<close>

theorem quantile_bounds:
  assumes "xs \<noteq> []" "0 \<le> q" "q \<le> 1"
  shows "smin xs \<le> quantile q xs \<and> quantile q xs \<le> smax xs"
  using quantile_ge_min [OF assms] quantile_le_max [OF assms] by simp

subsection \<open>Witnesses\<close>

theorem compute_insights_stress_segments_witness:
  "\<exists>ins. compute_insights demo_insight_df = Inr ins \<and>
    max_stress_segment ins \<in> set (df_segments ins) \<and> min_stress_segment ins \<in> set (df_segments ins)
    \<and> s_CLI_smooth (fst (max_stress_segment ins)) = Some (max_cli ins)
    \<and> (\<exists>lo. s_CLI_smooth (fst (min_stress_segment ins)) = Some lo \<and> lo \<le> avg_cli ins \<and> avg_cli ins \<le> max_cli ins
         \<and> (\<forall>r \<in> set (df_segments ins). pred_option (\<lambda>v. lo \<le> v \<and> v \<le> max_cli ins) (s_CLI_smooth (fst r))))"
proof -
  obtain ins where "compute_insights demo_insight_df = Inr ins" using demo_insight_ok by blast
  then show ?thesis using compute_insights_stress_segments by blast
qed

theorem compute_insights_common_cause_witness:
  "\<exists>ins. compute_insights demo_insight_df = Inr ins \<and>
     common_cause ins \<in> {''steering_entropy'', ''throttle_jerk'', ''brake_panic'', ''lat_instability''}"
proof -
  obtain ins where "compute_insights demo_insight_df = Inr ins" using demo_insight_ok by blast
  then show ?thesis using compute_insights_common_cause by blast
qed

lemma s_CLI_smooth_demo_section [simp]: "s_CLI_smooth (demo_section i v) = v"
  by (simp add: demo_section_def)

lemma demo_top_5_high: "top_5_high_of demo_rows = map (\<lambda>(i, v). (demo_section i v, ''steering_entropy''))
     [(1, Some 0.9), (4, Some 0.7), (6, Some 0.6), (0, Some 0.5), (5, Some 0.3)]"
  by (simp add: top_5_high_of_def demo_rows_def key_high_def)

lemma demo_top_5_low: "top_5_low_of demo_rows = map (\<lambda>(i, v). (demo_section i v, ''steering_entropy''))
     [(3, Some 0.1), (5, Some 0.3), (0, Some 0.5), (6, Some 0.6), (4, Some 0.7)]"
  by (simp add: top_5_low_of_def demo_rows_def key_low_def)

theorem top_5_high_of_ranking_witness:
  "(demo_section 5 (Some 0.3), ''steering_entropy'') \<in> set (top_5_high_of demo_rows)
   \<and> (demo_section 3 (Some 0.1), ''steering_entropy'') \<in> set demo_rows
   \<and> (demo_section 3 (Some 0.1), ''steering_entropy'') \<notin> set (top_5_high_of demo_rows)
   \<and> s_CLI_smooth (demo_section 3 (Some 0.1)) = Some 0.1
   \<and> (\<exists>w. s_CLI_smooth (demo_section 5 (Some 0.3)) = Some w \<and> 0.1 \<le> w)"
proof -
  have t: "(demo_section 5 (Some 0.3), ''steering_entropy'') \<in> set (top_5_high_of demo_rows)"
    by (simp add: demo_top_5_high)
  have r: "(demo_section 3 (Some 0.1), ''steering_entropy'') \<in> set demo_rows"
    by (simp add: demo_rows_def)
  have n: "(demo_section 3 (Some 0.1), ''steering_entropy'') \<notin> set (top_5_high_of demo_rows)"
    by (simp add: demo_top_5_high demo_section_def)
  have v: "s_CLI_smooth (fst (demo_section 3 (Some 0.1), ''steering_entropy'')) = Some 0.1"
    by (simp add: demo_section_def)
  show ?thesis using top_5_high_of_ranking [OF t r n v] t r n v by simp
qed

theorem top_5_low_of_ranking_witness:
  "(demo_section 4 (Some 0.7), ''steering_entropy'') \<in> set (top_5_low_of demo_rows)
   \<and> (demo_section 1 (Some 0.9), ''steering_entropy'') \<in> set demo_rows
   \<and> (demo_section 1 (Some 0.9), ''steering_entropy'') \<notin> set (top_5_low_of demo_rows)
   \<and> s_CLI_smooth (demo_section 1 (Some 0.9)) = Some 0.9
   \<and> (\<exists>w. s_CLI_smooth (demo_section 4 (Some 0.7)) = Some w \<and> w \<le> 0.9)"
proof -
  have t: "(demo_section 4 (Some 0.7), ''steering_entropy'') \<in> set (top_5_low_of demo_rows)"
    by (simp add: demo_top_5_low)
  have r: "(demo_section 1 (Some 0.9), ''steering_entropy'') \<in> set demo_rows"
    by (simp add: demo_rows_def)
  have n: "(demo_section 1 (Some 0.9), ''steering_entropy'') \<notin> set (top_5_low_of demo_rows)"
    by (simp add: demo_top_5_low demo_section_def)
  have v: "s_CLI_smooth (fst (demo_section 1 (Some 0.9), ''steering_entropy'')) = Some 0.9"
    by (simp add: demo_section_def)
  show ?thesis using top_5_low_of_ranking [OF t r n v] t r n v by simp
qed

theorem quantile_bounds_witness:
  "quantile 0.8 [3, 1, 5, 2, 4] = (4.2::real) \<and> smin [3, 1, 5, 2, 4] \<le> quantile 0.8 [3, 1, 5, 2, (4::real)]"
proof -
  have q: "quantile 0.8 [3, 1, 5, 2, 4] = (4.2::real)"
  proof -
    have "nat \<lfloor>(0.8::real) * 4\<rfloor> = 3" by simp
    then show ?thesis by (simp add: quantile_def)
  qed
  have "[3, 1, 5, 2, 4::real] \<noteq> []" "(0::real) \<le> 0.8" "(0.8::real) \<le> 1" by simp_all
  then show ?thesis using quantile_bounds q by blast
qed

end
