(* ===== verification/Discovery.thy ===== *)
theory Discovery
  imports Loader
begin

text \<open>
  Discovery of what a telemetry file holds, \<open>get_available_vehicles\<close> and
  \<open>get_available_laps\<close> in \<open>src/src/load_data.py\<close>: both read the file in chunks of
  100000 rows, collect the non-NaN values of a column (for the laps, of the rows of one
  vehicle) into a Python set and return it sorted. The set accumulated over the chunks is
  the fold of \<open>\<union>\<close> over \<open>chunks\<close>; the file checks and the \<open>except\<close> branches are I/O and
  not modelled.
\<close>

definition get_available_vehicles :: "raw_row list \<Rightarrow> string list" where
  "get_available_vehicles rows =
     sorted_list_of_set (fold (\<lambda>c acc. acc \<union> set (present (map raw_vehicle_id c))) (chunks chunk_size rows) {})"

definition get_available_laps :: "raw_row list \<Rightarrow> string \<Rightarrow> int list" where
  "get_available_laps rows v =
     sorted_list_of_set
       (fold (\<lambda>c acc. acc \<union> set (present (map raw_lap (filter (\<lambda>r. raw_vehicle_id r = Some v) c))))
          (chunks chunk_size rows) {})"

section \<open>The set accumulated over the chunks\<close>

lemma fold_union_chunks:
  "fold (\<lambda>c acc. acc \<union> set (present (map g c))) cs A = A \<union> set (present (map g (concat cs)))"
  by (induction cs arbitrary: A) (auto simp del: set_present)

lemma get_available_vehicles_set:
  "set (get_available_vehicles rows) = set (present (map raw_vehicle_id rows))
   \<and> sorted (get_available_vehicles rows) \<and> distinct (get_available_vehicles rows)"
proof -
  have "fold (\<lambda>c acc. acc \<union> set (present (map raw_vehicle_id c))) (chunks chunk_size rows) {}
        = set (present (map raw_vehicle_id rows))"
    by (simp only: fold_union_chunks concat_chunks) simp
  then show ?thesis by (simp add: get_available_vehicles_def del: set_present)
qed

lemma get_available_laps_set:
  "set (get_available_laps rows v) = set (present (map raw_lap (filter (\<lambda>r. raw_vehicle_id r = Some v) rows)))
   \<and> sorted (get_available_laps rows v) \<and> distinct (get_available_laps rows v)"
proof -
  have "fold (\<lambda>c acc. acc \<union> set (present (map raw_lap (filter (\<lambda>r. raw_vehicle_id r = Some v) c))))
          (chunks chunk_size rows) {}
        = set (present (map raw_lap (filter (\<lambda>r. raw_vehicle_id r = Some v) rows)))"
    using fold_union_chunks [of "raw_lap" "map (filter (\<lambda>r. raw_vehicle_id r = Some v)) (chunks chunk_size rows)" "{}"]
    by (simp add: fold_map comp_def chunked_filter del: set_present)
  then show ?thesis by (simp add: get_available_laps_def del: set_present)
qed


section \<open>What discovery offers can be loaded\<close>

text \<open>
  C38. Every lap that \<open>get_available_laps\<close> offers for a vehicle passes the loader's
  check for data: \<open>load_lap\<close> does not fail with \<open>NoDataFound\<close> for it.
\<close>

theorem get_available_laps_loadable:
  assumes "l \<in> set (get_available_laps rows v)"
  shows "load_lap v l rows \<noteq> Inl NoDataFound"
proof -
  have "l \<in> set (present (map raw_lap (filter (\<lambda>r. raw_vehicle_id r = Some v) rows)))"
    using assms get_available_laps_set [of rows v] by (simp del: set_present)
  then obtain r where "r \<in> set rows" "raw_vehicle_id r = Some v" "raw_lap r = Some l" by auto
  then have "filter (lap_filter v l) rows \<noteq> []" by (auto simp: lap_filter_def filter_empty_conv)
  then show ?thesis by (simp add: load_lap_eq split: option.splits)
qed

theorem get_available_laps_loadable_witness:
  "(4::int) \<in> set (get_available_laps demo_raw ''GR86-002'') \<and> load_lap ''GR86-002'' 4 demo_raw \<noteq> Inl NoDataFound"
proof -
  have l: "(4::int) \<in> set (get_available_laps demo_raw ''GR86-002'')"
    by (simp add: get_available_laps_set demo_raw_def)
  then show ?thesis using get_available_laps_loadable [OF l] by simp
qed


section \<open>Chunked discovery equals discovery over the whole file\<close>

text \<open>
  C10. The laps discovery offers for a vehicle, accumulated chunk by chunk into a set, are
  exactly the sorted distinct non-NaN lap numbers of that vehicle's rows in the whole
  file: the chunking changes nothing.
\<close>

theorem get_available_laps_whole_file:
  "get_available_laps rows v =
     sorted_list_of_set (set (present (map raw_lap (filter (\<lambda>r. raw_vehicle_id r = Some v) rows))))"
proof -
  have s: "set (get_available_laps rows v) = set (present (map raw_lap (filter (\<lambda>r. raw_vehicle_id r = Some v) rows)))"
    and sd: "sorted (get_available_laps rows v)" "distinct (get_available_laps rows v)"
    using get_available_laps_set [of rows v] by (simp_all del: set_present)
  have "get_available_laps rows v = sorted_list_of_set (set (get_available_laps rows v))"
    using sd by (simp add: sorted_list_of_set.idem_if_sorted_distinct)
  also have "\<dots> = sorted_list_of_set (set (present (map raw_lap (filter (\<lambda>r. raw_vehicle_id r = Some v) rows))))"
    by (simp only: s)
  finally show ?thesis .
qed

end
