(* ===== verification/Pipeline.thy ===== *)
theory Pipeline
  imports Insights Discovery
begin

text \<open>
  The analysis the dashboard runs, \<open>src/app.py\<close> lines 84-113: load and reconstruct the
  lap (\<open>process_lap_data\<close> of \<open>src/src/processor.py\<close>), segment it, compute the segment
  metrics and the CLI, merge the metrics back onto the samples by \<open>segment_id\<close> with
  \<open>section_id = segment_id\<close>, and summarise the merged table with \<open>compute_insights\<close>.
  A failure of any stage is a \<open>pipeline_error\<close>, including the \<open>KeyError\<close> of
  \<open>compute_cli\<close> on the column-less metrics frame of an empty lap (\<open>FusionFailed\<close>);
  the branch for an empty merged table (\<open>Inr None\<close>, line 109) is kept as written. The app calls \<open>load_data.load_session\<close> at line 85, a function the
  repository does not define; the model calls \<open>process_lap_data\<close>, the loader the spec
  names, in its place.
\<close>

definition process_lap_data :: "string \<Rightarrow> int \<Rightarrow> raw_row list \<Rightarrow> load_error + track_row list" where
  "process_lap_data v l rows = (case load_lap v l rows of Inl e \<Rightarrow> Inl e | Inr s \<Rightarrow> Inr (dead_reckoning s))"

datatype pipeline_error =
    LoadFailed load_error
  | SegmentFailed seg_error
  | FusionFailed fusion_error
  | InsightsFailed insight_error

definition merge_metrics :: "(track_row \<times> int) list \<Rightarrow> fused_metrics list \<Rightarrow> (int \<times> fused_metrics) list" where
  "merge_metrics seg fused = map (\<lambda>(r, sid). (sid, the (find (\<lambda>m. segment_id m = sid) fused))) seg"

definition app_analysis :: "string \<Rightarrow> int \<Rightarrow> int \<Rightarrow> raw_row list \<Rightarrow> pipeline_error + insights option" where
  "app_analysis v l n rows =
     (case process_lap_data v l rows of
        Inl e \<Rightarrow> Inl (LoadFailed e)
      | Inr df \<Rightarrow>
          (case segment_lap Laptrigger_lapdist_dls df n of
             Inl e \<Rightarrow> Inl (SegmentFailed e)
           | Inr seg \<Rightarrow>
               (case compute_cli_table (compute_segment_metrics seg) of
                  Inl e \<Rightarrow> Inl (FusionFailed e)
                | Inr metrics \<Rightarrow>
                    (let final = merge_metrics seg metrics
                     in if final = [] then Inr None
                        else (case compute_insights final of
                                Inl e \<Rightarrow> Inl (InsightsFailed e)
                              | Inr ins \<Rightarrow> Inr (Some ins))))))"

section \<open>A lap that never moves\<close>

lemma speed_ms_zero: "\<forall>s \<in> set v. s = 0 \<Longrightarrow> \<forall>s \<in> set (speed_ms v). s = 0"
  by (auto simp: speed_ms_def)

lemma dr_steps_standstill:
  assumes "\<forall>x \<in> set rows. speed x = 0" "stp \<in> set (dr_steps rows)"
  shows "snd (snd stp) = 0"
proof -
  obtain d w s where stp: "stp = (d, w, s)" by (cases stp) auto
  then have "(w, s) \<in> set (zip (map2 (\<lambda>s r. yaw_rate s (wheel_angle (Steering_Angle r))) (speed_ms (map speed rows)) rows)
                                 (speed_ms (map speed rows)))"
    using assms(2) by (auto simp: dr_steps_def Let_def dest: set_zip_rightD)
  then have "snd (snd stp) \<in> set (speed_ms (map speed rows))" using stp by (auto dest: set_zip_rightD)
  then show ?thesis using speed_ms_zero [of "map speed rows"] assms(1) by auto
qed

lemma sum_list_zeros: "\<forall>x \<in> set xs. x = 0 \<Longrightarrow> sum_list xs = (0::real)"
  by (induction xs) auto

lemma dead_reckoning_standstill:
  assumes "\<forall>x \<in> set rows. speed x = 0" "r \<in> set (dead_reckoning rows)"
  shows "Laptrigger_lapdist_dls r = 0"
proof -
  obtain i where i: "i < length rows" and r: "r = dead_reckoning rows ! i"
    using assms(2) by (auto simp: in_set_conv_nth)
  let ?ds = "map (\<lambda>(d, w, s). s * d) (dr_steps rows)"
  have len: "length (dr_steps rows) = length rows" by (simp add: dr_steps_def Let_def)
  have zero: "\<forall>x \<in> set (take (Suc i) ?ds). x = 0"
    using dr_steps_standstill [OF assms(1)] by (auto dest!: in_set_takeD)
  have "Laptrigger_lapdist_dls r = map odo (integrate integ0 (dr_steps rows)) ! i"
    using i r len by (simp add: dead_reckoning_nth)
  also have "\<dots> = sum_list (take (Suc i) ?ds)"
    using i len by (simp add: integrate_odo cumsum_from_nth integ0_def)
  also have "\<dots> = 0" using zero by (rule sum_list_zeros)
  finally show ?thesis .
qed


section \<open>Stages of the composition\<close>

lemma load_lap_nonempty:
  assumes "load_lap v l rows = Inr s" "valued (filter (lap_filter v l) rows) \<noteq> []"
  shows "s \<noteq> []"
proof -
  obtain raw where raw: "raw = filter (lap_filter v l) rows" "raw \<noteq> []"
    "s = normalize_signals (pivot_index raw, loaded_cols raw)"
    by (rule load_lap_Inr [OF assms(1)])
  have "set (pivot_index raw) \<noteq> {}" using assms(2) raw(1) by (simp add: set_pivot_index)
  then have "pivot_index raw \<noteq> []" by auto
  moreover have "length s = length (pivot_index raw)" using raw(3) by simp
  ultimately show ?thesis by auto
qed

lemma segment_lap_all_zero:
  assumes "rows \<noteq> []" "\<forall>r \<in> set rows. lapdist r = 0"
  shows "segment_lap lapdist rows n = Inl NonFiniteSegmentId"
proof -
  let ?df = "sort_key lapdist rows"
  have ne: "?df \<noteq> []" using assms(1) by simp
  have "smax (map lapdist ?df) \<in> set (map lapdist ?df)" using ne by (intro smax_in) simp
  then have "smax (map lapdist ?df) = 0" using assms(2) by auto
  then show ?thesis using ne by (simp add: segment_lap_def Let_def)
qed

section \<open>The merge of metrics onto samples\<close>

lemma segment_ids_compute_cli: "map segment_id (compute_cli df) = map segment_id df"
  by (rule nth_equalityI) (simp_all add: compute_cli_nth_fields)

lemma compute_segment_metrics_id_set: "segment_id ` set (compute_segment_metrics rows) = snd ` set rows"
proof -
  have "set (map segment_id (compute_segment_metrics rows)) = snd ` set rows"
    by (simp add: compute_segment_metrics_groups group_by_segment_def comp_def)
  then show ?thesis by simp
qed

lemma compute_cli_table_segmented:
  assumes "segment_lap f df n = Inr seg" "df \<noteq> []"
  shows "compute_cli_table (compute_segment_metrics seg) = Inr (compute_cli (compute_segment_metrics seg))"
proof -
  have "length seg = length df"
    using segment_lap_rows [OF assms(1)] by (metis length_map length_sort)
  then have "seg \<noteq> []" using assms(2) by auto
  then have "segment_id ` set (compute_segment_metrics seg) \<noteq> {}"
    unfolding compute_segment_metrics_id_set by simp
  then show ?thesis by (auto simp: compute_cli_table_def)
qed

lemma find_segment_id:
  assumes "sid \<in> segment_id ` set fused"
  shows "the (find (\<lambda>m. segment_id m = sid) fused) \<in> set fused
       \<and> segment_id (the (find (\<lambda>m. segment_id m = sid) fused)) = sid"
proof -
  from assms have "find (\<lambda>m. segment_id m = sid) fused \<noteq> None" by (auto simp: find_None_iff)
  then obtain m where m: "find (\<lambda>m. segment_id m = sid) fused = Some m" by blast
  then have "m \<in> set fused \<and> segment_id m = sid" by (auto simp: find_Some_iff)
  with m show ?thesis by simp
qed

text \<open>
  C30. The left merge of the metrics onto the samples keeps every sample row, in order,
  and gives each the fused metrics row of its own segment: no sample is left without
  metrics (the \<open>the\<close> of the model never meets \<open>None\<close>).
\<close>

theorem merge_metrics_well_typed:
  "map fst (merge_metrics seg (compute_cli (compute_segment_metrics seg))) = map snd seg
   \<and> list_all (\<lambda>(sid, m). m \<in> set (compute_cli (compute_segment_metrics seg)) \<and> segment_id m = sid)
       (merge_metrics seg (compute_cli (compute_segment_metrics seg)))"
proof -
  have ids: "segment_id ` set (compute_cli (compute_segment_metrics seg)) = snd ` set seg"
    using segment_ids_compute_cli [of "compute_segment_metrics seg"] compute_segment_metrics_id_set [of seg]
    by (metis list.set_map)
  have "the (find (\<lambda>m. segment_id m = sid) (compute_cli (compute_segment_metrics seg)))
          \<in> set (compute_cli (compute_segment_metrics seg))
        \<and> segment_id (the (find (\<lambda>m. segment_id m = sid) (compute_cli (compute_segment_metrics seg)))) = sid"
    if "(r, sid) \<in> set seg" for r sid
    using that ids by (intro find_segment_id) force
  then show ?thesis
    by (auto simp: merge_metrics_def list_all_iff comp_def case_prod_beta)
qed

end
