(* ===== verification/TrackMap.thy ===== *)
theory TrackMap
  imports Loader
begin

text \<open>
  The data preparation of the track map, \<open>plot_track_map\<close> in \<open>src/src/track_map.py\<close>.
  Before drawing, the function smooths the dead-reckoning coordinates with a centred
  20-sample rolling mean (\<open>rolling(20, center=True).mean().bfill().ffill()\<close>, only for
  laps longer than 20 samples), moves the minimum to 0, rotates by 30 degrees, divides
  each axis by its maximum when that is not 0 and stretches Y by 1.3. It then builds the
  line segments between consecutive points (coloured by the first point's
  \<open>CLI_smooth\<close>), the section labels at every \<open>len(df) // 10\<close>-th row, and the three
  highest-load markers (\<open>nlargest(3)\<close>). Its title is \<open>map_title\<close>, with Python's
  decimal printing of the lap number (\<open>show_int\<close>, proved injective by reading the digits
  back). The figure itself (matplotlib calls) is not modelled; \<open>plot_data\<close> holds what
  is drawn.

  Two Python errors are part of the model: \<open>x.min()\<close> of an empty array raises
  (\<open>EmptyCoordinates\<close>), and \<open>range(0, len(df), len(df) // 10)\<close> raises for a step of
  0, that is for any table of fewer than 10 rows (\<open>ZeroStepRange\<close>).
\<close>

record map_row =
  mx :: real
  my :: real
  m_cli :: "real option"
  m_section :: int

datatype plot_error = EmptyCoordinates | ZeroStepRange

record plot_data =
  map_x :: "real list"
  map_y :: "real list"
  segments :: "((real \<times> real) \<times> (real \<times> real) \<times> real option) list"
  section_labels :: "(real \<times> real \<times> int) list"
  hot_spots :: "(nat \<times> real) list"

text \<open>
  pandas \<open>rolling(w, center=True).mean()\<close> with the default \<open>min_periods = w\<close>: row
  \<open>i\<close> averages rows \<open>i + 1 + off - w .. i + off\<close>, \<open>off = (w - 1) div 2\<close>, and is NaN
  unless that window lies inside the series.
\<close>

definition rolling_center_mean :: "nat \<Rightarrow> series \<Rightarrow> real option list" where
  "rolling_center_mean w xs =
     (let off = (w - 1) div 2
      in map (\<lambda>i. if w - 1 - off \<le> i \<and> i + off < length xs
                   then Some (mean (take w (drop (i + 1 + off - w) xs))) else None)
             [0..<length xs])"

definition smooth_coord :: "series \<Rightarrow> series" where
  "smooth_coord xs = (if length xs > 20 then map the (ffill (bfill (rolling_center_mean 20 xs))) else xs)"

definition map_theta :: real where
  "map_theta = pi / 6"

definition scale_by_max :: "series \<Rightarrow> series" where
  "scale_by_max xs = (if smax xs \<noteq> 0 then map (\<lambda>x. x / smax xs) xs else xs)"

definition map_coords :: "map_row list \<Rightarrow> series \<times> series" where
  "map_coords rows =
     (let xs = smooth_coord (map mx rows); ys = smooth_coord (map my rows);
          x = map (\<lambda>v. v - smin xs) xs; y = map (\<lambda>v. v - smin ys) ys;
          x_rot = map2 (\<lambda>a b. a * cos map_theta - b * sin map_theta) x y;
          y_rot = map2 (\<lambda>a b. a * sin map_theta + b * cos map_theta) x y
      in (scale_by_max x_rot, map (\<lambda>v. v * 1.3) (scale_by_max y_rot)))"

definition marker_rows :: "nat \<Rightarrow> nat list" where
  "marker_rows n = filter (\<lambda>i. i mod (n div 10) = 0) [0..<n]"

definition top_3_rows :: "map_row list \<Rightarrow> (nat \<times> real) list" where
  "top_3_rows rows =
     map (\<lambda>i. (i, the (m_cli (rows ! i))))
       (take 3 (sort_key (\<lambda>i. - the (m_cli (rows ! i))) (filter (\<lambda>i. m_cli (rows ! i) \<noteq> None) [0..<length rows])))"

definition plot_track_map :: "map_row list \<Rightarrow> plot_error + plot_data" where
  "plot_track_map rows =
     (if rows = [] then Inl EmptyCoordinates
      else let (x, y) = map_coords rows; pts = zip x y; n = length rows
           in if n div 10 = 0 then Inl ZeroStepRange
              else Inr \<lparr>map_x = x, map_y = y,
                        segments = map2 (\<lambda>(p, q) c. (p, q, c)) (zip pts (tl pts)) (map m_cli (butlast rows)),
                        section_labels = map (\<lambda>i. (x ! i, y ! i, m_section (rows ! i))) (marker_rows n),
                        hot_spots = top_3_rows rows\<rparr>)"

text \<open>\<open>str\<close> of a Python integer: its decimal digits, with a leading minus sign.\<close>

fun decimal_digits :: "nat \<Rightarrow> string" where
  "decimal_digits n =
     (if n < 10 then [char_of (48 + n)] else decimal_digits (n div 10) @ [char_of (48 + n mod 10)])"

definition show_int :: "int \<Rightarrow> string" where
  "show_int i = (if i < 0 then CHR ''-'' # decimal_digits (nat (- i)) else decimal_digits (nat i))"

text \<open>
  The figure title (lines 80-88) from the first row's \<open>vehicle_id\<close>, \<open>lap\<close> and
  \<open>lap_time\<close>: \<open>None\<close> for a column the table lacks, \<open>Some None\<close> for a NaN lap time.
\<close>

definition map_title :: "string option \<Rightarrow> int option \<Rightarrow> string option option \<Rightarrow> string" where
  "map_title v l lt =
     ''Driver '' @ (case v of None \<Rightarrow> ''Unknown'' | Some s \<Rightarrow> s) @ '' Cognitive Load Map - COTA (Lap ''
     @ (case l of None \<Rightarrow> ''?'' | Some n \<Rightarrow> show_int n)
     @ (case lt of Some (Some t) \<Rightarrow> '' | Lap Time: '' @ t | _ \<Rightarrow> []) @ '')''"

text \<open>Reading decimal digits back, for the round trip of \<open>show_int\<close>.\<close>

definition read_digits :: "string \<Rightarrow> nat" where
  "read_digits s = foldl (\<lambda>a c. 10 * a + (of_char c - 48)) 0 s"

text \<open>A lap of \<open>n\<close> evenly spaced samples on a straight line, for the witnesses.\<close>

definition demo_map_rows :: "nat \<Rightarrow> map_row list" where
  "demo_map_rows n = map (\<lambda>i. \<lparr>mx = real i, my = 0, m_cli = Some 0.5, m_section = int i div 4\<rparr>) [0..<n]"


section \<open>Properties of the map data\<close>

lemma read_digits_snoc: "read_digits (s @ [c]) = 10 * read_digits s + (of_char c - 48)"
  by (simp add: read_digits_def)

lemma of_char_digit: "k < (10::nat) \<Longrightarrow> of_char (char_of (48 + k) :: char) = 48 + k"
  by (simp add: of_char_of)

lemma read_decimal_digits: "read_digits (decimal_digits n) = n"
proof (induction n rule: decimal_digits.induct)
  case (1 n)
  show ?case
  proof (cases "n < 10")
    case True
    then show ?thesis by (simp add: read_digits_def of_char_digit)
  next
    case False
    then have "read_digits (decimal_digits n) = 10 * read_digits (decimal_digits (n div 10)) + n mod 10"
      by (simp add: read_digits_snoc of_char_digit)
    then show ?thesis using 1 False by simp
  qed
qed

lemma minus_notin_decimal_digits: "CHR ''-'' \<notin> set (decimal_digits n)"
proof (induction n rule: decimal_digits.induct)
  case (1 n)
  have d: "char_of (48 + k) \<noteq> CHR ''-''" if "k < 10" for k :: nat
  proof
    assume "char_of (48 + k) = CHR ''-''"
    then have "of_char (char_of (48 + k) :: char) = (of_char (CHR ''-'') :: nat)" by simp
    then show False using that by (simp add: of_char_digit)
  qed
  show ?case
  proof (cases "n < 10")
    case True
    then show ?thesis using d [of n] by simp
  next
    case False
    then show ?thesis using 1 d [of "n mod 10"] by auto
  qed
qed

lemma show_int_inj: "show_int i = show_int j \<Longrightarrow> i = j"
proof -
  assume eq: "show_int i = show_int j"
  have hd_ne: "decimal_digits n \<noteq> []" for n by (subst decimal_digits.simps) simp
  have nm: "hd (decimal_digits n) \<noteq> CHR ''-''" for n
    using minus_notin_decimal_digits [of n] hd_in_set [OF hd_ne] by metis
  have dd: "decimal_digits a = decimal_digits b \<Longrightarrow> a = b" for a b
    using read_decimal_digits [of a] read_decimal_digits [of b] by simp
  show "i = j"
  proof (cases "i < 0"; cases "j < 0")
    assume "i < 0" "j < 0"
    then show ?thesis using eq dd [of "nat (- i)" "nat (- j)"] by (simp add: show_int_def)
  next
    assume "\<not> i < 0" "\<not> j < 0"
    then show ?thesis using eq dd [of "nat i" "nat j"] by (simp add: show_int_def)
  next
    assume "i < 0" "\<not> j < 0"
    then have "hd (show_int i) = CHR ''-''" "hd (show_int j) \<noteq> CHR ''-''"
      using nm [of "nat j"] by (simp_all add: show_int_def)
    then show ?thesis using eq by simp
  next
    assume "\<not> i < 0" "j < 0"
    then have "hd (show_int j) = CHR ''-''" "hd (show_int i) \<noteq> CHR ''-''"
      using nm [of "nat i"] by (simp_all add: show_int_def)
    then show ?thesis using eq by simp
  qed
qed

text \<open>Two titles of one vehicle and lap-time column differ when their laps differ.\<close>

lemma map_title_lap_inj: "map_title v (Some l) lt = map_title v (Some l') lt \<Longrightarrow> l = l'"
  by (simp add: map_title_def show_int_inj)

lemma length_smooth_coord [simp]: "length (smooth_coord xs) = length xs"
  by (simp add: smooth_coord_def rolling_center_mean_def Let_def)

lemma length_scale_by_max [simp]: "length (scale_by_max xs) = length xs"
  by (simp add: scale_by_max_def)

lemma sin_cos_theta: "sin map_theta = 1 / 2" "0 < cos map_theta"
  by (simp_all add: map_theta_def sin_30 cos_30)

lemma scale_by_max_le_one:
  assumes "0 \<le> smax xs" "v \<in> set (scale_by_max xs)"
  shows "v \<le> 1"
proof (cases "smax xs = 0")
  case True
  then have "v \<in> set xs" using assms(2) by (simp add: scale_by_max_def)
  then show ?thesis using smax_ge [of v xs] True by simp
next
  case False
  then obtain u where u: "u \<in> set xs" "v = u / smax xs" using assms(2) by (auto simp: scale_by_max_def)
  have "u \<le> smax xs" using u(1) by (rule smax_ge)
  then show ?thesis using u(2) assms(1) False by simp
qed

lemma scale_by_max_unit:
  assumes "\<forall>u \<in> set xs. 0 \<le> u" "v \<in> set (scale_by_max xs)"
  shows "0 \<le> v \<and> v \<le> 1"
proof (cases "smax xs = 0")
  case True
  then have "v \<in> set xs" using assms(2) by (simp add: scale_by_max_def)
  then show ?thesis using smax_ge [of v xs] True assms(1) by simp
next
  case False
  then obtain u where u: "u \<in> set xs" "v = u / smax xs" using assms(2) by (auto simp: scale_by_max_def)
  have "u \<le> smax xs" using u(1) by (rule smax_ge)
  moreover have "0 \<le> u" using u(1) assms(1) by simp
  ultimately have "0 < smax xs" using False by simp
  then show ?thesis using u \<open>u \<le> smax xs\<close> \<open>0 \<le> u\<close> by simp
qed

lemma shifted_nonneg: "v \<in> set (map (\<lambda>v. v - smin xs) xs) \<Longrightarrow> 0 \<le> v"
  using smin_le by auto


lemma rot_y_nonneg:
  assumes "\<forall>u \<in> set x. 0 \<le> u" "\<forall>u \<in> set y. 0 \<le> u"
  shows "\<forall>v \<in> set (map2 (\<lambda>a b. a * sin map_theta + b * cos map_theta) x y). 0 \<le> v"
proof
  fix v assume "v \<in> set (map2 (\<lambda>a b. a * sin map_theta + b * cos map_theta) x y)"
  then obtain a b where ab: "(a, b) \<in> set (zip x y)" "v = a * sin map_theta + b * cos map_theta" by auto
  have "0 \<le> a" "0 \<le> b" using ab(1) assms by (auto dest: set_zip_leftD set_zip_rightD)
  then show "0 \<le> v" using ab(2) sin_cos_theta by simp
qed

lemma rot_x_max_nonneg:
  assumes "length x = length y" "j < length y" "y ! j = 0" "0 \<le> x ! j"
  shows "0 \<le> smax (map2 (\<lambda>a b. a * cos map_theta - b * sin map_theta) x y)"
proof -
  let ?r = "map2 (\<lambda>a b. a * cos map_theta - b * sin map_theta) x y"
  have "?r ! j = x ! j * cos map_theta" using assms(1-3) by simp
  moreover have "?r ! j \<in> set ?r" using assms(1,2) by (intro nth_mem) simp
  ultimately have "x ! j * cos map_theta \<le> smax ?r" using smax_ge by metis
  moreover have "0 \<le> x ! j * cos map_theta" using assms(4) sin_cos_theta(2) by simp
  ultimately show ?thesis by linarith
qed

lemma map_coords_bounds:
  assumes "rows \<noteq> []" "map_coords rows = (x, y)"
  shows "(\<forall>v \<in> set x. v \<le> 1) \<and> (\<forall>v \<in> set y. 0 \<le> v \<and> v \<le> 1.3)"
proof -
  let ?xs = "smooth_coord (map mx rows)" let ?ys = "smooth_coord (map my rows)"
  let ?x0 = "map (\<lambda>v. v - smin ?xs) ?xs" let ?y0 = "map (\<lambda>v. v - smin ?ys) ?ys"
  have x: "x = scale_by_max (map2 (\<lambda>a b. a * cos map_theta - b * sin map_theta) ?x0 ?y0)"
    and y: "y = map (\<lambda>v. v * 1.3) (scale_by_max (map2 (\<lambda>a b. a * sin map_theta + b * cos map_theta) ?x0 ?y0))"
    using assms(2) by (simp_all add: map_coords_def Let_def)
  have x0: "\<forall>u \<in> set ?x0. 0 \<le> u" and y0: "\<forall>u \<in> set ?y0. 0 \<le> u"
    using shifted_nonneg by blast+
  have ne: "?ys \<noteq> []" using assms(1) by (metis length_0_conv length_map length_smooth_coord)
  obtain j where j: "j < length ?ys" "?ys ! j = smin ?ys"
    using smin_in [OF ne] by (metis in_set_conv_nth)
  have "0 \<le> smax (map2 (\<lambda>a b. a * cos map_theta - b * sin map_theta) ?x0 ?y0)"
  proof (rule rot_x_max_nonneg)
    show "length ?x0 = length ?y0" by simp
    show "j < length ?y0" using j(1) by simp
    show "?y0 ! j = 0" using j by simp
    show "0 \<le> ?x0 ! j" using x0 j(1) by (simp add: nth_mem)
  qed
  then have "\<forall>v \<in> set x. v \<le> 1" using x scale_by_max_le_one by blast
  moreover have "\<forall>v \<in> set y. 0 \<le> v \<and> v \<le> 1.3"
  proof
    fix v assume "v \<in> set y"
    then obtain u where u: "u \<in> set (scale_by_max (map2 (\<lambda>a b. a * sin map_theta + b * cos map_theta) ?x0 ?y0))"
      "v = u * 1.3" using y by auto
    have "0 \<le> u \<and> u \<le> 1" using scale_by_max_unit [OF rot_y_nonneg [OF x0 y0] u(1)] .
    then show "0 \<le> v \<and> v \<le> 1.3" using u(2) by simp
  qed
  ultimately show ?thesis by blast
qed


lemma plot_track_map_Inr:
  "plot_track_map rows = Inr d \<Longrightarrow> rows \<noteq> [] \<and> 10 \<le> length rows \<and> map_coords rows = (map_x d, map_y d)"
  by (auto simp: plot_track_map_def Let_def split: prod.splits if_splits)

lemma plot_track_map_ok: "10 \<le> length rows \<Longrightarrow> \<exists>d. plot_track_map rows = Inr d"
  by (auto simp: plot_track_map_def Let_def split: prod.splits)

lemma map_coords_x_negative:
  "fst (map_coords [\<lparr>mx = 0, my = 1, m_cli = None, m_section = 0\<rparr>, \<lparr>mx = 1, my = 0, m_cli = None, m_section = 0\<rparr>]) ! 0 < 0"
proof -
  have "0 \<le> sqrt (3::real)" by simp
  then have "- 1 \<le> sqrt (3::real)" by linarith
  then have m: "smax [- (1 / 2), sqrt 3 / 2] = sqrt 3 / 2"
    by (simp add: smax_def max_def)
  show ?thesis
    by (simp add: map_coords_def Let_def smooth_coord_def smin_def sin_30 cos_30 map_theta_def scale_by_max_def m)
qed

text \<open>
  C17. The drawn map's Y coordinates lie in [0, 1.3] and its X coordinates are at most 1;
  X is not bounded below by 0 (see \<open>map_coords_x_negative\<close>), unlike the code's comment
  "Normalize to 0-1".
\<close>

theorem plot_track_map_bounds:
  assumes "plot_track_map rows = Inr d"
  shows "(\<forall>v \<in> set (map_x d). v \<le> 1) \<and> (\<forall>v \<in> set (map_y d). 0 \<le> v \<and> v \<le> 1.3)"
  using plot_track_map_Inr [OF assms] map_coords_bounds by blast

theorem plot_track_map_bounds_witness:
  "\<exists>d. plot_track_map (demo_map_rows 12) = Inr d
     \<and> (\<forall>v \<in> set (map_x d). v \<le> 1) \<and> (\<forall>v \<in> set (map_y d). 0 \<le> v \<and> v \<le> 1.3)"
proof -
  obtain d where d: "plot_track_map (demo_map_rows 12) = Inr d"
    using plot_track_map_ok [of "demo_map_rows 12"] by (auto simp: demo_map_rows_def)
  then show ?thesis using plot_track_map_bounds [OF d] by blast
qed

end
