(* ===== verification/Panel.thy ===== *)
theory Panel
  imports Pipeline TrackMap
begin

text \<open>
  The results panel of \<open>src/app.py\<close> (lines 109-169), drawn after \<open>compute_insights\<close>
  succeeded on the stored table: the four summary metrics, the track map, the CLI chart
  and the two tables of the high- and low-load sections.

  A row of \<open>df_segments\<close> (\<open>max_stress_segment\<close>, the rows of \<open>top_5_high\<close>) is a pandas
  Series, modelled as the association list from its column names to its values
  (\<open>section_series\<close>), in the column order \<open>insights.py\<close> builds: the group key
  \<open>section_id\<close>, the seven metric columns of lines 10-12 and \<open>Primary Cause\<close> (line 58).
  Indexing a Series or selecting columns with a missing name raises \<open>KeyError\<close>;
  \<open>int()\<close> of NaN raises \<open>ValueError\<close>. \<open>results.get(key, default)\<close> falls back to
  its default because the dictionary \<open>compute_insights\<close> returns has no
  \<open>segment_col\<close> or \<open>cli_col\<close> key. A failure is a \<open>crash\<close>.
\<close>

text \<open>\<open>final_df\<close>: the left merge keeps the sample columns of every row beside its metrics.\<close>

definition final_table :: "(track_row \<times> int) list \<Rightarrow> fused_metrics list \<Rightarrow> (track_row \<times> int \<times> fused_metrics) list" where
  "final_table seg metrics = zip (map fst seg) (merge_metrics seg metrics)"

text \<open>The columns \<open>plot_track_map\<close> reads from \<open>final_df\<close>: \<open>longitude\<close> and \<open>latitude\<close>
  are the copies of \<open>X\<close> and \<open>Y\<close> made by \<open>process_lap_data\<close>, and \<open>section_id\<close> is
  \<open>segment_id\<close> (\<open>app.py\<close> line 103).\<close>

definition map_row_of :: "track_row \<times> int \<times> fused_metrics \<Rightarrow> map_row" where
  "map_row_of = (\<lambda>(r, sid, m). \<lparr>mx = X r, my = Y r, m_cli = CLI_smooth m, m_section = sid\<rparr>)"

datatype pyval = PInt int | PFloat "real option" | PStr string

datatype crash =
    CrashSegment seg_error
  | CrashFusion fusion_error
  | CrashInsights insight_error
  | KeyError string
  | IntConversion
  | CrashTrackMap plot_error

definition section_series :: "section_row \<times> string \<Rightarrow> (string \<times> pyval) list" where
  "section_series = (\<lambda>(r, cause).
     [(''section_id'', PInt (section_id r)), (''CLI'', PFloat (s_CLI r)),
      (''CLI_smooth'', PFloat (s_CLI_smooth r)),
      (''steering_entropy'', PFloat (Some (s_steering_entropy r))),
      (''throttle_jerk'', PFloat (Some (s_throttle_jerk r))),
      (''brake_panic'', PFloat (Some (s_brake_panic r))),
      (''lat_instability'', PFloat (s_lat_instability r)),
      (''long_jerk'', PFloat (Some (s_long_jerk r))), (''Primary Cause'', PStr cause)])"

definition segment_col :: string where
  "segment_col = ''segment_id''"

definition cli_col :: string where
  "cli_col = ''CLI_smooth''"

text \<open>\<open>series[key]\<close>.\<close>

definition series_get :: "(string \<times> pyval) list \<Rightarrow> string \<Rightarrow> crash + pyval" where
  "series_get s key = (case map_of s key of None \<Rightarrow> Inl (KeyError key) | Some v \<Rightarrow> Inr v)"

text \<open>\<open>df[cols]\<close>: a column missing from the table raises, the first one named.\<close>

definition select_table :: "string list \<Rightarrow> (section_row \<times> string) list \<Rightarrow> crash + pyval list list" where
  "select_table cols rows =
     (case find (\<lambda>c. list_ex (\<lambda>r. map_of (section_series r) c = None) rows) cols of
        Some c \<Rightarrow> Inl (KeyError c)
      | None \<Rightarrow> Inr (map (\<lambda>r. map (\<lambda>c. the (map_of (section_series r) c)) cols) rows))"

text \<open>\<open>int(x)\<close>: truncation towards zero; NaN and text raise.\<close>

definition py_int :: "pyval \<Rightarrow> crash + int" where
  "py_int v = (case v of
       PInt i \<Rightarrow> Inr i
     | PFloat (Some x) \<Rightarrow> Inr (if 0 \<le> x then \<lfloor>x\<rfloor> else \<lceil>x\<rceil>)
     | PFloat None \<Rightarrow> Inl IntConversion
     | PStr _ \<Rightarrow> Inl IntConversion)"

record summary_view =
  sv_max_cli :: real
  sv_avg_cli :: real
  sv_max_segment :: "int option"
  sv_cause :: string
  sv_map :: plot_data
  sv_chart :: "(int \<times> real option) list"
  sv_high :: "pyval list list option"
  sv_low :: "pyval list list option"

text \<open>Lines 119-123: \<open>"-"\<close> (\<open>None\<close>) for an empty row, else \<open>int\<close> of its \<open>segment_col\<close>.\<close>

definition max_segment_value :: "insights \<Rightarrow> crash + int option" where
  "max_segment_value ins =
     (if section_series (max_stress_segment ins) = [] then Inr None
      else case series_get (section_series (max_stress_segment ins)) segment_col of
             Inl c \<Rightarrow> Inl c
           | Inr v \<Rightarrow> (case py_int v of Inl c \<Rightarrow> Inl c | Inr i \<Rightarrow> Inr (Some i)))"

text \<open>Lines 153-167: a table when there are sections, \<open>None\<close> for the info message.\<close>

definition panel_table :: "string list \<Rightarrow> (section_row \<times> string) list \<Rightarrow> crash + pyval list list option" where
  "panel_table cols rows =
     (if rows = [] then Inr None
      else case select_table cols rows of Inl c \<Rightarrow> Inl c | Inr t \<Rightarrow> Inr (Some t))"

definition results_panel ::
  "(track_row \<times> int \<times> fused_metrics) list \<Rightarrow> fused_metrics list \<Rightarrow> insights \<Rightarrow> crash + summary_view" where
  "results_panel f metrics ins =
     (case max_segment_value ins of
        Inl c \<Rightarrow> Inl c
      | Inr seg \<Rightarrow>
          (case plot_track_map (map map_row_of f) of
             Inl e \<Rightarrow> Inl (CrashTrackMap e)
           | Inr d \<Rightarrow>
               (case panel_table [segment_col, cli_col, ''Primary Cause''] (top_5_high ins) of
                  Inl c \<Rightarrow> Inl c
                | Inr high \<Rightarrow>
                    (case panel_table [segment_col, cli_col] (top_5_low ins) of
                       Inl c \<Rightarrow> Inl c
                     | Inr low \<Rightarrow>
                         Inr \<lparr>sv_max_cli = max_cli ins, sv_avg_cli = avg_cli ins, sv_max_segment = seg,
                              sv_cause = common_cause ins, sv_map = d,
                              sv_chart = map (\<lambda>m. (segment_id m, CLI_smooth m)) metrics,
                              sv_high = high, sv_low = low\<rparr>))))"


section \<open>Properties of the panel\<close>

lemma section_series_keys: "map fst (section_series r) =
  [''section_id'', ''CLI'', ''CLI_smooth'', ''steering_entropy'', ''throttle_jerk'', ''brake_panic'',
   ''lat_instability'', ''long_jerk'', ''Primary Cause'']"
  by (cases r) (simp add: section_series_def)

lemma section_series_lookup: "map_of (section_series r) k = None \<longleftrightarrow> k \<notin> set (map fst (section_series r))"
  by (simp add: map_of_eq_None_iff)

text \<open>The row of the most stressful section has no \<open>segment_id\<close> column: line 121 raises.\<close>

lemma max_segment_value_key_error: "max_segment_value ins = Inl (KeyError ''segment_id'')"
proof -
  have "map_of (section_series (max_stress_segment ins)) segment_col = None"
    unfolding section_series_lookup section_series_keys by (simp add: segment_col_def)
  moreover have "section_series (max_stress_segment ins) \<noteq> []"
    using section_series_keys [of "max_stress_segment ins"] by auto
  ultimately show ?thesis by (simp add: max_segment_value_def series_get_def segment_col_def)
qed

lemma results_panel_key_error: "results_panel f m ins = Inl (KeyError ''segment_id'')"
  by (simp add: results_panel_def max_segment_value_key_error)

end
