(* ===== verification/Scan.thy ===== *)
theory Scan
  imports Prelude
begin

text \<open>
  The data directory scan, \<open>scan_data_directory\<close> in \<open>src/src/load_data.py\<close>. For each
  of four file kinds it globs \<open>data_dir/pattern\<close> with the pattern as written, in lower
  case and in upper case, falls back to the recursive \<open>data_dir/**/pattern\<close> in the
  same three casings when nothing matched, and keeps the first match.

  The directory is a listing \<open>dir_entry list\<close> in the order \<open>os.scandir\<close> returns it,
  as a pre-order walk (a directory before its contents); paths are lists of names
  relative to \<open>data_dir\<close>. Globbing is POSIX \<open>glob.glob\<close>: \<open>fnmatch\<close> is case-sensitive,
  \<open>*\<close> matches any run of characters within one name (\<open>wmatch\<close>; the patterns hold no
  \<open>?\<close> or \<open>[\<close>), names starting with \<open>.\<close> are skipped, and \<open>**\<close> visits the
  directory itself and then its visible subdirectories in pre-order. The file system
  calls themselves are not modelled.
\<close>

record dir_entry =
  entry_path :: "string list"
  entry_is_dir :: bool

record data_files =
  telemetry_path :: "string list option"
  analysis_path :: "string list option"
  weather_path :: "string list option"
  lap_time_path :: "string list option"

text \<open>\<open>fnmatch\<close> of a pattern whose only wildcard is \<open>*\<close>.\<close>

fun wmatch :: "string \<Rightarrow> string \<Rightarrow> bool" where
  "wmatch [] s = (s = [])"
| "wmatch (c # p) [] = (c = CHR ''*'' \<and> wmatch p [])"
| "wmatch (c # p) (d # s) =
     (if c = CHR ''*'' then wmatch p (d # s) \<or> wmatch (c # p) s else c = d \<and> wmatch p s)"

definition py_lower :: "char \<Rightarrow> char" where
  "py_lower c = (if (65::nat) \<le> of_char c \<and> of_char c \<le> (90::nat) then char_of (of_char c + (32::nat)) else c)"

definition py_upper :: "char \<Rightarrow> char" where
  "py_upper c = (if (97::nat) \<le> of_char c \<and> of_char c \<le> (122::nat) then char_of (of_char c - (32::nat)) else c)"

definition case_variants :: "string \<Rightarrow> string list" where
  "case_variants pat = [pat, map py_lower pat, map py_upper pat]"

definition visible_name :: "string \<Rightarrow> bool" where
  "visible_name n \<longleftrightarrow> take 1 n \<noteq> ''.''"

definition glob_in :: "dir_entry list \<Rightarrow> string list \<Rightarrow> string \<Rightarrow> string list list" where
  "glob_in es d pat =
     map entry_path (filter (\<lambda>e. entry_path e \<noteq> [] \<and> butlast (entry_path e) = d
                                \<and> visible_name (last (entry_path e)) \<and> wmatch pat (last (entry_path e))) es)"

definition walk_dirs :: "dir_entry list \<Rightarrow> string list list" where
  "walk_dirs es = [] # map entry_path (filter (\<lambda>e. entry_is_dir e \<and> list_all visible_name (entry_path e)) es)"

definition glob_recursive :: "dir_entry list \<Rightarrow> string \<Rightarrow> string list list" where
  "glob_recursive es pat = concat (map (\<lambda>d. glob_in es d pat) (walk_dirs es))"

definition scan_key :: "dir_entry list \<Rightarrow> string \<Rightarrow> string list option" where
  "scan_key es pat =
     (let here = concat (map (glob_in es []) (case_variants pat));
          matches = (if here = [] then concat (map (glob_recursive es) (case_variants pat)) else here)
      in if matches = [] then None else Some (hd matches))"

definition scan_data_directory :: "dir_entry list \<Rightarrow> data_files" where
  "scan_data_directory es =
     \<lparr>telemetry_path = scan_key es ''*telemetry_data.csv'',
      analysis_path = scan_key es ''*AnalysisEndurance*.CSV'',
      weather_path = scan_key es ''*Weather*.CSV'',
      lap_time_path = scan_key es ''*lap_time*.csv''\<rparr>"

text \<open>
  The legacy loader \<open>load_telemetry\<close> (\<open>src/src/load_data.py\<close> lines 126-135): a missing
  file raises \<open>FileNotFoundError\<close>; otherwise the CSV is read and, when it has a
  \<open>timestamp\<close> column, that column (the first of the name) is converted by
  \<open>pd.to_datetime\<close>, which raises on a cell it cannot parse. The file system is a map
  from paths to parsed CSV frames; \<open>to_datetime\<close> of one cell is a parameter
  (\<open>None\<close> where it raises).
\<close>

record csv_frame =
  frame_columns :: "string list"
  frame_rows :: "string list list"

datatype 'a cell = Raw string | Parsed 'a

datatype legacy_error = FileNotFound "string list" | UnparsableTimestamp

text \<open>The position of the first column of a name (\<open>df[name]\<close> after \<open>read_csv\<close>, which
  renames later duplicates).\<close>

definition column_index :: "string list \<Rightarrow> string \<Rightarrow> nat" where
  "column_index cols name = length (takeWhile (\<lambda>c. c \<noteq> name) cols)"

definition convert_column :: "(string \<Rightarrow> 'a option) \<Rightarrow> nat \<Rightarrow> string list \<Rightarrow> 'a cell list option" where
  "convert_column to_dt i row =
     those (map (\<lambda>(j, c). if j = i then map_option Parsed (to_dt c) else Some (Raw c)) (enumerate 0 row))"

definition load_telemetry ::
  "(string list \<Rightarrow> csv_frame option) \<Rightarrow> (string \<Rightarrow> 'a option) \<Rightarrow> string list \<Rightarrow> legacy_error + string list \<times> 'a cell list list" where
  "load_telemetry fs to_dt path =
     (case fs path of
        None \<Rightarrow> Inl (FileNotFound path)
      | Some df \<Rightarrow>
          if ''timestamp'' \<in> set (frame_columns df) then
            (case those (map (convert_column to_dt (column_index (frame_columns df) ''timestamp'')) (frame_rows df)) of
               None \<Rightarrow> Inl UnparsableTimestamp
             | Some rows \<Rightarrow> Inr (frame_columns df, rows))
          else Inr (frame_columns df, map (map Raw) (frame_rows df)))"

text \<open>A listing is a walk of a tree: the parent of every nested entry is a listed directory.\<close>

definition wf_listing :: "dir_entry list \<Rightarrow> bool" where
  "wf_listing es \<longleftrightarrow>
     list_all (\<lambda>e. butlast (entry_path e) = [] \<or> \<lparr>entry_path = butlast (entry_path e), entry_is_dir = True\<rparr> \<in> set es) es"

text \<open>An entry the scan reports for a pattern: visible at every level of its path, with a name
  matching the pattern in one of its three casings.\<close>

definition scan_match :: "string \<Rightarrow> dir_entry \<Rightarrow> bool" where
  "scan_match pat e \<longleftrightarrow> entry_path e \<noteq> [] \<and> list_all visible_name (entry_path e)
     \<and> list_ex (\<lambda>q. wmatch q (last (entry_path e))) (case_variants pat)"

text \<open>A data folder with a \<open>Race 1\<close> subdirectory, the layout the code's comment names,
  whose file names use mixed case; for the witnesses.\<close>

definition demo_listing :: "dir_entry list" where
  "demo_listing =
     [\<lparr>entry_path = [''Race 1''], entry_is_dir = True\<rparr>,
      \<lparr>entry_path = [''Race 1'', ''R1_Telemetry_Data.csv''], entry_is_dir = False\<rparr>,
      \<lparr>entry_path = [''Race 1'', ''23_AnalysisEnduranceWithSections_Race 1_Anonymized.CSV''], entry_is_dir = False\<rparr>]"

subsection \<open>Properties of the scan\<close>

lemma glob_in_nonempty:
  "glob_in es d q \<noteq> [] \<longleftrightarrow> (\<exists>e\<in>set es. entry_path e \<noteq> [] \<and> butlast (entry_path e) = d
     \<and> visible_name (last (entry_path e)) \<and> wmatch q (last (entry_path e)))"
  by (auto simp: glob_in_def filter_empty_conv)

lemma list_all_butlast_last:
  "xs \<noteq> [] \<Longrightarrow> list_all P xs \<longleftrightarrow> list_all P (butlast xs) \<and> P (last xs)"
  by (metis append_butlast_last_id list_all_append list.pred_inject(1,2))

lemma walk_dirs_parent:
  assumes "wf_listing es" "e \<in> set es" "entry_path e \<noteq> []"
  shows "butlast (entry_path e) \<in> set (walk_dirs es) \<and> visible_name (last (entry_path e))
         \<longleftrightarrow> list_all visible_name (entry_path e)"
proof -
  have par: "butlast (entry_path e) = [] \<or> \<lparr>entry_path = butlast (entry_path e), entry_is_dir = True\<rparr> \<in> set es"
    using assms(1,2) by (simp add: wf_listing_def list_all_iff)
  have "butlast (entry_path e) \<in> set (walk_dirs es) \<longleftrightarrow> list_all visible_name (butlast (entry_path e))"
  proof
    assume "butlast (entry_path e) \<in> set (walk_dirs es)"
    then show "list_all visible_name (butlast (entry_path e))"
      by (auto simp: walk_dirs_def)
  next
    assume v: "list_all visible_name (butlast (entry_path e))"
    from par show "butlast (entry_path e) \<in> set (walk_dirs es)"
    proof
      assume "\<lparr>entry_path = butlast (entry_path e), entry_is_dir = True\<rparr> \<in> set es"
      with v show ?thesis unfolding walk_dirs_def by (auto intro!: image_eqI)
    qed (simp add: walk_dirs_def)
  qed
  then show ?thesis using list_all_butlast_last[OF assms(3)] by blast
qed

lemma glob_recursive_nonempty:
  assumes "wf_listing es"
  shows "glob_recursive es q \<noteq> [] \<longleftrightarrow>
         (\<exists>e\<in>set es. entry_path e \<noteq> [] \<and> list_all visible_name (entry_path e) \<and> wmatch q (last (entry_path e)))"
proof -
  have "glob_recursive es q \<noteq> [] \<longleftrightarrow> (\<exists>e\<in>set es. entry_path e \<noteq> [] \<and>
          (butlast (entry_path e) \<in> set (walk_dirs es) \<and> visible_name (last (entry_path e))) \<and> wmatch q (last (entry_path e)))"
    by (auto simp: glob_recursive_def glob_in_nonempty)
  also have "\<dots> \<longleftrightarrow> (\<exists>e\<in>set es. entry_path e \<noteq> [] \<and> list_all visible_name (entry_path e) \<and> wmatch q (last (entry_path e)))"
    using walk_dirs_parent[OF assms] by blast
  finally show ?thesis .
qed

lemma glob_in_root_recursive: "glob_in es [] q \<noteq> [] \<Longrightarrow> glob_recursive es q \<noteq> []"
  by (simp add: glob_recursive_def walk_dirs_def)

lemma scan_key_found:
  "scan_key es pat \<noteq> None \<longleftrightarrow> list_ex (\<lambda>q. glob_recursive es q \<noteq> []) (case_variants pat)"
  using glob_in_root_recursive by (auto simp: scan_key_def Let_def case_variants_def)

text \<open>C28. With a listing that is the walk of a directory tree, the scan finds a file for a
  pattern exactly when some visible entry, at any depth, has a name matching the pattern
  as written, in lower case or in upper case; a name in any other casing is not found.\<close>

theorem scan_key_finds_iff:
  assumes "wf_listing es"
  shows "scan_key es pat \<noteq> None \<longleftrightarrow> list_ex (scan_match pat) es"
  unfolding scan_key_found scan_match_def list_ex_iff glob_recursive_nonempty[OF assms] by blast

theorem scan_key_finds_iff_witness:
  "wf_listing demo_listing \<and> scan_key demo_listing ''*telemetry_data.csv'' = None
   \<and> \<not> list_ex (scan_match ''*telemetry_data.csv'') demo_listing
   \<and> scan_key demo_listing ''*AnalysisEndurance*.CSV'' \<noteq> None
   \<and> list_ex (scan_match ''*AnalysisEndurance*.CSV'') demo_listing"
proof -
  have wf: "wf_listing demo_listing" by code_simp
  have t: "scan_key demo_listing ''*telemetry_data.csv'' = None" by code_simp
  have a: "scan_key demo_listing ''*AnalysisEndurance*.CSV'' \<noteq> None" by code_simp
  show ?thesis using wf t a scan_key_finds_iff[OF wf] by blast
qed

text \<open>The scan of that folder finds the analysis file but not the telemetry file, whose
  name is neither all lower case nor all upper case.\<close>

lemma scan_data_directory_demo:
  "scan_data_directory demo_listing =
     \<lparr>telemetry_path = None,
      analysis_path = Some [''Race 1'', ''23_AnalysisEnduranceWithSections_Race 1_Anonymized.CSV''],
      weather_path = None, lap_time_path = None\<rparr>"
  by code_simp


subsection \<open>Properties of the legacy loader\<close>

lemma those_map_lengths:
  "those (map f xs) = Some ys \<Longrightarrow> list_all2 (\<lambda>x y. f x = Some y) xs ys"
  by (induction xs arbitrary: ys) (auto split: option.splits)

lemma convert_column_length:
  assumes "convert_column to_dt i row = Some r"
  shows "length r = length row"
proof -
  have "length (enumerate 0 row) = length r"
    using those_map_lengths [OF assms [unfolded convert_column_def]] by (rule list_all2_lengthD)
  then show ?thesis by simp
qed

lemma load_telemetry_shape:
  assumes "load_telemetry fs to_dt path = Inr (cols, rows)"
  shows "\<exists>df. fs path = Some df \<and> cols = frame_columns df \<and> map length rows = map length (frame_rows df)"
proof -
  obtain df where df: "fs path = Some df" using assms by (auto simp: load_telemetry_def split: option.splits)
  show ?thesis
  proof (cases "''timestamp'' \<in> set (frame_columns df)")
    case True
    then obtain rs where rs: "those (map (convert_column to_dt (column_index (frame_columns df) ''timestamp'')) (frame_rows df)) = Some rs"
      "cols = frame_columns df" "rows = rs"
      using assms df by (auto simp: load_telemetry_def split: option.splits)
    have "list_all2 (\<lambda>x y. length y = length x) (frame_rows df) rs"
      using those_map_lengths [OF rs(1)] by (rule list_all2_mono) (rule convert_column_length)
    then have "map length rs = map length (frame_rows df)"
      by (induction rule: list_all2_induct) simp_all
    then show ?thesis using df rs by blast
  next
    case False
    then show ?thesis using assms df by (auto simp: load_telemetry_def comp_def)
  qed
qed

end
