(* ===== verification/Dashboard.thy ===== *)
theory Dashboard
  imports Panel Scan
begin

text \<open>
  One run of the Streamlit script \<open>src/app.py\<close> (lines 38-133) as a step on the
  session state. Streamlit reruns the whole script on every interaction; what survives
  between runs is \<open>st.session_state\<close> (\<open>session\<close>: the merged table, the metrics and the
  configuration they were computed for). A run

  \<^item> stops when the scan of the data directory (\<open>scan_data_directory\<close>) finds no
    telemetry file, when the file lists no vehicle or the
    chosen vehicle no lap (\<open>st.stop\<close>);
  \<^item> resolves the select boxes (\<open>selected_vehicle\<close>, \<open>selected_lap\<close>: the user's pick
    if it is still an option, the first option otherwise) into \<open>current_config\<close>;
  \<^item> recomputes when the button was pressed, nothing is cached yet or the configuration
    changed (\<open>should_run\<close>): the load inside \<open>try\<close> (its exception stops the run), then
    segmentation and metrics outside it (their exception aborts the run, the session
    unchanged), and stores the result;
  \<^item> shows the summary of the stored table (\<open>final_table\<close>: the samples with their
    merged metrics) and draws its track map, \<open>compute_insights\<close> and
    \<open>plot_track_map\<close> raising outside any \<open>try\<close>, or the prompt when nothing is
    stored.

  The loader is a parameter \<open>load\<close>, \<open>None\<close> when it raises. The script as written calls
  \<open>load_data.load_session\<close>, which does not exist: \<open>app_loader_as_written\<close> always
  raises. \<open>app_loader_intended\<close> is \<open>process_lap_data\<close>. Widgets, spinners and the
  figures themselves are not modelled; the inputs of a run (\<open>app_input\<close>) are what the widgets return.
\<close>

record app_input =
  data_dir :: "dir_entry list"
  file_rows :: "raw_row list"
  pick_vehicle :: string
  pick_lap :: int
  seg_slider :: int
  run_button :: bool

record app_config =
  cfg_vehicle :: string
  cfg_lap :: int
  cfg_segments :: int
  cfg_telemetry :: "string list"

record session =
  final_df :: "(track_row \<times> int \<times> fused_metrics) list option"
  metrics_df :: "fused_metrics list option"
  last_config :: "app_config option"

datatype app_outcome =
    StopNoTelemetry
  | StopNoVehicles
  | StopNoLaps
  | StopProcessingError
  | Crashed crash
  | ShowPrompt
  | ShowSummary summary_view

type_synonym app_loader = "string list \<Rightarrow> string \<Rightarrow> int \<Rightarrow> raw_row list \<Rightarrow> track_row list option"

definition app_loader_as_written :: app_loader where
  "app_loader_as_written path v l rows = None"

definition app_loader_intended :: app_loader where
  "app_loader_intended path v l rows =
     (case process_lap_data v l rows of Inl _ \<Rightarrow> None | Inr df \<Rightarrow> Some df)"

definition session0 :: session where
  "session0 = \<lparr>final_df = None, metrics_df = None, last_config = None\<rparr>"

definition selectbox :: "'a list \<Rightarrow> 'a \<Rightarrow> 'a" where
  "selectbox opts pick = (if pick \<in> set opts then pick else hd opts)"

definition selected_vehicle :: "app_input \<Rightarrow> string" where
  "selected_vehicle inp = selectbox (get_available_vehicles (file_rows inp)) (pick_vehicle inp)"

definition selected_lap :: "app_input \<Rightarrow> int" where
  "selected_lap inp = selectbox (get_available_laps (file_rows inp) (selected_vehicle inp)) (pick_lap inp)"

definition current_config :: "app_input \<Rightarrow> string list \<Rightarrow> app_config" where
  "current_config inp path =
     \<lparr>cfg_vehicle = selected_vehicle inp, cfg_lap = selected_lap inp,
      cfg_segments = seg_slider inp, cfg_telemetry = path\<rparr>"

definition should_run :: "app_input \<Rightarrow> app_config \<Rightarrow> session \<Rightarrow> bool" where
  "should_run inp cfg st \<longleftrightarrow> run_button inp \<or> final_df st = None \<or> last_config st \<noteq> Some cfg"

definition show_results :: "session \<Rightarrow> app_outcome \<times> session" where
  "show_results st =
     (case final_df st of
        Some f \<Rightarrow>
          if f = [] then (ShowPrompt, st)
          else (case metrics_df st of
                  None \<Rightarrow> (Crashed (KeyError ''metrics_df''), st)
                | Some m \<Rightarrow>
                    (case compute_insights (map snd f) of
                       Inl e \<Rightarrow> (Crashed (CrashInsights e), st)
                     | Inr ins \<Rightarrow>
                         (case results_panel f m ins of
                            Inl c \<Rightarrow> (Crashed c, st)
                          | Inr v \<Rightarrow> (ShowSummary v, st))))
      | None \<Rightarrow> (ShowPrompt, st))"

definition analyse :: "app_loader \<Rightarrow> string list \<Rightarrow> app_config \<Rightarrow> raw_row list \<Rightarrow> session \<Rightarrow> app_outcome \<times> session" where
  "analyse load path cfg rows st =
     (case load path (cfg_vehicle cfg) (cfg_lap cfg) rows of
        None \<Rightarrow> (StopProcessingError, st)
      | Some df \<Rightarrow>
          (case segment_lap Laptrigger_lapdist_dls df (cfg_segments cfg) of
             Inl e \<Rightarrow> (Crashed (CrashSegment e), st)
           | Inr seg \<Rightarrow>
               (case compute_cli_table (compute_segment_metrics seg) of
                  Inl e \<Rightarrow> (Crashed (CrashFusion e), st)
                | Inr metrics \<Rightarrow>
                    show_results (st\<lparr>final_df := Some (final_table seg metrics), metrics_df := Some metrics,
                                     last_config := Some cfg\<rparr>))))"

definition app_run :: "app_loader \<Rightarrow> app_input \<Rightarrow> session \<Rightarrow> app_outcome \<times> session" where
  "app_run load inp st =
     (case telemetry_path (scan_data_directory (data_dir inp)) of
        None \<Rightarrow> (StopNoTelemetry, st)
      | Some path \<Rightarrow>
          if get_available_vehicles (file_rows inp) = [] then (StopNoVehicles, st)
          else if get_available_laps (file_rows inp) (selected_vehicle inp) = [] then (StopNoLaps, st)
          else let cfg = current_config inp path
               in if should_run inp cfg st then analyse load path cfg (file_rows inp) st
                  else show_results st)"

text \<open>The sessions a browser tab can reach from a fresh session by any sequence of runs.\<close>

inductive reachable :: "app_loader \<Rightarrow> session \<Rightarrow> bool" for load where
  fresh: "reachable load session0"
| rerun: "reachable load st \<Longrightarrow> reachable load (snd (app_run load inp st))"

text \<open>A two-sample straight run of 10 m, standing in for a loaded lap in the witnesses.\<close>

definition demo_track :: "track_row list" where
  "demo_track =
     [\<lparr>timestamp = 0, Steering_Angle = 0, throttle = 0.5, brake_pressure = 0, accx = 0, accy = 0, speed = 10,
       dt = 0, X = 0, Y = 0, Laptrigger_lapdist_dls = 0\<rparr>,
      \<lparr>timestamp = 1, Steering_Angle = 0, throttle = 0.5, brake_pressure = 0, accx = 0, accy = 0, speed = 10,
       dt = 1, X = 10, Y = 0, Laptrigger_lapdist_dls = 10\<rparr>]"

definition demo_data_dir :: "dir_entry list" where
  "demo_data_dir = [\<lparr>entry_path = [''R1_telemetry_data.csv''], entry_is_dir = False\<rparr>]"

definition demo_input :: app_input where
  "demo_input = \<lparr>data_dir = demo_data_dir, file_rows = demo_raw,
                  pick_vehicle = ''GR86-002'', pick_lap = 3, seg_slider = 60, run_button = True\<rparr>"


section \<open>Properties of the session\<close>

lemma show_results_state [simp]: "snd (show_results st) = st"
  by (simp add: show_results_def split: option.splits sum.splits)

lemma app_run_as_written_state [simp]: "snd (app_run app_loader_as_written inp st) = st"
  by (simp add: app_run_def analyse_def app_loader_as_written_def Let_def split: option.splits)

lemma reachable_as_written: "reachable app_loader_as_written st \<Longrightarrow> st = session0"
  by (induction rule: reachable.induct) simp_all

text \<open>
  C19. The dashboard as written never analyses a lap: every session it can reach is the
  fresh one, and every run stops before a summary, because the load calls
  \<open>load_data.load_session\<close>, which does not exist.
\<close>

theorem app_as_written_never_analyses:
  assumes "reachable app_loader_as_written st"
  shows "final_df st = None \<and>
    fst (app_run app_loader_as_written inp st) \<in> {StopNoTelemetry, StopNoVehicles, StopNoLaps, StopProcessingError}"
proof -
  have st: "st = session0" using assms by (rule reachable_as_written)
  then show ?thesis
    by (simp add: app_run_def analyse_def app_loader_as_written_def should_run_def session0_def Let_def
        split: option.splits)
qed

theorem app_as_written_never_analyses_witness:
  "reachable app_loader_as_written session0 \<and> final_df session0 = None \<and>
   fst (app_run app_loader_as_written demo_input session0) \<in> {StopNoTelemetry, StopNoVehicles, StopNoLaps, StopProcessingError}"
  using app_as_written_never_analyses [OF reachable.fresh] reachable.fresh by blast

text \<open>
  C22. With a loader that works, one run brings the session up to date: whenever the
  load of the current selection gives a non-empty table and its segmentation succeeds,
  the session afterwards
  holds a merged table computed for the current configuration (recomputed if the
  button was pressed or the configuration changed, reused otherwise).
\<close>

theorem app_run_brings_session_up_to_date:
  assumes "telemetry_path (scan_data_directory (data_dir inp)) = Some path"
    "get_available_vehicles (file_rows inp) \<noteq> []"
    "get_available_laps (file_rows inp) (selected_vehicle inp) \<noteq> []"
    "load path (selected_vehicle inp) (selected_lap inp) (file_rows inp) = Some df" "df \<noteq> []"
    "segment_lap Laptrigger_lapdist_dls df (seg_slider inp) = Inr seg"
  shows "last_config (snd (app_run load inp st)) = Some (current_config inp path)
    \<and> final_df (snd (app_run load inp st)) \<noteq> None"
proof (cases "should_run inp (current_config inp path) st")
  case True
  let ?cfg = "current_config inp path"
  have "app_run load inp st = analyse load path ?cfg (file_rows inp) st"
    using True assms(1-3) by (simp add: app_run_def)
  also have "\<dots> = show_results (st\<lparr>final_df := Some (final_table seg (compute_cli (compute_segment_metrics seg))),
      metrics_df := Some (compute_cli (compute_segment_metrics seg)), last_config := Some ?cfg\<rparr>)"
    using assms(4,6) compute_cli_table_segmented [OF assms(6,5)]
    by (simp add: analyse_def current_config_def Let_def)
  finally show ?thesis by simp
next
  case False
  have "app_run load inp st = show_results st" using False assms(1-3) by (simp add: app_run_def)
  then show ?thesis using False by (auto simp: should_run_def)
qed

lemma demo_input_options:
  "get_available_vehicles (file_rows demo_input) \<noteq> []"
  "selected_vehicle demo_input = ''GR86-002''"
  "get_available_laps (file_rows demo_input) ''GR86-002'' \<noteq> []"
  "selected_lap demo_input = 3"
proof -
  have v: "''GR86-002'' \<in> set (get_available_vehicles demo_raw)"
    by (simp add: get_available_vehicles_set demo_raw_def)
  have l: "(3::int) \<in> set (get_available_laps demo_raw ''GR86-002'')"
    by (simp add: get_available_laps_set demo_raw_def)
  show "get_available_vehicles (file_rows demo_input) \<noteq> []" using v by (auto simp: demo_input_def)
  show sv: "selected_vehicle demo_input = ''GR86-002''"
    using v by (simp add: selected_vehicle_def selectbox_def demo_input_def)
  show "get_available_laps (file_rows demo_input) ''GR86-002'' \<noteq> []" using l by (auto simp: demo_input_def)
  show "selected_lap demo_input = 3"
    using l sv by (simp add: selected_lap_def selectbox_def demo_input_def)
qed

theorem app_run_brings_session_up_to_date_witness:
  "\<exists>seg. segment_lap Laptrigger_lapdist_dls demo_track 60 = Inr seg \<and>
     last_config (snd (app_run (\<lambda>_ _ _ _. Some demo_track) demo_input session0))
       = Some (current_config demo_input [''R1_telemetry_data.csv''])
     \<and> final_df (snd (app_run (\<lambda>_ _ _ _. Some demo_track) demo_input session0)) \<noteq> None"
proof -
  obtain seg where seg: "segment_lap Laptrigger_lapdist_dls demo_track 60 = Inr seg"
    by (simp add: segment_lap_def demo_track_def Let_def smax_def)
  have "seg_slider demo_input = 60" by (simp add: demo_input_def)
  moreover have "telemetry_path (scan_data_directory (data_dir demo_input)) = Some [''R1_telemetry_data.csv'']"
    unfolding demo_input_def app_input.select_convs demo_data_dir_def by code_simp
  ultimately show ?thesis
    using app_run_brings_session_up_to_date [of demo_input "[''R1_telemetry_data.csv'']" "\<lambda>_ _ _ _. Some demo_track"
        demo_track seg session0] demo_input_options seg by (simp add: demo_track_def)
qed

lemma show_results_outcome:
  "fst (show_results st) = ShowPrompt \<or> (\<exists>c. fst (show_results st) = Crashed c)"
  by (simp add: show_results_def results_panel_key_error split: option.splits sum.splits)

lemma app_run_outcome:
  "fst (app_run load inp st) \<in> {StopNoTelemetry, StopNoVehicles, StopNoLaps, StopProcessingError, ShowPrompt}
   \<or> (\<exists>c. fst (app_run load inp st) = Crashed c)"
  using show_results_outcome
  by (auto simp: app_run_def analyse_def Let_def split: option.splits sum.splits)

text \<open>
  C16. No run of the dashboard ever shows the session summary, whatever the loader: the
  summary panel reads \<open>results['max_stress_segment']['segment_id']\<close> (line 121), a column
  the section table of \<open>compute_insights\<close> does not have, and raises \<open>KeyError\<close>.
\<close>

theorem app_run_never_shows_summary: "fst (app_run load inp st) \<noteq> ShowSummary v"
  using app_run_outcome [of load inp st] by auto

lemma app_run_session:
  "snd (app_run load inp st) = st \<or>
   (\<exists>f m c. snd (app_run load inp st) = st\<lparr>final_df := Some f, metrics_df := Some m, last_config := Some c\<rparr>)"
  by (auto simp: app_run_def analyse_def Let_def split: option.splits sum.splits)

text \<open>
  C20. In every session a browser tab can reach, with any loader, the merged table and
  the metrics table are stored together: \<open>st.session_state['metrics_df']\<close> (line 111) is
  present whenever \<open>'final_df'\<close> is.
\<close>

theorem reachable_session_consistent:
  assumes "reachable load st"
  shows "final_df st = None \<longleftrightarrow> metrics_df st = None"
  using assms
proof (induction rule: reachable.induct)
  case fresh
  then show ?case by (simp add: session0_def)
next
  case (rerun st inp)
  then show ?case using app_run_session [of load inp st] by auto
qed

theorem reachable_session_consistent_witness:
  "reachable (\<lambda>_ _ _ _. Some demo_track) (snd (app_run (\<lambda>_ _ _ _. Some demo_track) demo_input session0))
   \<and> (final_df (snd (app_run (\<lambda>_ _ _ _. Some demo_track) demo_input session0)) = None
      \<longleftrightarrow> metrics_df (snd (app_run (\<lambda>_ _ _ _. Some demo_track) demo_input session0)) = None)"
proof -
  have r: "reachable (\<lambda>_ _ _ _. Some demo_track) (snd (app_run (\<lambda>_ _ _ _. Some demo_track) demo_input session0))"
    by (rule reachable.rerun [OF reachable.fresh])
  show ?thesis using r reachable_session_consistent [OF r] by blast
qed

end
