(* ===== verification/Spec2Isabelle.thy ===== *)
theory Spec2Isabelle
  imports Dashboard TrackMap Scan
begin

text \<open>
  \<^bold>\<open>Mental fatigue propagation: a verified model of the pipeline.\<close>
  The repository computes a Cognitive Load Index (CLI) for one lap of one vehicle from
  raw telemetry. Data flows one way through the parts below, each modelled in its own
  theory, and a Streamlit script drives them:

  \<^item> \<open>Prelude\<close>: the pandas primitives shared by all parts (\<open>cumsum\<close>,
    \<open>diff().fillna(0)\<close> as \<open>diff0\<close>, \<open>mean\<close>, \<open>max\<close>/\<open>min\<close> as \<open>smax\<close>/\<open>smin\<close>, the
    non-NaN values of a column as \<open>present\<close>, \<open>GroupBy.first\<close> as \<open>first_present\<close>).
    A float column is a \<open>real list\<close>, a column that may hold NaN a
    \<open>real option list\<close> with \<open>None\<close> for NaN. Floats are reals: rounding is not modelled.
  \<^item> \<open>Loader\<close> (\<open>src/src/processor.py\<close> lines 16-96, the first half of
    \<open>process_lap_data\<close>): chunked reading and the vehicle/lap filter (\<open>read_lap\<close>,
    \<open>chunks\<close>), the pivot to one row per timestamp (\<open>pivot_table\<close>), \<open>ffill().bfill()\<close>
    (\<open>fill_col\<close>), renaming, zero-filling of missing channels and unit normalisation
    (\<open>normalize_signals\<close>); \<open>load_lap\<close> composes them into a \<open>sample\<close> list,
    \<open>NoDataFound\<close> or \<open>AmbiguousColumn\<close>.
  \<^item> \<open>Discovery\<close> (\<open>src/src/load_data.py\<close>, \<open>get_available_vehicles\<close>,
    \<open>get_available_laps\<close>): the sorted sets of vehicles and laps a file offers.
  \<^item> \<open>Scan\<close> (\<open>load_data.py\<close>): \<open>scan_data_directory\<close> over a directory listing,
    with POSIX \<open>glob\<close> and \<open>fnmatch\<close> written out (\<open>wmatch\<close>, \<open>glob_in\<close>,
    \<open>glob_recursive\<close>, \<open>scan_key\<close>), and the legacy \<open>load_telemetry\<close> over a file
    system given as a map from paths to CSV frames.
  \<^item> \<open>Track\<close> (\<open>processor.py\<close> lines 98-145): \<open>dead_reckoning\<close> translates the
    column code; \<open>integ_step\<close>/\<open>integrate\<close> are the spec's stateful integrator, and
    the column code is proved to compute exactly its states.
  \<^item> \<open>Segment\<close> (\<open>src/src/segment_lap.py\<close>): \<open>segment_lap\<close> over any row type with a
    distance projection, with the NaN cast error as \<open>NonFiniteSegmentId\<close>.
  \<^item> \<open>Metrics\<close> (\<open>src/src/compute_metrics.py\<close>): groupby and the five metrics, the
    histogram entropy written out from numpy's and scipy's documented semantics.
  \<^item> \<open>Fusion\<close> (\<open>src/src/cli_model.py\<close>): min-max normalisation, the weighted CLI and
    the centred rolling mean with NaN handling; \<open>compute_cli_table\<close> adds the
    \<open>KeyError\<close> of a metrics frame without columns.
  \<^item> \<open>Insights\<close> (\<open>src/src/insights.py\<close>): \<open>compute_insights\<close> with groupby-first,
    cause attribution, top/bottom five, 0.8 quantile, \<open>mode()[0]\<close> and the
    \<open>idxmax\<close> failure as \<open>NoSmoothedLoad\<close>.
  \<^item> \<open>TrackMap\<close> (\<open>src/src/track_map.py\<close>): the data \<open>plot_track_map\<close> draws
    (smoothing, shift, 30 degree rotation, scaling, the coloured segments, the section
    markers every \<open>len(df)//10\<close> rows, the three highest-load rows and the title
    \<open>map_title\<close>), with its failures as \<open>plot_error\<close>.
  \<^item> \<open>Pipeline\<close> (\<open>src/app.py\<close> lines 82-113): \<open>process_lap_data\<close> and
    \<open>app_analysis\<close>, the composition load, reconstruct, segment, metrics, CLI, merge on
    \<open>segment_id\<close> (\<open>merge_metrics\<close>), insights, with each stage's failure a
    \<open>pipeline_error\<close>.
  \<^item> \<open>Panel\<close> (\<open>src/app.py\<close> lines 109-169): the results panel drawn after
    \<open>compute_insights\<close> (\<open>results_panel\<close>): the summary metrics, the track map, the
    CLI chart and the two tables, a row of the section table as a pandas Series given by
    the association list of its columns (\<open>section_series\<close>), a missing column as
    \<open>KeyError\<close>, the ways a run can crash as \<open>crash\<close>.
  \<^item> \<open>Dashboard\<close> (\<open>src/app.py\<close> lines 38-133): one rerun of the script as
    \<open>app_run\<close> on the \<open>session\<close> record (\<open>st.session_state\<close>): the scan, the stops,
    the select boxes, \<open>should_run\<close>, the analysis (\<open>analyse\<close>) and the results panel
    (\<open>show_results\<close>: \<open>compute_insights\<close>, then the track map). The loader is a
    parameter; \<open>reachable\<close> is the inductive set of sessions a browser tab reaches.

  Each theory opens with what it models and proves. In short, the lemmas show:
  segment ids in range, the boundary clamp and the accepted non-positive segment count;
  that the column code is the integrator's fold, lap distance monotone and position
  within lap distance; one metrics row per segment id, entropy bounds, the spec's
  constant-throttle scenario and the NaN of a one-row segment; CLI and its components in
  [0, 1] wherever defined, the smoothing at the ends and inside the lap, the NaN
  propagation from lat_instability and that long_jerk does not enter the CLI; that no
  section is attributed to long_jerk, exactly when the summary fails, that the "N/A"
  branch is unreachable and the ranking of the top and bottom five; that chunked reading
  equals reading the whole file and chunked discovery equals discovery over the whole
  file, the exact effect of \<open>ffill().bfill()\<close>, zero-filled missing channels, the pedal
  bounds, and that a lap with both a raw and a standard throttle channel does not load;
  that every lap discovery offers passes the loader's check; what the directory scan
  finds (exactly the three casings of a pattern); the drawn map coordinates' bounds; that
  the metrics merge gives every sample the row of its own segment; that the app as
  written never leaves the fresh session, that with a working loader one run on a
  non-empty lap brings the session up to date, that every reachable session stores the
  merged and the metrics table together, and that no run, whatever the loader, ever
  shows the summary (the panel's \<open>segment_id\<close> lookup raises \<open>KeyError\<close>); and, across
  components, that a lap without a speed channel crashes the analysis in the segmenter
  and a lap of NaN readings crashes it in \<open>compute_cli\<close>.

  Corners of pandas that the model writes out rather than inherits from HOL: a metrics
  frame built from no rows has no columns, so \<open>compute_cli\<close> raises \<open>KeyError\<close>
  (\<open>compute_cli_table\<close>); two columns of one name make the truth tests of
  \<open>processor.py\<close> lines 91/95 raise (\<open>ambiguous_channel\<close>). Where HOL's totality hides a
  pandas NaN without changing the program's result (\<open>mean [] = 0\<close> behind the guard of
  \<open>compute_metrics.py\<close> line 39, \<open>0 * ln 0 = 0\<close> behind the zero-bin filter of line 11),
  no property is claimed about that guard.

  No loop of the program needs fuel: every recursion is structural or, for
  \<open>chunks\<close>, terminates by the length of the rest of the file; every function of the
  model is total and executable. Streamlit's rerun loop is not a loop of the script: it
  is the \<open>reachable\<close> relation.

  Not modelled: the file system calls, CSV parsing, header detection and \<open>to_datetime\<close>
  of \<open>process_lap_data\<close> (the model starts from parsed rows; \<open>load_telemetry\<close>'s cell
  parser is a parameter), the matplotlib figures of \<open>track_map.py\<close> and \<open>app.py\<close>
  (their data is modelled), and the widgets, spinners and caching of \<open>app.py\<close> (a run's
  inputs are what the widgets return). \<open>app.py\<close> line 85 calls
  \<open>load_data.load_session\<close>, which the repository does not define:
  \<open>app_loader_as_written\<close> always raises, and \<open>app_analysis\<close> and
  \<open>app_loader_intended\<close> call \<open>process_lap_data\<close> in its place. The self-test
  of \<open>segment_lap.py\<close> is \<open>segment_lap_main\<close>; the empty self-tests of
  \<open>cli_model.py\<close> and \<open>compute_metrics.py\<close> (\<open>pass\<close>), the imports and the page
  set-up of \<open>app.py\<close> (lines 1-36) do nothing to model. The title, labels and colour
  map of the figures are display only. pandas' default
  quicksort is not stable; the sorts are modelled by the stable \<open>sort_key\<close>.
\<close>


section \<open>Properties across components\<close>

text \<open>
  C39. A lap with readings but no speed channel crashes the analysis in the segmenter:
  the loader fills speed with zeros, the reconstructed lap distance is 0 everywhere, and
  \<open>segment_lap\<close> divides by a zero segment length (the \<open>astype(int)\<close> of NaN raises,
  outside the app's \<open>try\<close>). The lap is one whose throttle and brake readings use the
  raw channel names only (else the loader fails first, \<open>AmbiguousColumn\<close>).
\<close>

theorem app_analysis_missing_speed:
  assumes "valued (filter (lap_filter v l) rows) \<noteq> []"
    "\<forall>r \<in> set rows. lap_filter v l r \<longrightarrow> telemetry_value r \<noteq> None \<longrightarrow> rename_channel (telemetry_name r) \<noteq> ''speed''"
    "\<forall>r \<in> set rows. lap_filter v l r \<longrightarrow> telemetry_value r \<noteq> None \<longrightarrow>
       telemetry_name r \<noteq> ''throttle'' \<and> telemetry_name r \<noteq> ''brake_pressure''"
  shows "app_analysis v l n rows = Inl (SegmentFailed NonFiniteSegmentId)"
proof -
  have "filter (lap_filter v l) rows \<noteq> []" using assms(1) by (metis filter.simps(1) valued_def)
  moreover have "ambiguous_channel (loaded_cols (filter (lap_filter v l) rows)) = None"
    using assms(3) by (intro ambiguous_channel_None) auto
  ultimately obtain s where s: "load_lap v l rows = Inr s" by (simp add: load_lap_eq)
  have ne: "dead_reckoning s \<noteq> []" using load_lap_nonempty [OF s assms(1)] by (metis length_0_conv length_dead_reckoning)
  have "\<forall>r \<in> set (dead_reckoning s). Laptrigger_lapdist_dls r = 0"
    using dead_reckoning_standstill [OF load_lap_speed_zero [OF s assms(2)]] by blast
  then have "segment_lap Laptrigger_lapdist_dls (dead_reckoning s) n = Inl NonFiniteSegmentId"
    using ne by (rule segment_lap_all_zero [rotated])
  then show ?thesis by (simp add: app_analysis_def process_lap_data_def s)
qed

theorem app_analysis_missing_speed_witness:
  "app_analysis ''GR86-002'' 3 60 demo_raw = Inl (SegmentFailed NonFiniteSegmentId)"
proof -
  have "valued (filter (lap_filter ''GR86-002'' 3) demo_raw) \<noteq> []"
    by (simp add: demo_raw_def lap_filter_def valued_def)
  moreover have "\<forall>r \<in> set demo_raw. lap_filter ''GR86-002'' 3 r \<longrightarrow> telemetry_value r \<noteq> None
      \<longrightarrow> rename_channel (telemetry_name r) \<noteq> ''speed''"
    by (simp add: demo_raw_def lap_filter_def rename_channel_def)
  moreover have "\<forall>r \<in> set demo_raw. lap_filter ''GR86-002'' 3 r \<longrightarrow> telemetry_value r \<noteq> None \<longrightarrow>
       telemetry_name r \<noteq> ''throttle'' \<and> telemetry_name r \<noteq> ''brake_pressure''"
    by (simp add: demo_raw_def)
  ultimately show ?thesis by (rule app_analysis_missing_speed)
qed


text \<open>
  C8. A lap whose rows all hold NaN readings passes the loader's check (there are rows of
  the vehicle and lap) but loads as an empty table; the empty table is segmented into no
  rows, the metric engine returns a frame without columns, and \<open>compute_cli\<close> raises
  \<open>KeyError\<close> on \<open>steering_entropy\<close>. The spec asks for \<open>NotFound\<close> here.
\<close>

theorem app_analysis_valueless_lap:
  assumes "filter (lap_filter v l) rows \<noteq> []" "valued (filter (lap_filter v l) rows) = []"
  shows "app_analysis v l n rows = Inl (FusionFailed (MissingMetricColumn ''steering_entropy''))"
proof -
  have pc: "pivot_columns (filter (lap_filter v l) rows) = []" "pivot_index (filter (lap_filter v l) rows) = []"
    by (simp_all add: pivot_columns_def pivot_index_def assms(2))
  have ns: "normalize_signals ([], []) = []" by (simp add: normalize_signals_def)
  have ld: "load_lap v l rows = Inr []" using assms(1) pc ns by (simp add: load_lap_eq ambiguous_channel_def)
  have "length (dead_reckoning []) = 0" by simp
  then have dr: "dead_reckoning [] = []" by (simp only: length_0_conv)
  have pd: "process_lap_data v l rows = Inr []" by (simp add: process_lap_data_def ld dr)
  have sg: "segment_lap Laptrigger_lapdist_dls [] n = Inr []" by (simp add: segment_lap_def)
  have cm: "compute_segment_metrics [] = []"
    by (simp add: compute_segment_metrics_def group_by_segment_def)
  show ?thesis by (simp add: app_analysis_def compute_cli_table_def pd sg cm)
qed

theorem app_analysis_valueless_lap_witness:
  "app_analysis ''GR86-002'' 5 60
     [\<lparr>raw_vehicle_id = Some ''GR86-002'', raw_lap = Some 5, telemetry_name = ''ath'',
        telemetry_value = None, raw_timestamp = 0\<rparr>]
   = Inl (FusionFailed (MissingMetricColumn ''steering_entropy''))"
  by (rule app_analysis_valueless_lap) (simp_all add: lap_filter_def valued_def)

end
